theory Spec2Isabelle
  imports Complex_Main "HOL-Library.Sublist"
begin

section \<open>Strings and errors as the JavaScript code uses them\<close>

text \<open>
  A JavaScript string is a \<open>string\<close>: the list of its code units, each below 256
  (the type \<open>char\<close> has the codes 0 to 255). \<open>String.prototype.includes\<close> is the
  contiguous-substring test; \<open>toLowerCase\<close> is taken on the ASCII letters (codes 65 to
  90).
\<close>

fun includes_str :: "string \<Rightarrow> string \<Rightarrow> bool" where
  "includes_str [] k = (k = [])"
| "includes_str (c # cs) k = (prefix k (c # cs) \<or> includes_str cs k)"

definition lower_char :: "char \<Rightarrow> char" where
  "lower_char c =
     (let n = (of_char c :: nat)
      in if 65 \<le> n \<and> n \<le> 90 then ''abcdefghijklmnopqrstuvwxyz'' ! (n - 65) else c)"

definition toLowerCase :: "string \<Rightarrow> string" where
  "toLowerCase s = map lower_char s"

text \<open>
  An \<open>Error\<close> object: its \<open>name\<close>, its \<open>message\<close> and the \<open>code\<close> that
  \<open>createError\<close> attaches (the empty string where the property is undefined).
\<close>

record js_error =
  err_name :: string
  err_message :: string
  err_code :: string

definition new_Error :: "string \<Rightarrow> js_error" where
  "new_Error msg = \<lparr>err_name = ''Error'', err_message = msg, err_code = ''''\<rparr>"

definition createError :: "string \<Rightarrow> string \<Rightarrow> js_error" where
  "createError msg code = \<lparr>err_name = ''Error'', err_message = msg, err_code = code\<rparr>"

definition retryableErrors :: "string list" where
  "retryableErrors =
     [''timeout'', ''network'', ''fetch'', ''connection'',
      ''service temporarily unavailable'', ''internal server error'',
      ''bad gateway'', ''service unavailable'', ''gateway timeout'']"

definition isRetryableError :: "js_error \<Rightarrow> bool" where
  "isRetryableError e =
     list_ex (\<lambda>keyword. includes_str (toLowerCase (err_message e)) keyword) retryableErrors"

section \<open>Resilience utilities\<close>

subsection \<open>retryWithBackoff\<close>

text \<open>
  The operation \<open>fn\<close> is called with the attempt number and acts on a state \<open>'s\<close>
  (whatever the operation touches); it returns \<open>Inr v\<close> or throws \<open>Inl e\<close>.
  \<open>jitter n\<close> is the value \<open>Math.random()\<close> returns before the \<open>n\<close>-th wait.
  The result holds the outcome (\<open>Inl None\<close> is \<open>throw lastError\<close> with
  \<open>lastError\<close> still undefined), the delays slept, and the final state.
\<close>

definition backoff_delay :: "rat \<Rightarrow> rat \<Rightarrow> rat \<Rightarrow> rat \<Rightarrow> nat \<Rightarrow> rat" where
  "backoff_delay baseDelay maxDelay backoffFactor rnd attempt =
     min (baseDelay * backoffFactor ^ (attempt - 1) + rnd * 1000) maxDelay"

function retry_loop ::
  "(nat \<Rightarrow> 's \<Rightarrow> ('e + 'a) \<times> 's) \<Rightarrow> nat \<Rightarrow> rat \<Rightarrow> rat \<Rightarrow> rat \<Rightarrow> (nat \<Rightarrow> rat)
     \<Rightarrow> nat \<Rightarrow> 'e option \<Rightarrow> rat list \<Rightarrow> 's \<Rightarrow> ('e option + 'a) \<times> rat list \<times> 's" where
  "retry_loop fn maxRetries baseDelay maxDelay backoffFactor jitter attempt lastError delays s =
     (if attempt \<le> maxRetries then
        (case fn attempt s of
           (Inr v, s') \<Rightarrow> (Inr v, delays, s')
         | (Inl e, s') \<Rightarrow>
             (if attempt = maxRetries then (Inl (Some e), delays, s')
              else retry_loop fn maxRetries baseDelay maxDelay backoffFactor jitter
                     (attempt + 1) (Some e)
                     (delays @ [backoff_delay baseDelay maxDelay backoffFactor (jitter attempt) attempt])
                     s'))
      else (Inl lastError, delays, s))"
  by pat_completeness auto
termination
  by (relation "measure (\<lambda>(fn, maxRetries, baseDelay, maxDelay, backoffFactor, jitter,
                            attempt, lastError, delays, s). maxRetries + 1 - attempt)") auto

declare retry_loop.simps [simp del]

definition retryWithBackoff ::
  "(nat \<Rightarrow> 's \<Rightarrow> ('e + 'a) \<times> 's) \<Rightarrow> nat \<Rightarrow> rat \<Rightarrow> rat \<Rightarrow> rat \<Rightarrow> (nat \<Rightarrow> rat)
     \<Rightarrow> 's \<Rightarrow> ('e option + 'a) \<times> rat list \<times> 's" where
  "retryWithBackoff fn maxRetries baseDelay maxDelay backoffFactor jitter s =
     retry_loop fn maxRetries baseDelay maxDelay backoffFactor jitter 1 None [] s"

text \<open>
  Counting invocations: the operation is wrapped so that each call adds one to a counter
  kept beside its own state.
\<close>

definition counted :: "(nat \<Rightarrow> 's \<Rightarrow> ('e + 'a) \<times> 's) \<Rightarrow> nat \<Rightarrow> nat \<times> 's \<Rightarrow> ('e + 'a) \<times> nat \<times> 's" where
  "counted fn attempt cs =
     (case fn attempt (snd cs) of (r, s') \<Rightarrow> (r, Suc (fst cs), s'))"

definition invocations ::
  "(nat \<Rightarrow> 's \<Rightarrow> ('e + 'a) \<times> 's) \<Rightarrow> nat \<Rightarrow> rat \<Rightarrow> rat \<Rightarrow> rat \<Rightarrow> (nat \<Rightarrow> rat) \<Rightarrow> 's \<Rightarrow> nat" where
  "invocations fn maxRetries baseDelay maxDelay backoffFactor jitter s =
     fst (snd (snd (retryWithBackoff (counted fn) maxRetries baseDelay maxDelay backoffFactor
                      jitter (0, s))))"

text \<open>An operation that rejects at every call with the same error.\<close>

definition always_rejects :: "js_error \<Rightarrow> nat \<Rightarrow> unit \<Rightarrow> (js_error + unit) \<times> unit" where
  "always_rejects e attempt s = (Inl e, s)"

subsection \<open>createProgressTracker\<close>

text \<open>
  The closure variable \<open>currentStep\<close> is the tracker's state, beside \<open>totalSteps\<close>
  and the callback \<open>onProgress\<close> (\<open>None\<close> for \<open>null\<close>). The callback acts on
  whatever it closes over, the state \<open>'w\<close>. Every method returns the \<open>progressData\<close>
  object it built and hands the same object to the callback. Steps are whole numbers.
  The percentage \<open>Math.round((step / totalSteps) * 100)\<close> is computed in double
  arithmetic and is taken as the parameter \<open>pct\<close>. The \<open>details\<close> argument is either
  absent (\<open>{}\<close>) or \<open>{completed: true}\<close>, the two objects the code passes:
  \<open>pd_completed\<close>.
\<close>

record 'p progressData =
  pd_step :: int
  pd_totalSteps :: int
  pd_progress :: 'p
  pd_message :: string
  pd_completed :: bool

record ('p, 'w) tracker =
  tr_totalSteps :: int
  tr_currentStep :: int
  tr_onProgress :: "('p progressData \<Rightarrow> 'w \<Rightarrow> 'w) option"

definition createProgressTracker ::
  "int \<Rightarrow> ('p progressData \<Rightarrow> 'w \<Rightarrow> 'w) option \<Rightarrow> ('p, 'w) tracker" where
  "createProgressTracker totalSteps onProgress =
     \<lparr>tr_totalSteps = totalSteps, tr_currentStep = 0, tr_onProgress = onProgress\<rparr>"

definition tracker_update ::
  "(int \<Rightarrow> int \<Rightarrow> 'p) \<Rightarrow> int \<Rightarrow> string \<Rightarrow> bool \<Rightarrow> ('p, 'w) tracker \<times> 'w
     \<Rightarrow> 'p progressData \<times> ('p, 'w) tracker \<times> 'w" where
  "tracker_update pct step msg completed tw =
     (let t1 = (fst tw)\<lparr>tr_currentStep := step\<rparr>;
          progressData = \<lparr>pd_step = tr_currentStep t1, pd_totalSteps = tr_totalSteps t1,
                          pd_progress = pct step (tr_totalSteps t1), pd_message = msg,
                          pd_completed = completed\<rparr>
      in (progressData, t1,
          case tr_onProgress t1 of
            None \<Rightarrow> snd tw
          | Some onProgress \<Rightarrow> onProgress progressData (snd tw)))"

definition tracker_increment ::
  "(int \<Rightarrow> int \<Rightarrow> 'p) \<Rightarrow> string \<Rightarrow> ('p, 'w) tracker \<times> 'w \<Rightarrow> 'p progressData \<times> ('p, 'w) tracker \<times> 'w" where
  "tracker_increment pct msg tw = tracker_update pct (tr_currentStep (fst tw) + 1) msg False tw"

definition tracker_complete ::
  "(int \<Rightarrow> int \<Rightarrow> 'p) \<Rightarrow> string \<Rightarrow> ('p, 'w) tracker \<times> 'w \<Rightarrow> 'p progressData \<times> ('p, 'w) tracker \<times> 'w" where
  "tracker_complete pct msg tw = tracker_update pct (tr_totalSteps (fst tw)) msg True tw"

text \<open>A sequence of tracker operations, as a caller issues them.\<close>

datatype tracker_op = Update int string | Increment string | Complete string

fun tracker_run ::
  "(int \<Rightarrow> int \<Rightarrow> 'p) \<Rightarrow> tracker_op list \<Rightarrow> ('p, 'w) tracker \<times> 'w \<Rightarrow> ('p, 'w) tracker \<times> 'w" where
  "tracker_run pct [] tw = tw"
| "tracker_run pct (Update step msg # ops) tw = tracker_run pct ops (snd (tracker_update pct step msg False tw))"
| "tracker_run pct (Increment msg # ops) tw = tracker_run pct ops (snd (tracker_increment pct msg tw))"
| "tracker_run pct (Complete msg # ops) tw = tracker_run pct ops (snd (tracker_complete pct msg tw))"

text \<open>A callback that keeps what it is given, oldest first.\<close>

definition keep_report :: "'p progressData \<Rightarrow> 'p progressData list \<Rightarrow> 'p progressData list" where
  "keep_report progressData reports = reports @ [progressData]"

section \<open>Remote access layer: the health check and its circuit breaker\<close>

text \<open>
  \<open>healthCheck._circuitBreaker\<close> is one object literal. \<open>Date.now()\<close> is read once in
  \<open>_checkCircuit\<close> and once in \<open>_recordFailure\<close>; both readings and the reply of the
  probed service come from the environment of a probe. \<open>lastFailure\<close> starts as
  \<open>null\<close>, which the subtraction reads as 0. The requests a probe sends are logged in
  \<open>hc_requests\<close>.
\<close>

record circuitBreaker =
  failures :: int
  lastFailure :: "int option"
  isOpen :: bool
  threshold :: int
  resetTime :: int

datatype probe_request = DbCountQuery | StorageListBuckets

record healthCheck =
  hc_circuitBreaker :: circuitBreaker
  hc_requests :: "probe_request list"

definition initial_healthCheck :: healthCheck where
  "initial_healthCheck =
     \<lparr>hc_circuitBreaker =
        \<lparr>failures = 0, lastFailure = None, isOpen = False, threshold = 3, resetTime = 30000\<rparr>,
      hc_requests = []\<rparr>"

definition checkCircuit :: "int \<Rightarrow> healthCheck \<Rightarrow> bool \<times> healthCheck" where
  "checkCircuit now hc =
     (let cb = hc_circuitBreaker hc in
      if failures cb \<ge> threshold cb then
        (let timeSinceLastFailure = now - (case lastFailure cb of None \<Rightarrow> 0 | Some l \<Rightarrow> l) in
         if timeSinceLastFailure > resetTime cb
         then (True, hc\<lparr>hc_circuitBreaker := cb\<lparr>failures := 0, isOpen := False\<rparr>\<rparr>)
         else (False, hc\<lparr>hc_circuitBreaker := cb\<lparr>isOpen := True\<rparr>\<rparr>))
      else (True, hc))"

definition recordFailure :: "int \<Rightarrow> healthCheck \<Rightarrow> healthCheck" where
  "recordFailure now hc =
     (let cb = hc_circuitBreaker hc;
          cb1 = cb\<lparr>failures := failures cb + 1, lastFailure := Some now\<rparr>
      in hc\<lparr>hc_circuitBreaker :=
              (if failures cb1 \<ge> threshold cb1 then cb1\<lparr>isOpen := True\<rparr> else cb1)\<rparr>)"

definition recordSuccess :: "healthCheck \<Rightarrow> healthCheck" where
  "recordSuccess hc =
     hc\<lparr>hc_circuitBreaker := (hc_circuitBreaker hc)\<lparr>failures := 0, isOpen := False\<rparr>\<rparr>"

text \<open>
  What the probed service does: it answers without an error, answers with an error, or
  the awaited promise rejects (the 5 second timer fires first, or the request throws).
\<close>

datatype probe_reply = ProbeOk | ProbeError | ProbeRejected

text \<open>
  A probe (\<open>testConnection\<close>, \<open>testStorageConnection\<close>) runs in two steps with an
  \<open>await\<close> between them. At its start it calls \<open>_checkCircuit\<close> and either returns
  \<open>false\<close> at once or sends its request. When the request has settled it records the
  outcome in the breaker and returns. Steps of other probes can run between the two.
\<close>

definition probe_start :: "probe_request \<Rightarrow> int \<Rightarrow> healthCheck \<Rightarrow> bool \<times> healthCheck" where
  "probe_start request now hc =
     (case checkCircuit now hc of
        (False, hc1) \<Rightarrow> (False, hc1)
      | (True, hc1) \<Rightarrow> (True, hc1\<lparr>hc_requests := hc_requests hc1 @ [request]\<rparr>))"

definition probe_finish :: "probe_reply \<Rightarrow> int \<Rightarrow> healthCheck \<Rightarrow> bool \<times> healthCheck" where
  "probe_finish reply now hc =
     (case reply of
        ProbeOk \<Rightarrow> (True, recordSuccess hc)
      | ProbeError \<Rightarrow> (False, recordFailure now hc)
      | ProbeRejected \<Rightarrow> (False, recordFailure now hc))"

text \<open>
  A probe that runs alone: no step of another probe comes between its start and its
  finish. The environment of such a probe gives the clock reading of \<open>_checkCircuit\<close>,
  the reply, and the clock reading of \<open>_recordFailure\<close>.
\<close>

record probe_env =
  pe_check_time :: int
  pe_reply :: probe_reply
  pe_failure_time :: int

definition run_probe :: "probe_request \<Rightarrow> probe_env \<Rightarrow> healthCheck \<Rightarrow> bool \<times> healthCheck" where
  "run_probe request pe hc =
     (case probe_start request (pe_check_time pe) hc of
        (False, hc1) \<Rightarrow> (False, hc1)
      | (True, hc2) \<Rightarrow> probe_finish (pe_reply pe) (pe_failure_time pe) hc2)"

definition testConnection :: "probe_env \<Rightarrow> healthCheck \<Rightarrow> bool \<times> healthCheck" where
  "testConnection = run_probe DbCountQuery"

definition testStorageConnection :: "probe_env \<Rightarrow> healthCheck \<Rightarrow> bool \<times> healthCheck" where
  "testStorageConnection = run_probe StorageListBuckets"

definition failing_probe :: "probe_env \<Rightarrow> bool" where
  "failing_probe pe = (pe_reply pe \<noteq> ProbeOk)"

text \<open>
  Probes that overlap. The steps of all probes, in the order in which they run:
  \<open>Started\<close> is the start of a probe at a clock reading, \<open>Settled\<close> the finish of a
  probe of that kind whose request is in flight, with its reply and the clock reading of
  \<open>_recordFailure\<close>. The state is the requests in flight beside the health check. What
  a step gives: the probe returned \<open>false\<close> at its start without a request
  (\<open>Refused\<close>), its request is now in flight (\<open>Pending\<close>), the probe returned
  (\<open>Answered\<close>), or no request of that kind was in flight, so that no probe of the
  run takes this step and nothing changes (\<open>NotInFlight\<close>).
\<close>

datatype probe_event = Started probe_request int | Settled probe_request probe_reply int

datatype probe_outcome = Refused | Pending | Answered bool | NotInFlight

definition probe_step ::
  "probe_event \<Rightarrow> probe_request list \<times> healthCheck
     \<Rightarrow> probe_outcome \<times> probe_request list \<times> healthCheck" where
  "probe_step ev st =
     (case ev of
        Started request now \<Rightarrow>
          (case probe_start request now (snd st) of
             (False, hc1) \<Rightarrow> (Refused, fst st, hc1)
           | (True, hc1) \<Rightarrow> (Pending, fst st @ [request], hc1))
      | Settled request reply now \<Rightarrow>
          (if request \<in> set (fst st)
           then (case probe_finish reply now (snd st) of
                   (r, hc1) \<Rightarrow> (Answered r, remove1 request (fst st), hc1))
           else (NotInFlight, st)))"

fun probe_events ::
  "probe_event list \<Rightarrow> probe_request list \<times> healthCheck
     \<Rightarrow> probe_outcome list \<times> probe_request list \<times> healthCheck" where
  "probe_events [] st = ([], st)"
| "probe_events (ev # evs) st =
     (case probe_step ev st of
        (out, st1) \<Rightarrow> (case probe_events evs st1 of (outs, st2) \<Rightarrow> (out # outs, st2)))"

text \<open>The steps of probes that run alone, one after the other.\<close>

definition in_turn :: "(probe_request \<times> probe_env) list \<Rightarrow> probe_event list" where
  "in_turn probes =
     concat (map (\<lambda>(request, pe). [Started request (pe_check_time pe),
                                     Settled request (pe_reply pe) (pe_failure_time pe)]) probes)"

text \<open>
  \<open>testAllConnections\<close> calls both probes before it awaits either: the database probe
  starts, then the storage probe starts, and the two requests settle in either order
  (\<open>ac_storage_first\<close>). The 6 second timer around each probe is set after the probe's
  own 5 second timer and so never fires first. No other probe runs meanwhile.
\<close>

record all_connections_env =
  ac_db_check :: int
  ac_storage_check :: int
  ac_db_reply :: probe_reply
  ac_db_time :: int
  ac_storage_reply :: probe_reply
  ac_storage_time :: int
  ac_storage_first :: bool

record connections =
  database :: bool
  storage :: bool
  overall :: bool

definition testAllConnections :: "all_connections_env \<Rightarrow> healthCheck \<Rightarrow> connections \<times> healthCheck" where
  "testAllConnections ac hc =
     (case probe_start DbCountQuery (ac_db_check ac) hc of
        (db_sent, hc1) \<Rightarrow>
          (case probe_start StorageListBuckets (ac_storage_check ac) hc1 of
             (storage_sent, hc2) \<Rightarrow>
               (let finish_db = (\<lambda>h. if db_sent
                                      then probe_finish (ac_db_reply ac) (ac_db_time ac) h
                                      else (False, h));
                    finish_storage = (\<lambda>h. if storage_sent
                                           then probe_finish (ac_storage_reply ac) (ac_storage_time ac) h
                                           else (False, h))
                in if ac_storage_first ac
                   then (case finish_storage hc2 of
                           (storageHealthy, hc3) \<Rightarrow>
                             (case finish_db hc3 of
                                (dbHealthy, hc4) \<Rightarrow>
                                  (\<lparr>database = dbHealthy, storage = storageHealthy,
                                    overall = (dbHealthy \<and> storageHealthy)\<rparr>, hc4)))
                   else (case finish_db hc2 of
                           (dbHealthy, hc3) \<Rightarrow>
                             (case finish_storage hc3 of
                                (storageHealthy, hc4) \<Rightarrow>
                                  (\<lparr>database = dbHealthy, storage = storageHealthy,
                                    overall = (dbHealthy \<and> storageHealthy)\<rparr>, hc4))))))"

section \<open>Analysis client\<close>

text \<open>
  A JavaScript value as \<open>JSON.parse\<close> and property access produce it. An object is the
  list of its own properties (keys distinct). Numbers are the scores, whole numbers.
\<close>

datatype jsval =
    JUndefined
  | JNull
  | JBool bool
  | JNum int
  | JStr string
  | JArr "jsval list"
  | JObj "(string \<times> jsval) list"

fun truthy :: "jsval \<Rightarrow> bool" where
  "truthy JUndefined = False"
| "truthy JNull = False"
| "truthy (JBool b) = b"
| "truthy (JNum n) = (n \<noteq> 0)"
| "truthy (JStr s) = (s \<noteq> [])"
| "truthy (JArr xs) = True"
| "truthy (JObj kvs) = True"

definition named_error :: "string \<Rightarrow> string \<Rightarrow> js_error" where
  "named_error nm msg = \<lparr>err_name = nm, err_message = msg, err_code = ''''\<rparr>"

text \<open>
  \<open>v.k\<close> for the keys the code reads (\<open>overall_score\<close>, \<open>categories\<close>, \<open>ats_score\<close>):
  a TypeError on \<open>null\<close> and \<open>undefined\<close>, the property of an object, and
  \<open>undefined\<close> on every other value.
\<close>

fun get_member :: "jsval \<Rightarrow> string \<Rightarrow> js_error + jsval" where
  "get_member JUndefined k = Inl (named_error ''TypeError'' ''Cannot read properties of undefined'')"
| "get_member JNull k = Inl (named_error ''TypeError'' ''Cannot read properties of null'')"
| "get_member (JObj kvs) k = Inr (case map_of kvs k of None \<Rightarrow> JUndefined | Some v \<Rightarrow> v)"
| "get_member (JBool b) k = Inr JUndefined"
| "get_member (JNum n) k = Inr JUndefined"
| "get_member (JStr s) k = Inr JUndefined"
| "get_member (JArr xs) k = Inr JUndefined"

text \<open>
  White space, as \<open>trim\<close> and the class \<open>\s\<close> of a regular expression take it:
  among the code units below 256 these are tab, line feed, vertical tab, form feed,
  carriage return, space and the no-break space (160).
\<close>

definition is_space :: "char \<Rightarrow> bool" where
  "is_space c = ((of_char c :: nat) \<in> {9, 10, 11, 12, 13, 32, 160})"

text \<open>
  \<open>content.trim().replace(/^```json\s*|```\s*$/g, '')\<close>. The first alternative
  matches only at the start of the trimmed text, where that starts with the seven
  characters \<open>```json\<close>, and takes the white space that follows. After
  \<open>trim\<close> the text has no white space at its end, so the second alternative can only
  match the last three characters of what the first has left (the text read from its end
  starts with the fence). Nothing else is removed.
\<close>

definition trim :: "string \<Rightarrow> string" where
  "trim s = rev (dropWhile is_space (rev (dropWhile is_space s)))"

definition stripCodeFence :: "string \<Rightarrow> string" where
  "stripCodeFence content =
     (let t = trim content;
          r = (if prefix ''```json'' t then dropWhile is_space (drop 7 t) else t)
      in if prefix ''```'' (rev r) then rev (drop 3 (rev r)) else r)"

text \<open>
  What one \<open>fetch\<close> gives: the 60 second timer aborts it (an \<open>AbortError\<close>), the
  request fails in transport, the response is not \<open>ok\<close> (status and body text), its
  body is not JSON, or the body is read and \<open>data.choices?.[0]?.message?.content\<close> is
  a string or undefined. \<open>JSON.parse\<close> is the parameter \<open>parse\<close>.
\<close>

datatype fetch_reply =
    FetchAborted
  | FetchFailed string
  | HttpNotOk string string
  | HttpBodyNotJson
  | HttpContent "string option"

definition MAX_RETRIES :: nat where
  "MAX_RETRIES = 2"

definition invalid_structure :: js_error where
  "invalid_structure = new_Error ''Invalid response structure from Perplexity API''"

definition no_content :: js_error where
  "no_content = new_Error ''No content received from Perplexity API''"

text \<open>
  \<open>JSON.parse(cleanContent)\<close> and the check
  \<open>!analysisResult.overall_score || !analysisResult.categories\<close> that follows it.
\<close>

definition parse_and_validate :: "(string \<Rightarrow> jsval option) \<Rightarrow> string \<Rightarrow> js_error + jsval" where
  "parse_and_validate parse cleanContent =
     (case parse cleanContent of
        None \<Rightarrow> Inl (named_error ''SyntaxError'' ''Unexpected token'')
      | Some analysisResult \<Rightarrow>
          (case get_member analysisResult ''overall_score'' of
             Inl e \<Rightarrow> Inl e
           | Inr score \<Rightarrow>
               (if \<not> truthy score then Inl invalid_structure
                else
                  (case get_member analysisResult ''categories'' of
                     Inl e \<Rightarrow> Inl e
                   | Inr categories \<Rightarrow>
                       (if \<not> truthy categories then Inl invalid_structure
                        else Inr analysisResult)))))"

text \<open>The body of the \<open>try\<close> block of one attempt.\<close>

definition analysis_attempt :: "(string \<Rightarrow> jsval option) \<Rightarrow> fetch_reply \<Rightarrow> js_error + jsval" where
  "analysis_attempt parse reply =
     (case reply of
        FetchAborted \<Rightarrow> Inl (named_error ''AbortError'' ''The user aborted a request.'')
      | FetchFailed msg \<Rightarrow> Inl (named_error ''TypeError'' msg)
      | HttpNotOk status errorText \<Rightarrow>
          Inl (new_Error (''Perplexity API error: '' @ status @ '' - '' @ errorText))
      | HttpBodyNotJson \<Rightarrow> Inl (named_error ''SyntaxError'' ''Unexpected token'')
      | HttpContent None \<Rightarrow> Inl no_content
      | HttpContent (Some content) \<Rightarrow>
          (if content = [] then Inl no_content
           else parse_and_validate parse (stripCodeFence content)))"

text \<open>
  The retry loop of \<open>analyzeResumeWithPerplexity\<close>. \<open>fetch n\<close> is what the \<open>n\<close>-th
  call of \<open>fetch\<close> gives. The result holds the outcome, the number of \<open>fetch\<close> calls
  made, and the waits between attempts in ms. Falling out of the loop returns
  \<open>undefined\<close>.
\<close>

function analyze_loop ::
  "(string \<Rightarrow> jsval option) \<Rightarrow> (nat \<Rightarrow> fetch_reply) \<Rightarrow> nat \<Rightarrow> nat \<Rightarrow> nat list
     \<Rightarrow> (js_error + jsval) \<times> nat \<times> nat list" where
  "analyze_loop parse fetch attempt calls waits =
     (if attempt \<le> MAX_RETRIES then
        (case analysis_attempt parse (fetch attempt) of
           Inr analysisResult \<Rightarrow> (Inr analysisResult, Suc calls, waits)
         | Inl e \<Rightarrow>
             (if attempt = MAX_RETRIES \<or> err_name e = ''AbortError''
              then (Inl e, Suc calls, waits)
              else analyze_loop parse fetch (attempt + 1) (Suc calls) (waits @ [1000 * attempt])))
      else (Inr JUndefined, calls, waits))"
  by pat_completeness auto
termination
  by (relation "measure (\<lambda>(parse, fetch, attempt, calls, waits). MAX_RETRIES + 1 - attempt)") auto

declare analyze_loop.simps [simp del]

definition analyzeResumeWithPerplexity ::
  "(string \<Rightarrow> jsval option) \<Rightarrow> (nat \<Rightarrow> fetch_reply) \<Rightarrow> (js_error + jsval) \<times> nat \<times> nat list" where
  "analyzeResumeWithPerplexity parse fetch = analyze_loop parse fetch 1 0 []"

text \<open>
  \<open>JSON.parse\<close> on the three response texts the examples below use: an empty object, a
  complete analysis with \<open>overall_score\<close> 0, and one with \<open>overall_score\<close> 82.
\<close>

definition dq :: "string \<Rightarrow> string" where
  "dq s = CHR 0x22 # s @ [CHR 0x22]"

definition text_zero_score :: string where
  "text_zero_score =
     ''{'' @ dq ''overall_score'' @ '': 0, '' @ dq ''categories'' @ '': {'' @ dq ''skills''
       @ '': {'' @ dq ''score'' @ '': 0}}}''"

definition text_score_82 :: string where
  "text_score_82 =
     ''{'' @ dq ''overall_score'' @ '': 82, '' @ dq ''categories'' @ '': {'' @ dq ''skills''
       @ '': {'' @ dq ''score'' @ '': 80}}}''"

definition parse_sample :: "string \<Rightarrow> jsval option" where
  "parse_sample s =
     (if s = ''{}'' then Some (JObj [])
      else if s = text_zero_score then
        Some (JObj [(''overall_score'', JNum 0),
                    (''categories'', JObj [(''skills'', JObj [(''score'', JNum 0)])])])
      else if s = text_score_82 then
        Some (JObj [(''overall_score'', JNum 82),
                    (''categories'', JObj [(''skills'', JObj [(''score'', JNum 80)])])])
      else None)"

section \<open>Remote access layer: blob storage and resume records\<close>

text \<open>
  The hosted backend is the world the services act on: the rows of the \<open>resumes\<close>
  table by id, the blobs as (bucket, path) pairs, and the requests received, oldest
  first. The reply to a request is an input: \<open>net n rq\<close> is what the \<open>n\<close>-th request
  of the run gets when it is \<open>rq\<close>: success, an \<open>error\<close> object (message and code),
  or nothing before the caller's timer fires. A request changes the backend only when
  it succeeds.
\<close>

record js_file =
  file_name :: string
  file_size :: nat
  file_type :: string

record resume_row =
  row_id :: string
  row_user_id :: string
  row_company_name :: string
  row_job_title :: string
  row_job_description :: string
  row_resume_path :: "string option"
  row_image_path :: "string option"
  row_feedback :: "jsval option"
  row_overall_score :: jsval
  row_ats_score :: jsval

datatype request =
    StorageUpload string string
  | StorageRemove string string
  | DbInsert resume_row
  | DbSelect string
  | DbUpdate string jsval
  | DbDelete string

datatype reply = ReplyOk | ReplyError string string | ReplyTimeout

record backend =
  be_rows :: "string \<rightharpoonup> resume_row"
  be_blobs :: "(string \<times> string) set"
  be_requests :: "request list"

definition member_or_undefined :: "jsval \<Rightarrow> string \<Rightarrow> jsval" where
  "member_or_undefined v k = (case get_member v k of Inl e \<Rightarrow> JUndefined | Inr x \<Rightarrow> x)"

fun effect :: "request \<Rightarrow> backend \<Rightarrow> backend" where
  "effect (StorageUpload bucket path) b = b\<lparr>be_blobs := insert (bucket, path) (be_blobs b)\<rparr>"
| "effect (StorageRemove bucket path) b = b\<lparr>be_blobs := be_blobs b - {(bucket, path)}\<rparr>"
| "effect (DbInsert row) b = b\<lparr>be_rows := (be_rows b)(row_id row \<mapsto> row)\<rparr>"
| "effect (DbSelect ident) b = b"
| "effect (DbUpdate ident feedback) b =
     (case be_rows b ident of
        None \<Rightarrow> b
      | Some row \<Rightarrow>
          b\<lparr>be_rows := (be_rows b)(ident \<mapsto>
               row\<lparr>row_feedback := Some feedback,
                   row_overall_score := member_or_undefined feedback ''overall_score'',
                   row_ats_score := member_or_undefined feedback ''ats_score''\<rparr>)\<rparr>)"
| "effect (DbDelete ident) b = b\<lparr>be_rows := (be_rows b)(ident := None)\<rparr>"

definition perform :: "(nat \<Rightarrow> request \<Rightarrow> reply) \<Rightarrow> request \<Rightarrow> backend \<Rightarrow> reply \<times> backend" where
  "perform net rq b =
     (let r = net (length (be_requests b)) rq;
          b1 = b\<lparr>be_requests := be_requests b @ [rq]\<rparr>
      in (r, if r = ReplyOk then effect rq b1 else b1))"

text \<open>Decimal digits of a number, as a template literal prints it.\<close>

function show_nat :: "nat \<Rightarrow> string" where
  "show_nat n =
     (if n < 10 then [''0123456789'' ! n] else show_nat (n div 10) @ [''0123456789'' ! (n mod 10)])"
  by pat_completeness auto
termination
  by (relation "measure (\<lambda>n. n)") auto

declare show_nat.simps [simp del]

text \<open>
  \<open>retryWithBackoff\<close> as the services call it. Every caller passes a positive
  \<open>maxRetries\<close>, so the thrown value is an error; a thrown \<open>undefined\<close> is kept as an
  error of that name.
\<close>

definition thrown :: "js_error option \<Rightarrow> js_error" where
  "thrown e = (case e of None \<Rightarrow> named_error ''undefined'' '''' | Some err \<Rightarrow> err)"

definition with_retry ::
  "(nat \<Rightarrow> rat) \<Rightarrow> nat \<Rightarrow> (nat \<Rightarrow> backend \<Rightarrow> (js_error + 'a) \<times> backend) \<Rightarrow> backend
     \<Rightarrow> (js_error + 'a) \<times> backend" where
  "with_retry jitter maxRetries fn b =
     (case retryWithBackoff fn maxRetries 1000 10000 2 jitter b of
        (Inl e, delays, b1) \<Rightarrow> (Inl (thrown e), b1)
      | (Inr v, delays, b1) \<Rightarrow> (Inr v, b1))"

text \<open>
  The \<open>catch\<close> block shared by \<open>deleteFile\<close>, \<open>create\<close> and \<open>updateFeedback\<close>:
  an error that is not retryable is thrown as it is, a retryable one is wrapped.
\<close>

definition rethrow :: "string \<Rightarrow> string \<Rightarrow> nat \<Rightarrow> js_error \<Rightarrow> js_error" where
  "rethrow what code attempt err =
     (if \<not> isRetryableError err then err
      else createError (what @ '' attempt '' @ show_nat attempt @ '' failed: '' @ err_message err) code)"

subsection \<open>storageService\<close>

definition deleteFile_attempt ::
  "(nat \<Rightarrow> request \<Rightarrow> reply) \<Rightarrow> string \<Rightarrow> string \<Rightarrow> nat \<Rightarrow> nat \<Rightarrow> backend
     \<Rightarrow> (js_error + unit) \<times> backend" where
  "deleteFile_attempt net path bucket timeout_ms attempt b =
     (case perform net (StorageRemove bucket path) b of
        (ReplyOk, b1) \<Rightarrow> (Inr (), b1)
      | (ReplyError msg code, b1) \<Rightarrow>
          (Inl (rethrow ''Delete'' ''DELETE_RETRY_FAILED'' attempt
                  (createError (''File deletion failed: '' @ msg) ''DELETE_FAILED'')), b1)
      | (ReplyTimeout, b1) \<Rightarrow>
          (Inl (rethrow ''Delete'' ''DELETE_RETRY_FAILED'' attempt
                  (new_Error (''Delete timeout after '' @ show_nat timeout_ms @ ''ms''))), b1))"

definition deleteFile ::
  "(nat \<Rightarrow> request \<Rightarrow> reply) \<Rightarrow> (nat \<Rightarrow> rat) \<Rightarrow> string \<Rightarrow> string \<Rightarrow> nat \<Rightarrow> backend
     \<Rightarrow> (js_error + unit) \<times> backend" where
  "deleteFile net jitter path bucket timeout_ms b =
     with_retry jitter 3 (deleteFile_attempt net path bucket timeout_ms) b"

text \<open>
  \<open>uploadFile\<close> as the upload view calls it: \<open>skipHealthCheck\<close> is true and
  \<open>upsert\<close> is false. Its status-line callbacks are not part of the model.
\<close>

definition uploadFile_attempt ::
  "(nat \<Rightarrow> request \<Rightarrow> reply) \<Rightarrow> string \<Rightarrow> string \<Rightarrow> nat \<Rightarrow> nat \<Rightarrow> backend
     \<Rightarrow> (js_error + string) \<times> backend" where
  "uploadFile_attempt net path bucket timeout_ms attempt b =
     (case perform net (StorageUpload bucket path) b of
        (ReplyOk, b1) \<Rightarrow> (Inr path, b1)
      | (ReplyError msg code, b1) \<Rightarrow>
          (if includes_str msg ''already exists''
           then (Inl (createError ''File already exists. Enable overwrite or use a different name.''
                        ''FILE_EXISTS''), b1)
           else (Inl (createError (''Upload failed: '' @ msg) ''UPLOAD_FAILED''), b1))
      | (ReplyTimeout, b1) \<Rightarrow>
          (Inl (new_Error (''Upload timeout after '' @ show_nat timeout_ms @ ''ms'')), b1))"

definition uploadFile ::
  "(nat \<Rightarrow> request \<Rightarrow> reply) \<Rightarrow> (nat \<Rightarrow> rat) \<Rightarrow> js_file \<Rightarrow> string \<Rightarrow> string \<Rightarrow> nat \<Rightarrow> nat
     \<Rightarrow> backend \<Rightarrow> (js_error + string) \<times> backend" where
  "uploadFile net jitter file path bucket timeout_ms maxRetries b =
     (if file_size file = 0 then (Inl (createError ''Invalid file provided'' ''INVALID_FILE''), b)
      else if file_size file > 50 * 1024 * 1024
        then (Inl (createError ''File too large. Maximum size is 50MB'' ''FILE_TOO_LARGE''), b)
      else with_retry jitter maxRetries (uploadFile_attempt net path bucket timeout_ms) b)"

subsection \<open>resumeService\<close>

definition create_attempt ::
  "(nat \<Rightarrow> request \<Rightarrow> reply) \<Rightarrow> resume_row \<Rightarrow> nat \<Rightarrow> backend \<Rightarrow> (js_error + resume_row) \<times> backend" where
  "create_attempt net resumeData attempt b =
     (case perform net (DbInsert resumeData) b of
        (ReplyOk, b1) \<Rightarrow> (Inr resumeData, b1)
      | (ReplyError msg code, b1) \<Rightarrow>
          (Inl (rethrow ''Create'' ''CREATE_RETRY_FAILED'' attempt
                  (createError (''Failed to create resume record: '' @ msg) ''DB_CREATE_FAILED'')), b1)
      | (ReplyTimeout, b1) \<Rightarrow>
          (Inl (rethrow ''Create'' ''CREATE_RETRY_FAILED'' attempt
                  (new_Error ''Database insert timeout'')), b1))"

definition resumeService_create ::
  "(nat \<Rightarrow> request \<Rightarrow> reply) \<Rightarrow> (nat \<Rightarrow> rat) \<Rightarrow> resume_row \<Rightarrow> backend
     \<Rightarrow> (js_error + resume_row) \<times> backend" where
  "resumeService_create net jitter resumeData b =
     with_retry jitter 2 (create_attempt net resumeData) b"

definition resumeService_getById ::
  "(nat \<Rightarrow> request \<Rightarrow> reply) \<Rightarrow> string \<Rightarrow> backend \<Rightarrow> (js_error + resume_row) \<times> backend" where
  "resumeService_getById net ident b =
     (if ident = [] then (Inl (createError ''Resume ID is required'' ''INVALID_RESUME_ID''), b)
      else
        (case perform net (DbSelect ident) b of
           (ReplyOk, b1) \<Rightarrow>
             (case be_rows b1 ident of
                None \<Rightarrow> (Inl (createError ''Resume not found'' ''RESUME_NOT_FOUND''), b1)
              | Some row \<Rightarrow> (Inr row, b1))
         | (ReplyError msg code, b1) \<Rightarrow>
             (if code = ''PGRST116''
              then (Inl (createError ''Resume not found'' ''RESUME_NOT_FOUND''), b1)
              else (Inl (createError (''Failed to get resume: '' @ msg) ''DB_GET_FAILED''), b1))
         | (ReplyTimeout, b1) \<Rightarrow> (Inl (new_Error ''Database get timeout''), b1)))"

definition updateFeedback_attempt ::
  "(nat \<Rightarrow> request \<Rightarrow> reply) \<Rightarrow> string \<Rightarrow> jsval \<Rightarrow> nat \<Rightarrow> backend \<Rightarrow> (js_error + unit) \<times> backend" where
  "updateFeedback_attempt net ident feedback attempt b =
     (case perform net (DbUpdate ident feedback) b of
        (ReplyOk, b1) \<Rightarrow>
          (case be_rows b1 ident of
             None \<Rightarrow>
               (Inl (rethrow ''Update'' ''UPDATE_RETRY_FAILED'' attempt
                       (createError ''Resume not found for update'' ''RESUME_NOT_FOUND'')), b1)
           | Some row \<Rightarrow> (Inr (), b1))
      | (ReplyError msg code, b1) \<Rightarrow>
          (Inl (rethrow ''Update'' ''UPDATE_RETRY_FAILED'' attempt
                  (if code = ''PGRST116''
                   then createError ''Resume not found for update'' ''RESUME_NOT_FOUND''
                   else createError (''Failed to update feedback: '' @ msg) ''DB_UPDATE_FAILED'')), b1)
      | (ReplyTimeout, b1) \<Rightarrow>
          (Inl (rethrow ''Update'' ''UPDATE_RETRY_FAILED'' attempt
                  (new_Error ''Database update timeout'')), b1))"

definition resumeService_updateFeedback ::
  "(nat \<Rightarrow> request \<Rightarrow> reply) \<Rightarrow> (nat \<Rightarrow> rat) \<Rightarrow> string \<Rightarrow> jsval \<Rightarrow> backend
     \<Rightarrow> (js_error + unit) \<times> backend" where
  "resumeService_updateFeedback net jitter ident feedback b =
     (if ident = [] \<or> \<not> truthy feedback
      then (Inl (createError ''Resume ID and feedback are required'' ''INVALID_UPDATE_DATA''), b)
      else with_retry jitter 2 (updateFeedback_attempt net ident feedback) b)"

text \<open>
  Work in flight. Calls that are started and not awaited one by one (the two blob
  deletions of \<open>resumeService.delete\<close>, the tasks of \<open>cleanupFailedUpload\<close>) run
  interleaved: each proceeds from one request to its next, and between two requests of
  one call the requests of the others can reach the backend. A task is such a call at
  the point where it is about to send a request:
  \<^item> \<open>Removing path bucket timeout attempt\<close>: \<open>storageService.deleteFile\<close> before
    the given attempt of its \<open>retryWithBackoff\<close> loop (\<open>maxRetries\<close> is 3 at every
    call);
  \<^item> \<open>DeleteReading id\<close>: \<open>resumeService.delete(id)\<close> before it reads the record;
  \<^item> \<open>DeleteRow id resume\<close>: the same call before it deletes the row.

  A step of a task sends its request, takes the reply and gives the tasks that are in
  flight in its place afterwards: none when the call has settled (its rejection is
  logged by the \<open>catch\<close> attached where it was started), the same call at its next
  request, or the blob deletions that a finished \<open>delete\<close> has started.
\<close>

datatype task =
    Removing string string nat nat
  | DeleteReading string
  | DeleteRow string resume_row

text \<open>
  The deletions \<open>resumeService.delete\<close> starts once the row is gone, each only when
  the record names the blob: \<open>if (resume.resume_path)\<close>, \<open>if (resume.image_path)\<close>.
\<close>

definition started_removals :: "resume_row \<Rightarrow> task list" where
  "started_removals resume =
     (case row_resume_path resume of
        None \<Rightarrow> []
      | Some p \<Rightarrow> if p = [] then [] else [Removing p ''resumes'' 15000 1])
     @ (case row_image_path resume of
          None \<Rightarrow> []
        | Some p \<Rightarrow> if p = [] then [] else [Removing p ''resume-images'' 15000 1])"

fun task_step :: "(nat \<Rightarrow> request \<Rightarrow> reply) \<Rightarrow> task \<Rightarrow> backend \<Rightarrow> task list \<times> backend" where
  "task_step net (Removing path bucket timeout_ms attempt) b =
     (if attempt \<le> 3 then
        (case deleteFile_attempt net path bucket timeout_ms attempt b of
           (Inr deleted, b1) \<Rightarrow> ([], b1)
         | (Inl e, b1) \<Rightarrow>
             (if attempt = 3 then ([], b1)
              else ([Removing path bucket timeout_ms (attempt + 1)], b1)))
      else ([], b))"
| "task_step net (DeleteReading ident) b =
     (case resumeService_getById net ident b of
        (Inl e, b1) \<Rightarrow> ([], b1)
      | (Inr resume, b1) \<Rightarrow> ([DeleteRow ident resume], b1))"
| "task_step net (DeleteRow ident resume) b =
     (case perform net (DbDelete ident) b of
        (ReplyOk, b1) \<Rightarrow> (started_removals resume, b1)
      | (ReplyError msg code, b1) \<Rightarrow> ([], b1)
      | (ReplyTimeout, b1) \<Rightarrow> ([], b1))"

fun task_weight :: "task \<Rightarrow> nat" where
  "task_weight (Removing path bucket timeout_ms attempt) = Suc (4 - attempt)"
| "task_weight (DeleteReading ident) = 11"
| "task_weight (DeleteRow ident resume) = 10"

text \<open>
  The tasks in flight run until all have settled. The order is an input: the head of
  \<open>sched\<close> picks, by its remainder, the task that takes the next step (the first task
  once \<open>sched\<close> is used up). The tasks a step gives take the place of the task that
  made it.
\<close>

function run_pool :: "(nat \<Rightarrow> request \<Rightarrow> reply) \<Rightarrow> nat list \<Rightarrow> task list \<Rightarrow> backend \<Rightarrow> backend" where
  "run_pool net sched tasks b =
     (if tasks = [] then b
      else
        (let i = (case sched of [] \<Rightarrow> 0 | n # later \<Rightarrow> n mod length tasks)
         in case task_step net (tasks ! i) b of
              (started, b1) \<Rightarrow>
                run_pool net (tl sched) (take i tasks @ started @ drop (Suc i) tasks) b1))"
  by pat_completeness auto
termination
proof (relation "measure (\<lambda>(net, sched, tasks, b). sum_list (map task_weight tasks))")
  show "wf (measure (\<lambda>(net, sched, tasks, b). sum_list (map task_weight tasks)))"
    by simp
next
  fix net :: "nat \<Rightarrow> request \<Rightarrow> reply" and sched :: "nat list" and tasks :: "task list"
    and b :: backend and i :: nat and started :: "task list" and b1 :: backend
  assume ne: "tasks \<noteq> []"
    and i: "i = (case sched of [] \<Rightarrow> 0 | n # later \<Rightarrow> n mod length tasks)"
    and st: "(started, b1) = task_step net (tasks ! i) b"
  have lt: "i < length tasks"
    using ne i by (cases sched) simp_all
  have sr: "sum_list (map task_weight (started_removals resume)) \<le> 8" for resume
    by (simp add: started_removals_def split: option.splits)
  have less: "sum_list (map task_weight started) < task_weight (tasks ! i)"
  proof (cases "tasks ! i")
    case (Removing path bucket timeout_ms attempt)
    then show ?thesis
      using st by (auto split: if_splits prod.splits sum.splits)
  next
    case (DeleteReading ident)
    then show ?thesis
      using st by (auto split: prod.splits sum.splits)
  next
    case (DeleteRow ident resume)
    then show ?thesis
      using st sr [of resume] by (auto split: prod.splits reply.splits)
  qed
  have "tasks = take i tasks @ tasks ! i # drop (Suc i) tasks"
    using lt by (rule id_take_nth_drop)
  then have "sum_list (map task_weight tasks)
      = sum_list (map task_weight (take i tasks)) + task_weight (tasks ! i)
          + sum_list (map task_weight (drop (Suc i) tasks))"
    by (metis add.assoc map_append sum_list.Cons sum_list.append list.simps(9))
  then show "((net, tl sched, take i tasks @ started @ drop (Suc i) tasks, b1), net, sched, tasks, b)
      \<in> measure (\<lambda>(net, sched, tasks, b). sum_list (map task_weight tasks))"
    using less by simp
qed

declare run_pool.simps [simp del]

text \<open>
  \<open>resumeService.delete\<close>: it reads the record, deletes the row, starts the two blob
  deletions without \<open>await\<close> and returns. The result holds the outcome (\<open>None\<close> when
  the call resolves), the deletions it has left in flight, and the backend at the moment
  it returns.
\<close>

definition resumeService_delete ::
  "(nat \<Rightarrow> request \<Rightarrow> reply) \<Rightarrow> string \<Rightarrow> backend \<Rightarrow> js_error option \<times> task list \<times> backend" where
  "resumeService_delete net ident b =
     (if ident = [] then (Some (createError ''Resume ID is required'' ''INVALID_RESUME_ID''), [], b)
      else
        (case resumeService_getById net ident b of
           (Inl e, b1) \<Rightarrow> (Some e, [], b1)
         | (Inr resume, b1) \<Rightarrow>
             (case perform net (DbDelete ident) b1 of
                (ReplyError msg code, b2) \<Rightarrow>
                  (Some (createError (''Failed to delete resume: '' @ msg) ''DB_DELETE_FAILED''),
                   [], b2)
              | (ReplyTimeout, b2) \<Rightarrow> (Some (new_Error ''Database delete timeout''), [], b2)
              | (ReplyOk, b2) \<Rightarrow> (None, started_removals resume, b2))))"

fun is_blob_removal :: "request \<Rightarrow> bool" where
  "is_blob_removal (StorageRemove bucket path) = True"
| "is_blob_removal (StorageUpload bucket path) = False"
| "is_blob_removal (DbInsert row) = False"
| "is_blob_removal (DbSelect ident) = False"
| "is_blob_removal (DbUpdate ident feedback) = False"
| "is_blob_removal (DbDelete ident) = False"

text \<open>The removal requests one best-effort blob deletion sends when it makes \<open>k\<close> attempts.\<close>

definition blob_removals :: "nat \<Rightarrow> string option \<Rightarrow> string \<Rightarrow> request list" where
  "blob_removals k path bucket =
     (case path of
        None \<Rightarrow> []
      | Some p \<Rightarrow> if p = [] then [] else replicate k (StorageRemove bucket p))"

text \<open>A stored record with its two blobs, for the examples.\<close>

definition example_row :: resume_row where
  "example_row =
     \<lparr>row_id = ''r1'', row_user_id = ''u1'', row_company_name = ''Acme'',
      row_job_title = ''Backend Engineer'', row_job_description = ''Builds services'',
      row_resume_path = Some ''u1/pdf/1_a_cv.pdf'', row_image_path = Some ''u1/image/1_b_cv.png'',
      row_feedback = None, row_overall_score = JNull, row_ats_score = JNull\<rparr>"

definition example_backend :: backend where
  "example_backend =
     \<lparr>be_rows = [''r1'' \<mapsto> example_row],
      be_blobs = {(''resumes'', ''u1/pdf/1_a_cv.pdf''), (''resume-images'', ''u1/image/1_b_cv.png'')},
      be_requests = []\<rparr>"

text \<open>A network on which every blob removal is answered with an error, and a sound one.\<close>

definition net_removals_fail :: "nat \<Rightarrow> request \<Rightarrow> reply" where
  "net_removals_fail n rq = (if is_blob_removal rq then ReplyError ''storage down'' ''500'' else ReplyOk)"

definition net_ok :: "nat \<Rightarrow> request \<Rightarrow> reply" where
  "net_ok n rq = ReplyOk"

section \<open>Document processing and file paths\<close>

fun join_space :: "string list \<Rightarrow> string" where
  "join_space [] = []"
| "join_space [x] = x"
| "join_space (x # y # zs) = x @ '' '' @ join_space (y # zs)"

text \<open>
  \<open>extractTextFromPDF\<close>: the parsed document is the list of its pages, each the list of
  its text items; \<open>None\<close> is a file the PDF library rejects.
\<close>

definition extractTextFromPDF :: "string list list option \<Rightarrow> js_error + string" where
  "extractTextFromPDF pages =
     (case pages of
        None \<Rightarrow> Inl (new_Error ''Failed to extract text from PDF'')
      | Some ps \<Rightarrow> Inr (trim (concat (map (\<lambda>items. join_space items @ [CHR 0x0A]) ps))))"

text \<open>
  \<open>generateFilePath\<close>: \<open>Date.now()\<close> and the random suffix are inputs, already
  printed. The file name keeps letters, digits, dots and hyphens, every other character
  becomes an underscore, runs of underscores collapse, underscores at both ends go, and
  the result is lowered.
\<close>

definition keep_char :: "char \<Rightarrow> bool" where
  "keep_char c =
     (let n = (of_char c :: nat)
      in (97 \<le> n \<and> n \<le> 122) \<or> (65 \<le> n \<and> n \<le> 90) \<or> (48 \<le> n \<and> n \<le> 57)
           \<or> c = CHR ''.'' \<or> c = CHR ''-'')"

fun collapse_underscores :: "string \<Rightarrow> string" where
  "collapse_underscores [] = []"
| "collapse_underscores [c] = [c]"
| "collapse_underscores (c # d # cs) =
     (if c = CHR ''_'' \<and> d = CHR ''_'' then collapse_underscores (d # cs)
      else c # collapse_underscores (d # cs))"

definition cleanFilename :: "string \<Rightarrow> string" where
  "cleanFilename filename =
     toLowerCase
       (rev (dropWhile (\<lambda>c. c = CHR ''_'')
          (rev (dropWhile (\<lambda>c. c = CHR ''_'')
             (collapse_underscores
                (map (\<lambda>c. if keep_char c then c else CHR ''_'') filename))))))"

definition generateFilePath :: "string \<Rightarrow> string \<Rightarrow> string \<Rightarrow> string \<Rightarrow> string \<Rightarrow> js_error + string" where
  "generateFilePath userId filename kind timestamp randomSuffix =
     (if userId = [] \<or> filename = []
      then Inl (new_Error ''UserId and filename are required for file path generation'')
      else Inr (userId @ ''/'' @ kind @ ''/'' @ timestamp @ ''_'' @ randomSuffix @ ''_''
                  @ cleanFilename filename))"

section \<open>Upload orchestrator\<close>

text \<open>
  The upload view. \<open>transactionState\<close> is the React state of that name;
  \<open>currentState\<close> is the local object of \<open>handleAnalyze\<close>. The view stays mounted.
  The status line is not part of the model. Timers that navigate are taken to fire.
\<close>

record upload_transaction =
  tx_resumeId :: "string option"
  tx_pdfPath :: "string option"
  tx_imagePath :: "string option"
  tx_dbRecordCreated :: bool
  tx_filesUploaded :: "(string \<times> string) list"

definition empty_transaction :: upload_transaction where
  "empty_transaction =
     \<lparr>tx_resumeId = None, tx_pdfPath = None, tx_imagePath = None, tx_dbRecordCreated = False,
      tx_filesUploaded = []\<rparr>"

datatype navigation = ToAuth | ToResume string

record view =
  v_isProcessing :: bool
  v_error :: string
  v_progress :: int
  v_currentStep :: int
  v_transactionState :: upload_transaction
  v_navigate :: "navigation option"
  v_lastSuccessfulUpload :: "string option"

definition initial_view :: view where
  "initial_view =
     \<lparr>v_isProcessing = False, v_error = [], v_progress = 0, v_currentStep = 0,
      v_transactionState = empty_transaction, v_navigate = None, v_lastSuccessfulUpload = None\<rparr>"

text \<open>
  The points at which \<open>handleAnalyze\<close> is suspended, where a click on Cancel can run
  \<open>handleCancel\<close>.
\<close>

datatype await_point =
    AwaitPreflight
  | AwaitExtract
  | AwaitUploadPdf
  | AwaitConvert
  | AwaitUploadImage
  | AwaitCreate
  | AwaitAnalyze
  | AwaitUpdateFeedback

text \<open>
  Everything the run takes from outside: the replies of the backend, the random jitter
  of the backoff, the rounding of the percentage, the generated id, clock and random
  suffix of the two paths, the parsed PDF, what \<open>convertPdfToImage\<close> gives (a \<open>File\<close>
  or an error), \<open>JSON.parse\<close> and the replies of the AI endpoint, and the await point
  during which the user cancels and confirms, if any.
  The order in which the tasks of a cleanup run is \<open>e_schedule\<close>.
\<close>

record env =
  e_net :: "nat \<Rightarrow> request \<Rightarrow> reply"
  e_jitter :: "nat \<Rightarrow> rat"
  e_pct :: "int \<Rightarrow> int \<Rightarrow> int"
  e_uuid :: string
  e_now_pdf :: string
  e_random_pdf :: string
  e_now_image :: string
  e_random_image :: string
  e_pages :: "string list list option"
  e_preview :: "js_error + js_file"
  e_parse :: "string \<Rightarrow> jsval option"
  e_fetch :: "nat \<Rightarrow> fetch_reply"
  e_cancel_at :: "await_point option"
  e_schedule :: "nat list"

record submission =
  sub_user_id :: string
  sub_companyName :: string
  sub_jobTitle :: string
  sub_jobDescription :: string
  sub_file :: js_file
  sub_resumeMode :: string

record pstate =
  ps_backend :: backend
  ps_currentState :: upload_transaction
  ps_view :: view
  ps_aborted :: bool
  ps_tracker :: "(int, view) tracker"
  ps_resumeText :: string
  ps_pdfPath :: string
  ps_imagePath :: "string option"
  ps_feedback :: jsval

text \<open>The tracker's callback copies step and percentage into the view.\<close>

definition progress_callback :: "int progressData \<Rightarrow> view \<Rightarrow> view" where
  "progress_callback progressData v =
     v\<lparr>v_currentStep := pd_step progressData, v_progress := pd_progress progressData\<rparr>"

definition initial_pstate :: "backend \<Rightarrow> pstate" where
  "initial_pstate b =
     \<lparr>ps_backend = b, ps_currentState = empty_transaction, ps_view = initial_view,
      ps_aborted = False, ps_tracker = createProgressTracker 7 (Some progress_callback), ps_resumeText = [],
      ps_pdfPath = [], ps_imagePath = None, ps_feedback = JUndefined\<rparr>"

definition tracked :: "int progressData \<times> (int, view) tracker \<times> view \<Rightarrow> pstate \<Rightarrow> pstate" where
  "tracked r s = s\<lparr>ps_tracker := fst (snd r), ps_view := snd (snd r)\<rparr>"

definition track_update :: "env \<Rightarrow> int \<Rightarrow> string \<Rightarrow> pstate \<Rightarrow> pstate" where
  "track_update env step msg s =
     tracked (tracker_update (e_pct env) step msg False (ps_tracker s, ps_view s)) s"

definition track_increment :: "env \<Rightarrow> string \<Rightarrow> pstate \<Rightarrow> pstate" where
  "track_increment env msg s =
     tracked (tracker_increment (e_pct env) msg (ps_tracker s, ps_view s)) s"

definition track_complete :: "env \<Rightarrow> string \<Rightarrow> pstate \<Rightarrow> pstate" where
  "track_complete env msg s =
     tracked (tracker_complete (e_pct env) msg (ps_tracker s, ps_view s)) s"

subsection \<open>Rollback and cancellation\<close>

text \<open>
  \<open>cleanupFailedUpload\<close>: the deletion of the record (when the record was created)
  and the deletion of each uploaded file are started together and awaited with
  \<open>Promise.allSettled\<close>; each rejection is logged. They run interleaved, in the order
  \<open>sched\<close> gives, and with them the blob deletions that the deletion of the record
  leaves in flight. Nothing that follows the cleanup sends a request, so the backend is
  taken where all of them have settled.
\<close>

definition cleanup_tasks :: "upload_transaction \<Rightarrow> task list" where
  "cleanup_tasks state =
     (case tx_resumeId state of
        None \<Rightarrow> []
      | Some resumeId \<Rightarrow>
          if tx_dbRecordCreated state \<and> resumeId \<noteq> [] then [DeleteReading resumeId] else [])
     @ map (\<lambda>(path, bucket). Removing path bucket 15000 1) (tx_filesUploaded state)"

definition cleanupFailedUpload ::
  "(nat \<Rightarrow> request \<Rightarrow> reply) \<Rightarrow> nat list \<Rightarrow> upload_transaction \<Rightarrow> backend \<Rightarrow> backend" where
  "cleanupFailedUpload net sched state b = run_pool net sched (cleanup_tasks state) b"

text \<open>
  \<open>handleCancel\<close>, with the confirmation dialog accepted: it aborts the controller,
  cleans up what \<open>transactionState\<close> records, and resets the view.
\<close>

definition handleCancel :: "env \<Rightarrow> pstate \<Rightarrow> pstate" where
  "handleCancel env s =
     (if v_isProcessing (ps_view s) then
        s\<lparr>ps_aborted := True,
          ps_backend := cleanupFailedUpload (e_net env) (e_schedule env)
                          (v_transactionState (ps_view s)) (ps_backend s),
          ps_view := (ps_view s)\<lparr>v_isProcessing := False, v_progress := 0, v_currentStep := 0,
                                 v_error := [], v_transactionState := empty_transaction\<rparr>\<rparr>
      else s)"

definition at_await :: "env \<Rightarrow> await_point \<Rightarrow> pstate \<Rightarrow> pstate" where
  "at_await env pt s = (if e_cancel_at env = Some pt then handleCancel env s else s)"

subsection \<open>The steps of handleAnalyze\<close>

type_synonym step = "pstate \<Rightarrow> js_error option \<times> pstate"

definition and_then :: "step \<Rightarrow> step \<Rightarrow> step" where
  "and_then f g s = (case f s of (None, s1) \<Rightarrow> g s1 | (Some e, s1) \<Rightarrow> (Some e, s1))"

definition check_cancelled :: step where
  "check_cancelled s =
     (if ps_aborted s then (Some (new_Error ''Upload cancelled''), s) else (None, s))"

definition step_preflight :: "env \<Rightarrow> step" where
  "step_preflight env s =
     (let s1 = s\<lparr>ps_view := (ps_view s)\<lparr>v_isProcessing := True, v_error := [], v_progress := 0,
                                          v_currentStep := 0\<rparr>\<rparr>;
          s2 = track_update env 0 ''Performing pre-flight checks...'' s1
      in (None, at_await env AwaitPreflight s2))"

definition step_extract :: "env \<Rightarrow> step" where
  "step_extract env s =
     (let s1 = at_await env AwaitExtract (track_increment env ''Extracting text from PDF...'' s)
      in case extractTextFromPDF (e_pages env) of
           Inl e \<Rightarrow> (Some e, s1)
         | Inr resumeText \<Rightarrow>
             if resumeText = [] \<or> length resumeText < 50
             then (Some (createError
                     ''Could not extract readable text from PDF. Please ensure your resume contains selectable text, not just images.''
                     ''PDF_TEXT_EXTRACTION_FAILED''), s1)
             else (None, s1\<lparr>ps_resumeText := resumeText\<rparr>))"

definition step_upload_pdf :: "env \<Rightarrow> submission \<Rightarrow> step" where
  "step_upload_pdf env sub s =
     (let s1 = track_increment env ''Uploading PDF file...'' s
      in case generateFilePath (sub_user_id sub) (file_name (sub_file sub)) ''pdf''
                (e_now_pdf env) (e_random_pdf env) of
           Inl e \<Rightarrow> (Some e, s1)
         | Inr pdfPath \<Rightarrow>
             (let s2 = at_await env AwaitUploadPdf s1
              in case uploadFile (e_net env) (e_jitter env) (sub_file sub) pdfPath ''resumes''
                        180000 3 (ps_backend s2) of
                   (Inl e, b) \<Rightarrow> (Some e, s2\<lparr>ps_backend := b\<rparr>)
                 | (Inr stored, b) \<Rightarrow>
                     (None,
                      track_increment env ''PDF uploaded successfully''
                        (s2\<lparr>ps_backend := b, ps_pdfPath := pdfPath,
                            ps_currentState := (ps_currentState s2)
                              \<lparr>tx_pdfPath := Some pdfPath,
                               tx_filesUploaded := tx_filesUploaded (ps_currentState s2)
                                                     @ [(pdfPath, ''resumes'')]\<rparr>\<rparr>))))"

text \<open>
  The preview step: \<open>let imagePath = null\<close>, then a \<open>try\<close> whose \<open>catch\<close> only logs
  and advances the tracker. \<open>imagePath\<close> is assigned the generated path before the
  upload is awaited. The file \<open>convertPdfToImage\<close> resolves with always has a name, so
  the guard on it holds.
\<close>

definition preview_failed :: "env \<Rightarrow> pstate \<Rightarrow> js_error option \<times> pstate" where
  "preview_failed env s = (None, track_increment env ''PDF uploaded (preview generation failed)'' s)"

definition step_preview :: "env \<Rightarrow> submission \<Rightarrow> step" where
  "step_preview env sub s =
     (let s1 = (track_increment env ''Creating image preview...'' s)\<lparr>ps_imagePath := None\<rparr>;
          s2 = at_await env AwaitConvert s1
      in case e_preview env of
           Inl imageError \<Rightarrow> preview_failed env s2
         | Inr imageFile \<Rightarrow>
             (case generateFilePath (sub_user_id sub) (file_name imageFile) ''image''
                     (e_now_image env) (e_random_image env) of
                Inl imageError \<Rightarrow> preview_failed env s2
              | Inr imagePath \<Rightarrow>
                  (let s3 = at_await env AwaitUploadImage (s2\<lparr>ps_imagePath := Some imagePath\<rparr>)
                   in case uploadFile (e_net env) (e_jitter env) imageFile imagePath
                             ''resume-images'' 90000 2 (ps_backend s3) of
                        (Inl imageError, b) \<Rightarrow> preview_failed env (s3\<lparr>ps_backend := b\<rparr>)
                      | (Inr stored, b) \<Rightarrow>
                          (None,
                           track_increment env ''Image preview created successfully''
                             (s3\<lparr>ps_backend := b,
                                 ps_currentState := (ps_currentState s3)
                                   \<lparr>tx_imagePath := Some imagePath,
                                    tx_filesUploaded := tx_filesUploaded (ps_currentState s3)
                                                          @ [(imagePath, ''resume-images'')]\<rparr>\<rparr>)))))"

definition resumeData :: "env \<Rightarrow> submission \<Rightarrow> pstate \<Rightarrow> resume_row" where
  "resumeData env sub s =
     \<lparr>row_id = e_uuid env, row_user_id = sub_user_id sub,
      row_company_name = sub_companyName sub, row_job_title = sub_jobTitle sub,
      row_job_description = sub_jobDescription sub, row_resume_path = Some (ps_pdfPath s),
      row_image_path = ps_imagePath s, row_feedback = None, row_overall_score = JNull,
      row_ats_score = JNull\<rparr>"

definition step_persist_record :: "env \<Rightarrow> submission \<Rightarrow> step" where
  "step_persist_record env sub s =
     (let s1 = track_increment env ''Saving resume information...'' s;
          s2 = at_await env AwaitCreate s1
      in case resumeService_create (e_net env) (e_jitter env) (resumeData env sub s1)
                (ps_backend s2) of
           (Inl e, b) \<Rightarrow> (Some e, s2\<lparr>ps_backend := b\<rparr>)
         | (Inr created, b) \<Rightarrow>
             (None,
              track_increment env ''Resume information saved''
                (s2\<lparr>ps_backend := b,
                    ps_currentState := (ps_currentState s2)\<lparr>tx_dbRecordCreated := True\<rparr>\<rparr>)))"

definition unavailable_tip :: jsval where
  "unavailable_tip =
     JObj [(''tip'', JStr ''AI analysis temporarily unavailable''),
           (''explanation'',
            JStr ''The analysis service is currently unavailable. Please try refreshing the page later.'')]"

definition unavailable_category :: jsval where
  "unavailable_category = JObj [(''score'', JNum 0), (''tips'', JArr [unavailable_tip])]"

definition placeholder_feedback :: jsval where
  "placeholder_feedback =
     JObj [(''overall_score'', JNum 0),
           (''ats_score'', JNum 0),
           (''categories'',
            JObj [(''formatting'', unavailable_category),
                  (''content'', unavailable_category),
                  (''keywords'', unavailable_category),
                  (''experience'', unavailable_category),
                  (''skills'', unavailable_category)]),
           (''suggestions'',
            JArr [JObj [(''category'', JStr ''system''),
                        (''tip'', JStr ''AI analysis temporarily unavailable''),
                        (''explanation'',
                         JStr ''Your resume has been uploaded successfully. The AI analysis service is currently unavailable, but you can try refreshing the page later to get your analysis.'')]])]"

definition step_analyze :: "env \<Rightarrow> step" where
  "step_analyze env s =
     (let s1 = at_await env AwaitAnalyze
                 (track_increment env
                    ''Analyzing resume with AI (this may take up to 90 seconds)...'' s)
      in case fst (analyzeResumeWithPerplexity (e_parse env) (e_fetch env)) of
           Inr feedback \<Rightarrow> (None, s1\<lparr>ps_feedback := feedback\<rparr>)
         | Inl aiError \<Rightarrow> (None, s1\<lparr>ps_feedback := placeholder_feedback\<rparr>))"

definition step_persist_feedback :: "env \<Rightarrow> step" where
  "step_persist_feedback env s =
     (let s1 = at_await env AwaitUpdateFeedback
                 (track_increment env ''Saving analysis results...'' s)
      in case resumeService_updateFeedback (e_net env) (e_jitter env) (e_uuid env)
                (ps_feedback s1) (ps_backend s1) of
           (Inl e, b) \<Rightarrow> (Some e, s1\<lparr>ps_backend := b\<rparr>)
         | (Inr done, b) \<Rightarrow>
             (let s2 = track_complete env ''Analysis complete! Redirecting...'' (s1\<lparr>ps_backend := b\<rparr>)
              in (None,
                  s2\<lparr>ps_view := (ps_view s2)\<lparr>v_lastSuccessfulUpload := Some (e_uuid env),
                                              v_navigate := Some (ToResume (e_uuid env))\<rparr>\<rparr>)))"

text \<open>The \<open>try\<close> block up to the check that precedes the analysis, and the whole block.\<close>

definition before_analysis :: "env \<Rightarrow> submission \<Rightarrow> step" where
  "before_analysis env sub =
     and_then (step_preflight env)
    (and_then check_cancelled
    (and_then (step_extract env)
    (and_then check_cancelled
    (and_then (step_upload_pdf env sub)
    (and_then check_cancelled
    (and_then (step_preview env sub)
    (and_then check_cancelled
    (and_then (step_persist_record env sub)
     check_cancelled))))))))"

definition try_body :: "env \<Rightarrow> submission \<Rightarrow> step" where
  "try_body env sub =
     and_then (before_analysis env sub)
    (and_then (step_analyze env) (step_persist_feedback env))"

definition error_text :: "js_error \<Rightarrow> string" where
  "error_text err =
     (if err_code err = ''AUTH_REQUIRED'' \<or> includes_str (err_message err) ''Authentication''
        then ''Authentication issue detected. Please refresh the page and sign in again.''
      else if err_code err = ''CONNECTIVITY_FAILED'' \<or> err_code err = ''CONNECTION_FAILED''
        then ''Connection issues detected. Please check your internet connection and try again.''
      else if err_code err = ''UPLOAD_TIMEOUT'' \<or> includes_str (err_message err) ''timeout''
        then ''Upload timed out. Please check your internet connection and try again.''
      else if err_code err = ''FILE_TOO_LARGE''
        then ''File size too large. Please use a file smaller than 50MB.''
      else if err_code err = ''PDF_TEXT_EXTRACTION_FAILED''
        then ''Could not read your PDF. Please ensure it contains selectable text, not just images.''
      else if includes_str (err_code err) ''DB_''
        then ''Database error occurred. Please try again or contact support if the issue persists.''
      else ''Upload failed: '' @
           (if err_message err = [] then ''An unexpected error occurred. Please try again.''
            else err_message err))"

text \<open>
  What \<open>handleAnalyze\<close> sets up before its \<open>try\<close> block: a fresh abort
  controller and the local \<open>currentState\<close> with the generated id.
\<close>

definition start_of_run :: "env \<Rightarrow> pstate \<Rightarrow> pstate" where
  "start_of_run env s0 =
     s0\<lparr>ps_aborted := False,
        ps_currentState := empty_transaction\<lparr>tx_resumeId := Some (e_uuid env)\<rparr>\<rparr>"

definition handleAnalyze :: "env \<Rightarrow> submission \<Rightarrow> pstate \<Rightarrow> pstate" where
  "handleAnalyze env sub s0 =
     (if sub_user_id sub = [] then
        s0\<lparr>ps_view := (ps_view s0)\<lparr>v_error := ''Please sign in to upload your resume.'',
                                    v_navigate := Some ToAuth\<rparr>\<rparr>
      else
        (case try_body env sub (start_of_run env s0) of
           (None, s1) \<Rightarrow> s1
         | (Some err, s1) \<Rightarrow>
             if err_name err = ''AbortError'' \<or> err_message err = ''Upload cancelled'' then s1
             else
               s1\<lparr>ps_backend := cleanupFailedUpload (e_net env) (e_schedule env)
                                   (ps_currentState s1) (ps_backend s1),
                  ps_view := (ps_view s1)
                    \<lparr>v_progress := 0, v_currentStep := 0,
                     v_transactionState := empty_transaction,
                     v_error := error_text err,
                     v_navigate :=
                       (if err_code err = ''AUTH_REQUIRED''
                           \<or> includes_str (err_message err) ''Authentication''
                        then Some ToAuth else v_navigate (ps_view s1)),
                     v_isProcessing := False\<rparr>\<rparr>))"

text \<open>Whether every category of a feedback object has a non-empty list of tips.\<close>

definition has_tip :: "jsval \<Rightarrow> bool" where
  "has_tip category =
     (case get_member category ''tips'' of
        Inr (JArr (t # ts)) \<Rightarrow> True
      | _ \<Rightarrow> False)"

definition each_category_has_tip :: "jsval \<Rightarrow> bool" where
  "each_category_has_tip feedback =
     (case get_member feedback ''categories'' of
        Inr (JObj categories) \<Rightarrow> categories \<noteq> [] \<and> list_all (\<lambda>kv. has_tip (snd kv)) categories
      | _ \<Rightarrow> False)"

subsection \<open>An example run\<close>

text \<open>
  A signed-in user submits a two-page PDF; every service answers; the percentage is
  rounded half up in exact arithmetic.
\<close>

definition empty_backend :: backend where
  "empty_backend = \<lparr>be_rows = Map.empty, be_blobs = {}, be_requests = []\<rparr>"

definition round_percent :: "int \<Rightarrow> int \<Rightarrow> int" where
  "round_percent step totalSteps = (200 * step + totalSteps) div (2 * totalSteps)"

definition example_file :: js_file where
  "example_file =
     \<lparr>file_name = ''Jane Doe.pdf'', file_size = 52000, file_type = ''application/pdf''\<rparr>"

definition example_preview :: js_file where
  "example_preview =
     \<lparr>file_name = ''resume-preview-1700000000400.png'', file_size = 2048,
      file_type = ''image/png''\<rparr>"

definition example_pages :: "string list list" where
  "example_pages =
     [[''Jane Doe'', ''Backend engineer with six years of experience''],
      [''Education:'', ''BSc in Computer Science'']]"

definition example_submission :: submission where
  "example_submission =
     \<lparr>sub_user_id = ''u1'', sub_companyName = ''Acme'', sub_jobTitle = ''Backend Engineer'',
      sub_jobDescription = ''Design, build and run the services behind the ordering platform.'',
      sub_file = example_file,
      sub_resumeMode = ''soft''\<rparr>"

definition example_env :: env where
  "example_env =
     \<lparr>e_net = net_ok, e_jitter = (\<lambda>n. 0), e_pct = round_percent, e_uuid = ''id-1'',
      e_now_pdf = ''1700000000000'', e_random_pdf = ''abc123'',
      e_now_image = ''1700000000500'', e_random_image = ''def456'',
      e_pages = Some example_pages,
      e_preview = Inr example_preview,
      e_parse = parse_sample,
      e_fetch = (\<lambda>n. HttpContent (Some text_score_82)),
      e_cancel_at = None, e_schedule = []\<rparr>"

definition example_pdf_path :: string where
  "example_pdf_path = ''u1/pdf/1700000000000_abc123_jane_doe.pdf''"

definition example_image_path :: string where
  "example_image_path = ''u1/image/1700000000500_def456_resume-preview-1700000000400.png''"

text \<open>A network on which every upload to the preview bucket is answered with an error.\<close>

definition net_image_upload_fails :: "nat \<Rightarrow> request \<Rightarrow> reply" where
  "net_image_upload_fails n rq =
     (case rq of
        StorageUpload bucket path \<Rightarrow>
          if bucket = ''resume-images'' then ReplyError ''bucket unavailable'' ''503'' else ReplyOk
      | StorageRemove bucket path \<Rightarrow> ReplyOk
      | DbInsert row \<Rightarrow> ReplyOk
      | DbSelect ident \<Rightarrow> ReplyOk
      | DbUpdate ident feedback \<Rightarrow> ReplyOk
      | DbDelete ident \<Rightarrow> ReplyOk)"

text \<open>
  Variants of the example run: the user cancels (and confirms) while the record is being
  created, or while the analysis is running; every upload of the preview image is
  refused; the AI endpoint cannot be reached.
\<close>

definition example_text :: string where
  "example_text =
     ''Jane Doe Backend engineer with six years of experience'' @ [CHR 0x0A]
       @ ''Education: BSc in Computer Science''"

definition env_cancel_during_create :: env where
  "env_cancel_during_create = example_env\<lparr>e_cancel_at := Some AwaitCreate\<rparr>"

definition env_cancel_during_analysis :: env where
  "env_cancel_during_analysis = example_env\<lparr>e_cancel_at := Some AwaitAnalyze\<rparr>"

definition env_image_upload_fails :: env where
  "env_image_upload_fails = example_env\<lparr>e_net := net_image_upload_fails\<rparr>"

definition env_ai_unreachable :: env where
  "env_ai_unreachable = example_env\<lparr>e_fetch := (\<lambda>n. FetchFailed ''Failed to fetch'')\<rparr>"

section \<open>Properties\<close>

lemma retry_loop_all_fail_calls:
  assumes "\<And>a s. \<exists>e s'. fn a s = (Inl e, s')"
  shows "attempt \<le> maxRetries \<Longrightarrow>
         fst (snd (snd (retry_loop (counted fn) maxRetries b m f j attempt le ds (n, s))))
           = n + (maxRetries + 1 - attempt)"
proof (induction "maxRetries - attempt" arbitrary: attempt le ds n s)
  case 0
  then have eq: "attempt = maxRetries" by simp
  obtain e s' where "fn attempt s = (Inl e, s')" using assms by blast
  then show ?case using eq
    by (simp add: retry_loop.simps [of _ _ _ _ _ _ maxRetries] counted_def)
next
  case (Suc k)
  then have lt: "attempt < maxRetries" by simp
  obtain e s' where fn: "fn attempt s = (Inl e, s')" using assms by blast
  have k: "k = maxRetries - (attempt + 1)" using Suc.hyps(2) by simp
  have le': "attempt + 1 \<le> maxRetries" using lt by simp
  show ?case
    using lt fn Suc.hyps(1) [OF k le']
    by (simp add: retry_loop.simps [of _ _ _ _ _ _ attempt] counted_def)
qed

subsection \<open>retryWithBackoff: the number of invocations\<close>

lemma retryWithBackoff_all_fail_invocations:
  assumes "\<And>a s. \<exists>e s'. fn a s = (Inl e, s')" and "1 \<le> maxRetries"
  shows "invocations fn maxRetries b m f j s = maxRetries"
  using retry_loop_all_fail_calls [OF assms(1), where attempt = 1 and maxRetries = maxRetries and n = 0] assms(2)
  by (simp add: invocations_def retryWithBackoff_def)

text \<open>
  Claim C2. \<open>retryWithBackoff(op, 3, ...)\<close> is to invoke \<open>op\<close> three times when it
  always rejects with a retryable error, and once when it rejects with a non-retryable
  error. The loop of \<open>retryWithBackoff\<close> never looks at the error it caught: an
  operation that always rejects is invoked \<open>maxRetries\<close> times whatever the error is
  (\<open>retryWithBackoff_all_fail_invocations\<close>). Evaluated on an operation that always
  rejects with \<open>Permission denied\<close>, which \<open>isRetryableError\<close> classifies as not
  retryable, the operation is invoked three times, not once.
\<close>

theorem retryWithBackoff_non_retryable_invoked_three_times:
  "\<not> isRetryableError (new_Error ''Permission denied'') \<and>
   invocations (always_rejects (new_Error ''Permission denied'')) 3 1000 10000 2 jitter () = 3"
  by (simp add: isRetryableError_def retryableErrors_def new_Error_def toLowerCase_def
      lower_char_def invocations_def retryWithBackoff_def retry_loop.simps counted_def
      always_rejects_def)

subsection \<open>createProgressTracker: the step counter\<close>

lemma tracker_run_increments:
  "tr_currentStep (fst (tracker_run pct (map Increment msgs) tw))
     = tr_currentStep (fst tw) + int (length msgs)"
  by (induction msgs arbitrary: tw) (simp_all add: tracker_increment_def tracker_update_def Let_def)

text \<open>
  Claim C9, as stated: the step counter never decreases across the tracker's operations.
  It does: nine \<open>increment\<close> calls on a tracker of seven steps (the calls the upload
  pipeline makes on its way to completion) bring the counter to 9, and \<open>complete\<close> then
  sets it back to 7.
\<close>

theorem tracker_complete_decreases_counter:
  "tr_currentStep (fst (tracker_run (\<lambda>step steps. ()) (replicate 9 (Increment ''step''))
      (createProgressTracker 7 (Some keep_report), []))) = 9 \<and>
   tr_currentStep (fst (tracker_run (\<lambda>step steps. ())
      (replicate 9 (Increment ''step'') @ [Complete ''Complete''])
      (createProgressTracker 7 (Some keep_report), []))) = 7"
  by (simp add: numeral_eq_Suc tracker_increment_def tracker_complete_def tracker_update_def
      Let_def createProgressTracker_def)

text \<open>
  Claim C9, amended: \<open>increment(message)\<close> advances the counter by exactly one and
  reports step, totalSteps, the percentage and the message, to its caller and to the
  callback; \<open>complete(message)\<close> sets the counter to \<open>totalSteps\<close> and reports that
  step; any run of \<open>increment\<close> calls raises the counter by the number of calls.
\<close>

theorem tracker_increment_and_complete:
  "tr_currentStep (fst (snd (tracker_increment pct msg (t, w)))) = tr_currentStep t + 1 \<and>
   fst (tracker_increment pct msg (t, w)) =
     \<lparr>pd_step = tr_currentStep t + 1, pd_totalSteps = tr_totalSteps t,
      pd_progress = pct (tr_currentStep t + 1) (tr_totalSteps t), pd_message = msg,
      pd_completed = False\<rparr> \<and>
   snd (snd (tracker_increment pct msg (t\<lparr>tr_onProgress := Some keep_report\<rparr>, reports)))
     = reports @ [fst (tracker_increment pct msg (t, w))] \<and>
   tr_currentStep (fst (snd (tracker_complete pct msg (t, w)))) = tr_totalSteps t \<and>
   pd_step (fst (tracker_complete pct msg (t, w))) = tr_totalSteps t \<and>
   tr_currentStep (fst (tracker_run pct (map Increment msgs) (t, w)))
     = tr_currentStep t + int (length msgs)"
  by (simp add: tracker_run_increments)
     (simp add: tracker_increment_def tracker_complete_def tracker_update_def Let_def
        keep_report_def)

subsection \<open>The health-check circuit breaker\<close>

lemma probe_start_closed:
  assumes "failures (hc_circuitBreaker hc) < threshold (hc_circuitBreaker hc)"
  shows "probe_start rq now hc = (True, hc\<lparr>hc_requests := hc_requests hc @ [rq]\<rparr>)"
  using assms by (simp add: probe_start_def checkCircuit_def Let_def)

lemma probe_start_open_within:
  assumes "failures (hc_circuitBreaker hc) \<ge> threshold (hc_circuitBreaker hc)"
    "lastFailure (hc_circuitBreaker hc) = Some l"
    "now - l \<le> resetTime (hc_circuitBreaker hc)"
    "isOpen (hc_circuitBreaker hc)"
  shows "probe_start rq now hc = (False, hc)"
  using assms by (simp add: probe_start_def checkCircuit_def Let_def)

lemma probe_start_open_elapsed:
  assumes "failures (hc_circuitBreaker hc) \<ge> threshold (hc_circuitBreaker hc)"
    "lastFailure (hc_circuitBreaker hc) = Some l"
    "now - l > resetTime (hc_circuitBreaker hc)"
  shows "probe_start rq now hc =
     (True, hc\<lparr>hc_circuitBreaker := (hc_circuitBreaker hc)\<lparr>failures := 0, isOpen := False\<rparr>,
               hc_requests := hc_requests hc @ [rq]\<rparr>)"
  using assms by (simp add: probe_start_def checkCircuit_def Let_def)

lemma probe_finish_failing:
  assumes "reply \<noteq> ProbeOk"
  shows "probe_finish reply now hc = (False, recordFailure now hc)"
  using assms by (cases reply) (simp_all add: probe_finish_def)

lemma probe_events_append:
  "probe_events (xs @ ys) st =
     (case probe_events xs st of
        (outs, st1) \<Rightarrow> (case probe_events ys st1 of (outs', st2) \<Rightarrow> (outs @ outs', st2)))"
  by (induction xs arbitrary: st) (simp_all split: prod.splits)

lemma in_turn_Cons:
  "in_turn ((rq, pe) # probes) =
     [Started rq (pe_check_time pe), Settled rq (pe_reply pe) (pe_failure_time pe)] @ in_turn probes"
  by (simp add: in_turn_def)

lemma in_turn_Nil: "in_turn [] = []"
  by (simp add: in_turn_def)

text \<open>A probe that runs alone is \<open>run_probe\<close>.\<close>

lemma probe_alone_is_run_probe:
  "snd (snd (probe_events (in_turn [(rq, pe)]) ([], hc))) = snd (run_probe rq pe hc) \<and>
   fst (snd (probe_events (in_turn [(rq, pe)]) ([], hc))) = [] \<and>
   fst (probe_events (in_turn [(rq, pe)]) ([], hc)) =
     (if fst (probe_start rq (pe_check_time pe) hc)
      then [Pending, Answered (fst (run_probe rq pe hc))] else [Refused, NotInFlight])"
proof -
  obtain go h where s: "probe_start rq (pe_check_time pe) hc = (go, h)"
    by (cases "probe_start rq (pe_check_time pe) hc")
  obtain r h' where f: "probe_finish (pe_reply pe) (pe_failure_time pe) h = (r, h')"
    by (cases "probe_finish (pe_reply pe) (pe_failure_time pe) h")
  show ?thesis
    using s f by (cases go) (simp_all add: in_turn_def probe_step_def run_probe_def)
qed

lemma failing_probe_alone:
  assumes "failures (hc_circuitBreaker hc) < threshold (hc_circuitBreaker hc)" "failing_probe pe"
  shows "probe_events (in_turn [(rq, pe)]) ([], hc) =
     ([Pending, Answered False], [],
      recordFailure (pe_failure_time pe) (hc\<lparr>hc_requests := hc_requests hc @ [rq]\<rparr>))"
  using assms
  by (simp add: in_turn_def probe_step_def probe_start_closed probe_finish_failing failing_probe_def)

lemma three_failures_open:
  assumes f0: "failures (hc_circuitBreaker hc) = 0" and th: "threshold (hc_circuitBreaker hc) = 3"
    and p: "failing_probe p1" "failing_probe p2" "failing_probe p3"
  shows "probe_events (in_turn [(r1, p1), (r2, p2), (r3, p3)]) ([], hc) =
    ([Pending, Answered False, Pending, Answered False, Pending, Answered False], [],
     hc\<lparr>hc_circuitBreaker := (hc_circuitBreaker hc)
           \<lparr>failures := 3, lastFailure := Some (pe_failure_time p3), isOpen := True\<rparr>,
        hc_requests := hc_requests hc @ [r1, r2, r3]\<rparr>)"
proof -
  define h1 where "h1 = recordFailure (pe_failure_time p1) (hc\<lparr>hc_requests := hc_requests hc @ [r1]\<rparr>)"
  define h2 where "h2 = recordFailure (pe_failure_time p2) (h1\<lparr>hc_requests := hc_requests h1 @ [r2]\<rparr>)"
  have 1: "probe_events (in_turn [(r1, p1)]) ([], hc) = ([Pending, Answered False], [], h1)"
    unfolding h1_def using f0 th p(1) by (intro failing_probe_alone) simp_all
  have c1: "failures (hc_circuitBreaker h1) = 1" "threshold (hc_circuitBreaker h1) = 3"
    using f0 th by (simp_all add: h1_def recordFailure_def Let_def)
  have 2: "probe_events (in_turn [(r2, p2)]) ([], h1) = ([Pending, Answered False], [], h2)"
    unfolding h2_def using c1 p(2) by (intro failing_probe_alone) simp_all
  have c2: "failures (hc_circuitBreaker h2) = 2" "threshold (hc_circuitBreaker h2) = 3"
    using c1 by (simp_all add: h2_def recordFailure_def Let_def)
  have 3: "probe_events (in_turn [(r3, p3)]) ([], h2) = ([Pending, Answered False], [],
      recordFailure (pe_failure_time p3) (h2\<lparr>hc_requests := hc_requests h2 @ [r3]\<rparr>))"
    using c2 p(3) by (intro failing_probe_alone) simp_all
  have s: "in_turn [(r1, p1), (r2, p2), (r3, p3)]
      = in_turn [(r1, p1)] @ in_turn [(r2, p2)] @ in_turn [(r3, p3)]"
    by (simp add: in_turn_def)
  have e: "recordFailure (pe_failure_time p3) (h2\<lparr>hc_requests := hc_requests h2 @ [r3]\<rparr>)
     = hc\<lparr>hc_circuitBreaker := (hc_circuitBreaker hc)
           \<lparr>failures := 3, lastFailure := Some (pe_failure_time p3), isOpen := True\<rparr>,
        hc_requests := hc_requests hc @ [r1, r2, r3]\<rparr>"
    using f0 th by (simp add: h2_def h1_def recordFailure_def Let_def)
  show ?thesis
    unfolding s by (simp only: probe_events_append 1 2 3 prod.case e append.simps)
qed

lemma starts_within_window_refused:
  assumes "failures (hc_circuitBreaker hc) \<ge> threshold (hc_circuitBreaker hc)"
    "lastFailure (hc_circuitBreaker hc) = Some l" "isOpen (hc_circuitBreaker hc)"
    "list_all (\<lambda>(rq, now). now - l \<le> resetTime (hc_circuitBreaker hc)) later"
  shows "probe_events (map (\<lambda>(rq, now). Started rq now) later) (inflight, hc)
           = (replicate (length later) Refused, inflight, hc)"
  using assms(4)
proof (induction later)
  case Nil
  then show ?case by simp
next
  case (Cons x later)
  obtain rq now where x: "x = (rq, now)" by (cases x)
  have "probe_start rq now hc = (False, hc)"
    using assms(1,2) _ assms(3) by (rule probe_start_open_within) (use Cons.prems x in simp)
  then have "probe_step (Started rq now) (inflight, hc) = (Refused, inflight, hc)"
    by (simp add: probe_step_def)
  then show ?case using Cons x by simp
qed

lemma late_success_resets:
  assumes "failures (hc_circuitBreaker hc) \<ge> threshold (hc_circuitBreaker hc)"
    "lastFailure (hc_circuitBreaker hc) = Some l"
    "now - l > resetTime (hc_circuitBreaker hc)"
  shows "probe_events [Started rq now, Settled rq ProbeOk u] ([], hc) =
     ([Pending, Answered True], [],
      hc\<lparr>hc_circuitBreaker := (hc_circuitBreaker hc)\<lparr>failures := 0, isOpen := False\<rparr>,
         hc_requests := hc_requests hc @ [rq]\<rparr>)"
  using probe_start_open_elapsed [OF assms, of rq]
  by (simp add: probe_step_def probe_finish_def recordSuccess_def)

lemma success_resets_running_count:
  assumes "failures (hc_circuitBreaker hc) < threshold (hc_circuitBreaker hc)" "pe_reply ok = ProbeOk"
  shows "probe_events (in_turn [(rq, ok)]) ([], hc) =
     ([Pending, Answered True], [],
      hc\<lparr>hc_circuitBreaker := (hc_circuitBreaker hc)\<lparr>failures := 0, isOpen := False\<rparr>,
         hc_requests := hc_requests hc @ [rq]\<rparr>)"
  using assms
  by (simp add: in_turn_def probe_step_def probe_start_closed probe_finish_def recordSuccess_def)

text \<open>
  Claim C4, as stated: once three consecutive failures have opened the breaker, every
  probe started within the reset window returns \<open>false\<close> without a network call.
  A probe whose request was in flight when the breaker opened still records its outcome.
  Two calls of \<open>testAllConnections\<close>: in the first both probes fail; in the second the
  database probe fails, which is the third consecutive failure and opens the breaker at
  1100, and then the storage probe, started before that, succeeds at 1200 and
  \<open>_recordSuccess\<close> closes the breaker and sets the counter to 0. The database probe
  started at 2000, well within 30000 ms of the last failure, sends its request.
\<close>

theorem in_flight_success_closes_open_breaker:
  "probe_events
     [Started DbCountQuery 0, Started StorageListBuckets 0,
      Settled DbCountQuery ProbeError 100, Settled StorageListBuckets ProbeError 120,
      Started DbCountQuery 1000, Started StorageListBuckets 1000,
      Settled DbCountQuery ProbeError 1100]
     ([], initial_healthCheck)
     = ([Pending, Pending, Answered False, Answered False, Pending, Pending, Answered False],
        [StorageListBuckets],
        \<lparr>hc_circuitBreaker =
           \<lparr>failures = 3, lastFailure = Some 1100, isOpen = True, threshold = 3, resetTime = 30000\<rparr>,
         hc_requests = [DbCountQuery, StorageListBuckets, DbCountQuery, StorageListBuckets]\<rparr>) \<and>
   probe_events
     [Started DbCountQuery 0, Started StorageListBuckets 0,
      Settled DbCountQuery ProbeError 100, Settled StorageListBuckets ProbeError 120,
      Started DbCountQuery 1000, Started StorageListBuckets 1000,
      Settled DbCountQuery ProbeError 1100,
      Settled StorageListBuckets ProbeOk 1200, Started DbCountQuery 2000]
     ([], initial_healthCheck)
     = ([Pending, Pending, Answered False, Answered False, Pending, Pending, Answered False,
         Answered True, Pending],
        [DbCountQuery],
        \<lparr>hc_circuitBreaker =
           \<lparr>failures = 0, lastFailure = Some 1100, isOpen = False, threshold = 3, resetTime = 30000\<rparr>,
         hc_requests = [DbCountQuery, StorageListBuckets, DbCountQuery, StorageListBuckets,
                        DbCountQuery]\<rparr>) \<and>
   (2000 :: int) - 1100 \<le> 30000 \<and>
   testAllConnections
     \<lparr>ac_db_check = 1000, ac_storage_check = 1000, ac_db_reply = ProbeError, ac_db_time = 1100,
      ac_storage_reply = ProbeOk, ac_storage_time = 1200, ac_storage_first = False\<rparr>
     (snd (testAllConnections
        \<lparr>ac_db_check = 0, ac_storage_check = 0, ac_db_reply = ProbeError, ac_db_time = 100,
         ac_storage_reply = ProbeError, ac_storage_time = 120, ac_storage_first = False\<rparr>
        initial_healthCheck))
     = (\<lparr>database = False, storage = True, overall = False\<rparr>,
        \<lparr>hc_circuitBreaker =
           \<lparr>failures = 0, lastFailure = Some 1100, isOpen = False, threshold = 3, resetTime = 30000\<rparr>,
         hc_requests = [DbCountQuery, StorageListBuckets, DbCountQuery, StorageListBuckets]\<rparr>) \<and>
   testConnection \<lparr>pe_check_time = 2000, pe_reply = ProbeOk, pe_failure_time = 2000\<rparr>
     (snd (testAllConnections
        \<lparr>ac_db_check = 1000, ac_storage_check = 1000, ac_db_reply = ProbeError, ac_db_time = 1100,
         ac_storage_reply = ProbeOk, ac_storage_time = 1200, ac_storage_first = False\<rparr>
        (snd (testAllConnections
           \<lparr>ac_db_check = 0, ac_storage_check = 0, ac_db_reply = ProbeError, ac_db_time = 100,
            ac_storage_reply = ProbeError, ac_storage_time = 120, ac_storage_first = False\<rparr>
           initial_healthCheck))))
     = (True,
        \<lparr>hc_circuitBreaker =
           \<lparr>failures = 0, lastFailure = Some 1100, isOpen = False, threshold = 3, resetTime = 30000\<rparr>,
         hc_requests = [DbCountQuery, StorageListBuckets, DbCountQuery, StorageListBuckets,
                        DbCountQuery]\<rparr>)"
  by (simp add: probe_step_def probe_start_def probe_finish_def checkCircuit_def recordFailure_def
      recordSuccess_def initial_healthCheck_def testAllConnections_def testConnection_def
      run_probe_def Let_def)

text \<open>
  Claim C4, amended: for probes that do not overlap (each probe's request settles before
  the next probe starts, and no request is in flight at the beginning), of either kind,
  on a breaker with no recorded failure (threshold 3, reset window 30000 ms): three
  failing probes open the breaker with a failure count of 3; every probe started after
  that whose \<open>_checkCircuit\<close> reads a time at most 30000 ms after the last failure
  returns \<open>false\<close> at once, sends no request and leaves the breaker as it is; a probe
  then started more than 30000 ms after the last failure whose request succeeds returns
  \<open>true\<close>, sends one request, closes the breaker and sets the failure count to 0. The
  failures must be consecutive: a successful probe after two failures sets the count to
  0, and two more failures leave the breaker closed with a count of 2.
\<close>

theorem probes_in_turn_open_block_and_reset:
  assumes f0: "failures (hc_circuitBreaker hc) = 0"
    and th: "threshold (hc_circuitBreaker hc) = 3"
    and rt: "resetTime (hc_circuitBreaker hc) = 30000"
    and p: "failing_probe p1" "failing_probe p2" "failing_probe p3"
    and within: "list_all (\<lambda>(rq, now). now - pe_failure_time p3 \<le> 30000) later"
    and late: "t - pe_failure_time p3 > 30000"
    and q: "pe_reply q = ProbeOk" "failing_probe p4" "failing_probe p5"
  shows "fst (probe_events (in_turn [(r1, p1), (r2, p2), (r3, p3)]) ([], hc))
           = [Pending, Answered False, Pending, Answered False, Pending, Answered False] \<and>
         fst (snd (probe_events (in_turn [(r1, p1), (r2, p2), (r3, p3)]) ([], hc))) = [] \<and>
         isOpen (hc_circuitBreaker
           (snd (snd (probe_events (in_turn [(r1, p1), (r2, p2), (r3, p3)]) ([], hc))))) \<and>
         failures (hc_circuitBreaker
           (snd (snd (probe_events (in_turn [(r1, p1), (r2, p2), (r3, p3)]) ([], hc))))) = 3 \<and>
         probe_events
           (in_turn [(r1, p1), (r2, p2), (r3, p3)] @ map (\<lambda>(rq, now). Started rq now) later
              @ [Started r t, Settled r ProbeOk u])
           ([], hc)
           = ([Pending, Answered False, Pending, Answered False, Pending, Answered False]
                @ replicate (length later) Refused @ [Pending, Answered True],
              [],
              hc\<lparr>hc_circuitBreaker := (hc_circuitBreaker hc)
                    \<lparr>failures := 0, lastFailure := Some (pe_failure_time p3), isOpen := False\<rparr>,
                 hc_requests := hc_requests hc @ [r1, r2, r3, r]\<rparr>) \<and>
         failures (hc_circuitBreaker
           (snd (snd (probe_events (in_turn [(r1, p1), (r2, p2), (r, q), (r4, p4), (r5, p5)])
                        ([], hc))))) = 2 \<and>
         \<not> isOpen (hc_circuitBreaker
           (snd (snd (probe_events (in_turn [(r1, p1), (r2, p2), (r, q), (r4, p4), (r5, p5)])
                        ([], hc)))))"
proof -
  define hc3 where "hc3 = hc\<lparr>hc_circuitBreaker := (hc_circuitBreaker hc)
           \<lparr>failures := 3, lastFailure := Some (pe_failure_time p3), isOpen := True\<rparr>,
        hc_requests := hc_requests hc @ [r1, r2, r3]\<rparr>"
  have s3: "probe_events (in_turn [(r1, p1), (r2, p2), (r3, p3)]) ([], hc) =
      ([Pending, Answered False, Pending, Answered False, Pending, Answered False], [], hc3)"
    unfolding hc3_def using f0 th p by (rule three_failures_open)
  have c3: "threshold (hc_circuitBreaker hc3) \<le> failures (hc_circuitBreaker hc3)"
    "lastFailure (hc_circuitBreaker hc3) = Some (pe_failure_time p3)"
    "isOpen (hc_circuitBreaker hc3)" "resetTime (hc_circuitBreaker hc3) = 30000"
    using th rt by (simp_all add: hc3_def)
  have w: "probe_events (map (\<lambda>(rq, now). Started rq now) later) ([], hc3)
      = (replicate (length later) Refused, [], hc3)"
    using c3(1-3) within unfolding c3(4) [symmetric] by (rule starts_within_window_refused)
  have l: "probe_events [Started r t, Settled r ProbeOk u] ([], hc3) =
     ([Pending, Answered True], [],
      hc3\<lparr>hc_circuitBreaker := (hc_circuitBreaker hc3)\<lparr>failures := 0, isOpen := False\<rparr>,
         hc_requests := hc_requests hc3 @ [r]\<rparr>)"
    using c3(1,2) late [folded c3(4)] by (rule late_success_resets)
  have e: "hc3\<lparr>hc_circuitBreaker := (hc_circuitBreaker hc3)\<lparr>failures := 0, isOpen := False\<rparr>,
         hc_requests := hc_requests hc3 @ [r]\<rparr>
      = hc\<lparr>hc_circuitBreaker := (hc_circuitBreaker hc)
                    \<lparr>failures := 0, lastFailure := Some (pe_failure_time p3), isOpen := False\<rparr>,
                 hc_requests := hc_requests hc @ [r1, r2, r3, r]\<rparr>"
    by (simp add: hc3_def)
  have a: "probe_events
           (in_turn [(r1, p1), (r2, p2), (r3, p3)] @ map (\<lambda>(rq, now). Started rq now) later
              @ [Started r t, Settled r ProbeOk u])
           ([], hc)
           = ([Pending, Answered False, Pending, Answered False, Pending, Answered False]
                @ replicate (length later) Refused @ [Pending, Answered True],
              [],
              hc\<lparr>hc_circuitBreaker := (hc_circuitBreaker hc)
                    \<lparr>failures := 0, lastFailure := Some (pe_failure_time p3), isOpen := False\<rparr>,
                 hc_requests := hc_requests hc @ [r1, r2, r3, r]\<rparr>)"
    by (simp only: probe_events_append s3 w l prod.case e)
  define h1 where "h1 = recordFailure (pe_failure_time p1) (hc\<lparr>hc_requests := hc_requests hc @ [r1]\<rparr>)"
  define h2 where "h2 = recordFailure (pe_failure_time p2) (h1\<lparr>hc_requests := hc_requests h1 @ [r2]\<rparr>)"
  define h3 where "h3 = h2\<lparr>hc_circuitBreaker := (hc_circuitBreaker h2)\<lparr>failures := 0, isOpen := False\<rparr>,
         hc_requests := hc_requests h2 @ [r]\<rparr>"
  define h4 where "h4 = recordFailure (pe_failure_time p4) (h3\<lparr>hc_requests := hc_requests h3 @ [r4]\<rparr>)"
  define h5 where "h5 = recordFailure (pe_failure_time p5) (h4\<lparr>hc_requests := hc_requests h4 @ [r5]\<rparr>)"
  have c: "failures (hc_circuitBreaker h1) = 1" "threshold (hc_circuitBreaker h1) = 3"
      "failures (hc_circuitBreaker h2) = 2" "threshold (hc_circuitBreaker h2) = 3"
      "failures (hc_circuitBreaker h3) = 0" "threshold (hc_circuitBreaker h3) = 3"
      "failures (hc_circuitBreaker h4) = 1" "threshold (hc_circuitBreaker h4) = 3"
      "failures (hc_circuitBreaker h5) = 2" "\<not> isOpen (hc_circuitBreaker h5)"
    using f0 th by (simp_all add: h1_def h2_def h3_def h4_def h5_def recordFailure_def Let_def)
  have 1: "probe_events (in_turn [(r1, p1)]) ([], hc) = ([Pending, Answered False], [], h1)"
    unfolding h1_def using f0 th p(1) by (intro failing_probe_alone) simp_all
  have 2: "probe_events (in_turn [(r2, p2)]) ([], h1) = ([Pending, Answered False], [], h2)"
    unfolding h2_def using c(1,2) p(2) by (intro failing_probe_alone) simp_all
  have 3: "probe_events (in_turn [(r, q)]) ([], h2) = ([Pending, Answered True], [], h3)"
    unfolding h3_def using c(3,4) q(1) by (intro success_resets_running_count) simp_all
  have 4: "probe_events (in_turn [(r4, p4)]) ([], h3) = ([Pending, Answered False], [], h4)"
    unfolding h4_def using c(5,6) q(2) by (intro failing_probe_alone) simp_all
  have 5: "probe_events (in_turn [(r5, p5)]) ([], h4) = ([Pending, Answered False], [], h5)"
    unfolding h5_def using c(7,8) q(3) by (intro failing_probe_alone) simp_all
  have s: "in_turn [(r1, p1), (r2, p2), (r, q), (r4, p4), (r5, p5)]
      = in_turn [(r1, p1)] @ in_turn [(r2, p2)] @ in_turn [(r, q)] @ in_turn [(r4, p4)]
          @ in_turn [(r5, p5)]"
    by (simp add: in_turn_def)
  have b: "snd (snd (probe_events (in_turn [(r1, p1), (r2, p2), (r, q), (r4, p4), (r5, p5)])
                        ([], hc))) = h5"
    unfolding s by (simp only: probe_events_append 1 2 3 4 5 prod.case snd_conv)
  show ?thesis
    unfolding a s3 b fst_conv snd_conv using c(9,10) by (simp add: hc3_def)
qed

theorem probes_in_turn_open_block_and_reset_witness:
  "probe_events
     [Started DbCountQuery 0, Settled DbCountQuery ProbeError 10,
      Started StorageListBuckets 1000, Settled StorageListBuckets ProbeRejected 6000,
      Started DbCountQuery 7000, Settled DbCountQuery ProbeError 7010,
      Started DbCountQuery 8000, Started StorageListBuckets 37010,
      Started DbCountQuery 37011, Settled DbCountQuery ProbeOk 37500]
     ([], initial_healthCheck)
     = ([Pending, Answered False, Pending, Answered False, Pending, Answered False,
         Refused, Refused, Pending, Answered True],
        [],
        \<lparr>hc_circuitBreaker =
           \<lparr>failures = 0, lastFailure = Some 7010, isOpen = False, threshold = 3, resetTime = 30000\<rparr>,
         hc_requests = [DbCountQuery, StorageListBuckets, DbCountQuery, DbCountQuery]\<rparr>)"
  using probes_in_turn_open_block_and_reset
    [where hc = initial_healthCheck
       and ?p1.0 = "\<lparr>pe_check_time = 0, pe_reply = ProbeError, pe_failure_time = 10\<rparr>"
       and ?p2.0 = "\<lparr>pe_check_time = 1000, pe_reply = ProbeRejected, pe_failure_time = 6000\<rparr>"
       and ?p3.0 = "\<lparr>pe_check_time = 7000, pe_reply = ProbeError, pe_failure_time = 7010\<rparr>"
       and ?r1.0 = DbCountQuery and ?r2.0 = StorageListBuckets and ?r3.0 = DbCountQuery
       and later = "[(DbCountQuery, 8000), (StorageListBuckets, 37010)]"
       and t = 37011 and u = 37500 and r = DbCountQuery
       and q = "\<lparr>pe_check_time = 50, pe_reply = ProbeOk, pe_failure_time = 50\<rparr>"
       and ?p4.0 = "\<lparr>pe_check_time = 0, pe_reply = ProbeError, pe_failure_time = 10\<rparr>"
       and ?p5.0 = "\<lparr>pe_check_time = 0, pe_reply = ProbeError, pe_failure_time = 10\<rparr>"
       and ?r4.0 = DbCountQuery and ?r5.0 = DbCountQuery]
  by (simp add: initial_healthCheck_def failing_probe_def in_turn_def del: probe_events.simps)

text \<open>
  Claim C5, as stated: the outcome of a storage probe leaves the breaker state of the
  database dependency unchanged. \<open>healthCheck\<close> has a single \<open>_circuitBreaker\<close>
  object that both probes read and write: one failing storage probe changes the breaker
  the database probe consults, and after three failing storage probes a database probe
  returns \<open>false\<close> without sending its query.
\<close>

theorem storage_failures_open_database_breaker:
  "hc_circuitBreaker (snd (testStorageConnection
       \<lparr>pe_check_time = 0, pe_reply = ProbeError, pe_failure_time = 5\<rparr> initial_healthCheck))
     \<noteq> hc_circuitBreaker initial_healthCheck \<and>
   testConnection \<lparr>pe_check_time = 40, pe_reply = ProbeOk, pe_failure_time = 40\<rparr>
     (snd (testStorageConnection \<lparr>pe_check_time = 30, pe_reply = ProbeError, pe_failure_time = 35\<rparr>
       (snd (testStorageConnection \<lparr>pe_check_time = 20, pe_reply = ProbeError, pe_failure_time = 25\<rparr>
         (snd (testStorageConnection \<lparr>pe_check_time = 10, pe_reply = ProbeError, pe_failure_time = 15\<rparr>
            initial_healthCheck))))))
     = (False,
        \<lparr>hc_circuitBreaker =
           \<lparr>failures = 3, lastFailure = Some 35, isOpen = True, threshold = 3, resetTime = 30000\<rparr>,
         hc_requests = [StorageListBuckets, StorageListBuckets, StorageListBuckets]\<rparr>)"
  by (simp add: testStorageConnection_def testConnection_def run_probe_def probe_start_def
      probe_finish_def checkCircuit_def recordFailure_def recordSuccess_def
      initial_healthCheck_def Let_def)

text \<open>
  Claim C5, amended: the health-check service keeps one circuit breaker shared by both
  probes. A storage probe and a database probe answer alike and leave the breaker in the
  same state under the same clock readings and reply, and a failing probe of either
  dependency on a breaker below its threshold adds one to the shared failure counter.
\<close>

theorem health_probes_share_one_breaker:
  "hc_circuitBreaker (snd (testStorageConnection pe hc))
     = hc_circuitBreaker (snd (testConnection pe hc)) \<and>
   fst (testStorageConnection pe hc) = fst (testConnection pe hc) \<and>
   (failing_probe pe \<and> failures (hc_circuitBreaker hc) < threshold (hc_circuitBreaker hc) \<longrightarrow>
      failures (hc_circuitBreaker (snd (testStorageConnection pe hc)))
        = failures (hc_circuitBreaker hc) + 1 \<and>
      failures (hc_circuitBreaker (snd (testConnection pe hc)))
        = failures (hc_circuitBreaker hc) + 1)"
  by (cases "pe_reply pe")
     (simp_all add: testStorageConnection_def testConnection_def run_probe_def probe_start_def
        probe_finish_def checkCircuit_def recordFailure_def recordSuccess_def failing_probe_def
        Let_def)

theorem health_probes_share_one_breaker_witness:
  "failures (hc_circuitBreaker (snd (testStorageConnection
       \<lparr>pe_check_time = 0, pe_reply = ProbeError, pe_failure_time = 5\<rparr> initial_healthCheck))) = 1 \<and>
   failures (hc_circuitBreaker (snd (testConnection
       \<lparr>pe_check_time = 0, pe_reply = ProbeError, pe_failure_time = 5\<rparr> initial_healthCheck))) = 1"
  using health_probes_share_one_breaker
    [of "\<lparr>pe_check_time = 0, pe_reply = ProbeError, pe_failure_time = 5\<rparr>" initial_healthCheck]
  by (simp add: initial_healthCheck_def failing_probe_def)

subsection \<open>The analysis client\<close>

lemma analyze_loop_last:
  "analyze_loop parse fetch (Suc (Suc 0)) calls waits
     = (analysis_attempt parse (fetch 2), Suc calls, waits)"
  by (subst analyze_loop.simps) (simp add: MAX_RETRIES_def numeral_2_eq_2 split: sum.splits)

lemma analyze_unrolled:
  "analyzeResumeWithPerplexity parse fetch =
     (case analysis_attempt parse (fetch 1) of
        Inr v \<Rightarrow> (Inr v, 1, [])
      | Inl e \<Rightarrow>
          if err_name e = ''AbortError'' then (Inl e, 1, [])
          else (analysis_attempt parse (fetch 2), 2, [1000]))"
  unfolding analyzeResumeWithPerplexity_def
  by (subst analyze_loop.simps) (simp add: MAX_RETRIES_def analyze_loop_last split: sum.splits)

lemma not_space_backtick: "\<not> is_space CHR 0x60"
  by (simp add: is_space_def)

lemma dropWhile_spaces_append:
  assumes "list_all is_space ws"
  shows "dropWhile is_space (ws @ xs) = dropWhile is_space xs"
  using assms by (induction ws) simp_all

lemma trim_fenced:
  assumes "list_all is_space pre" "list_all is_space post"
  shows "trim (pre @ CHR 0x60 # mid @ CHR 0x60 # post) = CHR 0x60 # mid @ [CHR 0x60]"
proof -
  have a: "dropWhile is_space (pre @ CHR 0x60 # mid @ CHR 0x60 # post) = CHR 0x60 # mid @ CHR 0x60 # post"
    using assms(1) not_space_backtick by (simp add: dropWhile_spaces_append)
  have b: "rev (CHR 0x60 # mid @ CHR 0x60 # post) = rev post @ CHR 0x60 # rev mid @ [CHR 0x60]"
    by simp
  have c: "list_all is_space (rev post)" using assms(2) by (simp add: list_all_iff)
  show ?thesis
    unfolding trim_def a b using c not_space_backtick by (simp add: dropWhile_spaces_append)
qed

lemma stripCodeFence_json_fence:
  assumes "list_all is_space pre" "list_all is_space ws" "list_all is_space post"
  shows "stripCodeFence (pre @ ''```json'' @ ws @ body @ ''```'' @ post) = dropWhile is_space body"
proof -
  have t: "trim (pre @ ''```json'' @ ws @ body @ ''```'' @ post) = ''```json'' @ ws @ body @ ''```''"
    using trim_fenced [OF assms(1,3), of "''``json'' @ ws @ body @ ''``''"] by simp
  have d: "dropWhile is_space (body @ ''```'') = dropWhile is_space body @ ''```''"
    using not_space_backtick by (induction body) simp_all
  show ?thesis
    unfolding stripCodeFence_def t using assms(2) by (simp add: dropWhile_spaces_append d Let_def)
qed

lemma stripCodeFence_other:
  assumes "\<not> prefix ''```json'' (trim content)"
  shows "stripCodeFence content =
     (if suffix ''```'' (trim content) then take (length (trim content) - 3) (trim content)
      else trim content)"
proof -
  have s: "suffix ''```'' (trim content) \<longleftrightarrow> prefix ''```'' (rev (trim content))"
    by (simp add: suffix_to_prefix)
  show ?thesis using assms by (simp add: stripCodeFence_def Let_def s rev_drop)
qed

lemma stripCodeFence_bare_fence:
  "stripCodeFence (''```'' @ CHR 0x0A # body @ ''```'') = ''```'' @ CHR 0x0A # body"
proof -
  have t: "trim (''```'' @ CHR 0x0A # body @ ''```'') = ''```'' @ CHR 0x0A # body @ ''```''"
    using trim_fenced [of "[]" "[]" "''``'' @ CHR 0x0A # body @ ''``''"] by simp
  show ?thesis unfolding stripCodeFence_def t by (simp add: Let_def)
qed

lemma stripCodeFence_upper:
  "stripCodeFence (''```JSON'' @ CHR 0x0A # body @ ''```'') = ''```JSON'' @ CHR 0x0A # body"
proof -
  have t: "trim (''```JSON'' @ CHR 0x0A # body @ ''```'') = ''```JSON'' @ CHR 0x0A # body @ ''```''"
    using trim_fenced [of "[]" "[]" "''``JSON'' @ CHR 0x0A # body @ ''``''"] by simp
  show ?thesis unfolding stripCodeFence_def t by (simp add: Let_def)
qed


text \<open>
  Claim C3, as stated: a timeout is retried, and a response that fails the shape check is
  not. The loop does the opposite on both counts. When the first response parses to an
  object without \<open>overall_score\<close> (the text \<open>{}\<close>), the attempt fails with the
  invalid-structure error, a second \<open>fetch\<close> is made and its valid response is
  returned. When the first \<open>fetch\<close> is aborted by the timer, the \<open>AbortError\<close> is
  thrown after that one call.
\<close>

theorem analyze_retries_invalid_structure_and_not_timeout:
  "analyzeResumeWithPerplexity parse_sample
      (\<lambda>n. if n = 1 then HttpContent (Some ''{}'') else HttpContent (Some text_score_82))
     = (Inr (JObj [(''overall_score'', JNum 82),
                   (''categories'', JObj [(''skills'', JObj [(''score'', JNum 80)])])]), 2, [1000]) \<and>
   analysis_attempt parse_sample (HttpContent (Some ''{}'')) = Inl invalid_structure \<and>
   analyzeResumeWithPerplexity parse_sample
      (\<lambda>n. if n = 1 then FetchAborted else HttpContent (Some text_score_82))
     = (Inl (named_error ''AbortError'' ''The user aborted a request.''), 1, [])"
  by (simp add: analyze_unrolled analysis_attempt_def parse_and_validate_def parse_sample_def stripCodeFence_def trim_def
      is_space_def text_score_82_def text_zero_score_def dq_def invalid_structure_def new_Error_def
      named_error_def Let_def)


text \<open>
  Claim C3, amended: the analyze operation makes at most two attempts. A first attempt
  that fails with anything but an \<open>AbortError\<close> (a transport error, a response that is
  not ok, missing content, text that does not parse, a response that fails the shape
  check) is followed after 1000 ms by a second attempt, whose result or error is the
  outcome; a first attempt aborted by the timer is thrown at once. What is parsed is the
  trimmed text without an opening fence \<open>```json\<close> at its very start (lower case, with
  the white space after it) and without a closing \<open>```\<close> at its very end: text fenced
  in this way, with white space around it, is parsed as its body. No other fence is
  removed: when the trimmed text starts with anything but \<open>```json\<close>, as with a bare
  \<open>```\<close>, with \<open>```JSON\<close> or with words before the fence, only a closing fence is
  removed and the opening fence is part of what \<open>JSON.parse\<close> is given.
\<close>

theorem analyze_attempt_policy:
  "analyzeResumeWithPerplexity parse fetch =
     (case analysis_attempt parse (fetch 1) of
        Inr v \<Rightarrow> (Inr v, 1, [])
      | Inl e \<Rightarrow>
          if err_name e = ''AbortError'' then (Inl e, 1, [])
          else (analysis_attempt parse (fetch 2), 2, [1000])) \<and>
   err_name (named_error ''AbortError'' ''The user aborted a request.'') = ''AbortError'' \<and>
   analysis_attempt parse FetchAborted = Inl (named_error ''AbortError'' ''The user aborted a request.'') \<and>
   err_name invalid_structure \<noteq> ''AbortError'' \<and>
   err_name (named_error ''TypeError'' msg) \<noteq> ''AbortError'' \<and>
   analysis_attempt parse (FetchFailed msg) = Inl (named_error ''TypeError'' msg) \<and>
   fst (snd (analyzeResumeWithPerplexity parse fetch)) \<le> MAX_RETRIES \<and>
   (content \<noteq> [] \<longrightarrow>
      analysis_attempt parse (HttpContent (Some content))
        = parse_and_validate parse (stripCodeFence content)) \<and>
   (list_all is_space pre \<and> list_all is_space ws \<and> list_all is_space post \<longrightarrow>
      stripCodeFence (pre @ ''```json'' @ ws @ body @ ''```'' @ post) = dropWhile is_space body) \<and>
   (\<not> prefix ''```json'' (trim content) \<longrightarrow>
      stripCodeFence content =
        (if suffix ''```'' (trim content) then take (length (trim content) - 3) (trim content)
         else trim content)) \<and>
   stripCodeFence (''```'' @ CHR 0x0A # body @ ''```'') = ''```'' @ CHR 0x0A # body \<and>
   stripCodeFence (''```JSON'' @ CHR 0x0A # body @ ''```'') = ''```JSON'' @ CHR 0x0A # body"
proof -
  have n: "fst (snd (analyzeResumeWithPerplexity parse fetch)) \<le> MAX_RETRIES"
    by (simp add: analyze_unrolled MAX_RETRIES_def split: sum.splits)
  have e: "err_name (named_error ''AbortError'' ''The user aborted a request.'') = ''AbortError''"
    "analysis_attempt parse FetchAborted = Inl (named_error ''AbortError'' ''The user aborted a request.'')"
    "err_name invalid_structure \<noteq> ''AbortError''"
    "err_name (named_error ''TypeError'' msg) \<noteq> ''AbortError''"
    "analysis_attempt parse (FetchFailed msg) = Inl (named_error ''TypeError'' msg)"
    by (simp_all add: analysis_attempt_def named_error_def invalid_structure_def new_Error_def)
  have a: "content \<noteq> [] \<longrightarrow>
      analysis_attempt parse (HttpContent (Some content))
        = parse_and_validate parse (stripCodeFence content)"
    by (simp add: analysis_attempt_def)
  have f: "list_all is_space pre \<and> list_all is_space ws \<and> list_all is_space post \<longrightarrow>
      stripCodeFence (pre @ ''```json'' @ ws @ body @ ''```'' @ post) = dropWhile is_space body"
    using stripCodeFence_json_fence [of pre ws post body] by blast
  have g: "\<not> prefix ''```json'' (trim content) \<longrightarrow>
      stripCodeFence content =
        (if suffix ''```'' (trim content) then take (length (trim content) - 3) (trim content)
         else trim content)"
    using stripCodeFence_other [of content] by blast
  show ?thesis
    using analyze_unrolled [of parse fetch] e n a f g
      stripCodeFence_bare_fence [of body] stripCodeFence_upper [of body]
    by (intro conjI)
qed

theorem analyze_attempt_policy_witness:
  "stripCodeFence ('' ```json'' @ CHR 0x0A # text_score_82 @ ''```'' @ [CHR 0x0A]) = text_score_82 \<and>
   analysis_attempt parse_sample
       (HttpContent (Some ('' ```json'' @ CHR 0x0A # text_score_82 @ ''```'' @ [CHR 0x0A])))
     = Inr (JObj [(''overall_score'', JNum 82),
                  (''categories'', JObj [(''skills'', JObj [(''score'', JNum 80)])])]) \<and>
   stripCodeFence (''Result: ```json'' @ CHR 0x0A # text_score_82 @ ''```'')
     = ''Result: ```json'' @ CHR 0x0A # text_score_82 \<and>
   analysis_attempt parse_sample
       (HttpContent (Some (''Result: ```json'' @ CHR 0x0A # text_score_82 @ ''```'')))
     = Inl (named_error ''SyntaxError'' ''Unexpected token'')"
proof -
  have sp: "list_all is_space '' ''" "list_all is_space [CHR 0x0A]"
    by (simp_all add: is_space_def)
  have d: "dropWhile is_space text_score_82 = text_score_82"
    by (simp add: text_score_82_def is_space_def)
  have t: "trim (''Result: ```json'' @ CHR 0x0A # text_score_82 @ ''```'')
             = ''Result: ```json'' @ CHR 0x0A # text_score_82 @ ''```''"
    by (simp add: trim_def is_space_def text_score_82_def dq_def)
  have np: "\<not> prefix ''```json'' (trim (''Result: ```json'' @ CHR 0x0A # text_score_82 @ ''```''))"
    unfolding t by simp
  have sf: "suffix ''```'' (''Result: ```json'' @ CHR 0x0A # text_score_82 @ ''```'')"
    by (simp add: suffix_def)
  have ps: "parse_sample text_score_82
      = Some (JObj [(''overall_score'', JNum 82),
                  (''categories'', JObj [(''skills'', JObj [(''score'', JNum 80)])])])"
    "parse_sample (''Result: ```json'' @ CHR 0x0A # text_score_82) = None"
    by (simp_all add: parse_sample_def text_score_82_def text_zero_score_def dq_def)
  have ne: "'' ```json'' @ CHR 0x0A # text_score_82 @ ''```'' @ [CHR 0x0A] \<noteq> []"
    "''Result: ```json'' @ CHR 0x0A # text_score_82 @ ''```'' \<noteq> []"
    by simp_all
  have 1: "stripCodeFence ('' ```json'' @ CHR 0x0A # text_score_82 @ ''```'' @ [CHR 0x0A]) = text_score_82"
    using analyze_attempt_policy
      [where pre = "'' ''" and ws = "[CHR 0x0A]" and post = "[CHR 0x0A]" and body = text_score_82]
      sp d by simp
  have 2: "stripCodeFence (''Result: ```json'' @ CHR 0x0A # text_score_82 @ ''```'')
     = ''Result: ```json'' @ CHR 0x0A # text_score_82"
    using analyze_attempt_policy
      [where content = "''Result: ```json'' @ CHR 0x0A # text_score_82 @ ''```''"]
      np sf unfolding t by simp
  show ?thesis
    using 1 2 ps
    by (simp add: analysis_attempt_def parse_and_validate_def)
qed

text \<open>
  Claim C10. A response whose text parses to an object with a falsy \<open>overall_score\<close>
  (0 is falsy) makes the attempt fail with the invalid-structure error, and when every
  attempt receives it the operation throws that error; a parsed value is accepted exactly
  when its \<open>overall_score\<close> and its \<open>categories\<close> are both truthy.
\<close>

theorem falsy_overall_score_is_invalid_structure:
  assumes "content \<noteq> []"
    and "parse (stripCodeFence content) = Some (JObj kvs)"
    and "map_of kvs ''overall_score'' = Some score"
    and "\<not> truthy score"
  shows "\<not> truthy (JNum 0) \<and>
         analysis_attempt parse (HttpContent (Some content)) = Inl invalid_structure \<and>
         analyzeResumeWithPerplexity parse (\<lambda>n. HttpContent (Some content))
           = (Inl invalid_structure, 2, [1000]) \<and>
         (parse_and_validate parse c = Inr v \<longleftrightarrow>
            parse c = Some v \<and>
            (\<exists>s cs. get_member v ''overall_score'' = Inr s \<and> truthy s \<and>
                    get_member v ''categories'' = Inr cs \<and> truthy cs))"
proof -
  have a: "analysis_attempt parse (HttpContent (Some content)) = Inl invalid_structure"
    using assms by (simp add: analysis_attempt_def parse_and_validate_def)
  have b: "err_name invalid_structure \<noteq> ''AbortError''"
    by (simp add: invalid_structure_def new_Error_def)
  have c: "parse_and_validate parse c = Inr v \<longleftrightarrow>
            parse c = Some v \<and>
            (\<exists>s cs. get_member v ''overall_score'' = Inr s \<and> truthy s \<and>
                    get_member v ''categories'' = Inr cs \<and> truthy cs)"
    by (auto simp: parse_and_validate_def split: option.splits sum.splits)
  show ?thesis using a b c by (simp add: analyze_unrolled)
qed

theorem falsy_overall_score_is_invalid_structure_witness:
  "analysis_attempt parse_sample (HttpContent (Some text_zero_score)) = Inl invalid_structure \<and>
   analyzeResumeWithPerplexity parse_sample (\<lambda>n. HttpContent (Some text_zero_score))
     = (Inl invalid_structure, 2, [1000])"
proof -
  have 1: "text_zero_score \<noteq> []" by (simp add: text_zero_score_def)
  have 2: "parse_sample (stripCodeFence text_zero_score) =
     Some (JObj [(''overall_score'', JNum 0),
                 (''categories'', JObj [(''skills'', JObj [(''score'', JNum 0)])])])"
    by (simp add: parse_sample_def stripCodeFence_def trim_def is_space_def text_zero_score_def
        dq_def Let_def)
  have 3: "map_of [(''overall_score'', JNum 0),
                 (''categories'', JObj [(''skills'', JObj [(''score'', JNum 0)])])] ''overall_score''
       = Some (JNum 0)" by simp
  have 4: "\<not> truthy (JNum 0)" by simp
  show ?thesis
    using falsy_overall_score_is_invalid_structure
      [where parse = parse_sample and content = text_zero_score and score = "JNum 0", OF 1 2 3 4]
    by simp
qed

subsection \<open>resumeService.delete\<close>

lemma retry_loop_requests:
  assumes step: "\<And>a b. be_requests (snd (fn a b)) = be_requests b @ [rq]"
    and keeps: "\<And>a b. obs (snd (fn a b)) = obs b"
  shows "attempt \<le> maxRetries \<Longrightarrow>
         \<exists>k. 1 \<le> k \<and> k \<le> maxRetries + 1 - attempt \<and>
             be_requests (snd (snd (retry_loop fn maxRetries bd md f j attempt le ds b)))
               = be_requests b @ replicate k rq \<and>
             obs (snd (snd (retry_loop fn maxRetries bd md f j attempt le ds b))) = obs b"
proof (induction "maxRetries - attempt" arbitrary: attempt le ds b)
  case 0
  then have eq: "attempt = maxRetries" by simp
  obtain r b1 where fn: "fn attempt b = (r, b1)" by (cases "fn attempt b")
  have s: "be_requests b1 = be_requests b @ [rq]" "obs b1 = obs b"
    using step [of attempt b] keeps [of attempt b] fn by simp_all
  have "be_requests (snd (snd (retry_loop fn maxRetries bd md f j attempt le ds b)))
               = be_requests b @ replicate 1 rq \<and>
        obs (snd (snd (retry_loop fn maxRetries bd md f j attempt le ds b))) = obs b"
    using eq fn s by (cases r) (simp_all add: retry_loop.simps [of _ _ _ _ _ _ maxRetries])
  then show ?case using eq by (intro exI [of _ 1]) simp
next
  case (Suc n)
  then have lt: "attempt < maxRetries" by simp
  obtain r b1 where fn: "fn attempt b = (r, b1)" by (cases "fn attempt b")
  have s: "be_requests b1 = be_requests b @ [rq]" "obs b1 = obs b"
    using step [of attempt b] keeps [of attempt b] fn by simp_all
  show ?case
  proof (cases r)
    case (Inr v)
    then have "be_requests (snd (snd (retry_loop fn maxRetries bd md f j attempt le ds b)))
               = be_requests b @ replicate 1 rq \<and>
        obs (snd (snd (retry_loop fn maxRetries bd md f j attempt le ds b))) = obs b"
      using lt fn s by (simp add: retry_loop.simps [of _ _ _ _ _ _ attempt])
    then show ?thesis using lt by (intro exI [of _ 1]) simp
  next
    case (Inl e)
    have n: "n = maxRetries - (attempt + 1)" using Suc.hyps(2) by simp
    have le': "attempt + 1 \<le> maxRetries" using lt by simp
    from Suc.hyps(1) [OF n le', of "Some e" "ds @ [backoff_delay bd md f (j attempt) attempt]" b1]
    obtain k where k: "1 \<le> k" "k \<le> maxRetries + 1 - (attempt + 1)"
      "be_requests (snd (snd (retry_loop fn maxRetries bd md f j (attempt + 1) (Some e)
          (ds @ [backoff_delay bd md f (j attempt) attempt]) b1))) = be_requests b1 @ replicate k rq"
      "obs (snd (snd (retry_loop fn maxRetries bd md f j (attempt + 1) (Some e)
          (ds @ [backoff_delay bd md f (j attempt) attempt]) b1))) = obs b1"
      by blast
    have "be_requests (snd (snd (retry_loop fn maxRetries bd md f j attempt le ds b)))
               = be_requests b @ replicate (Suc k) rq \<and>
        obs (snd (snd (retry_loop fn maxRetries bd md f j attempt le ds b))) = obs b"
      using lt fn s Inl k(3,4)
      by (simp add: retry_loop.simps [of _ _ _ _ _ _ attempt] replicate_append_same [symmetric]
          del: replicate.simps) (simp add: replicate_append_same)
    then show ?thesis using k(1,2) lt by (intro exI [of _ "Suc k"]) simp
  qed
qed

lemma deleteFile_attempt_requests:
  "be_requests (snd (deleteFile_attempt net path bucket t a b)) = be_requests b @ [StorageRemove bucket path]"
  "be_rows (snd (deleteFile_attempt net path bucket t a b)) = be_rows b"
  by (simp_all add: deleteFile_attempt_def perform_def Let_def split: reply.splits)

lemma deleteFile_requests:
  "\<exists>k. 1 \<le> k \<and> k \<le> 3 \<and>
       be_requests (snd (deleteFile net jitter path bucket t b))
         = be_requests b @ replicate k (StorageRemove bucket path) \<and>
       be_rows (snd (deleteFile net jitter path bucket t b)) = be_rows b"
proof -
  have *: "snd (deleteFile net jitter path bucket t b)
      = snd (snd (retry_loop (deleteFile_attempt net path bucket t) 3 1000 10000 2 jitter 1 None [] b))"
    by (simp add: deleteFile_def with_retry_def retryWithBackoff_def split: prod.splits sum.splits)
  show ?thesis
    unfolding *
    using retry_loop_requests
      [where fn = "deleteFile_attempt net path bucket t" and obs = be_rows and attempt = 1
          and maxRetries = 3,
        OF deleteFile_attempt_requests]
    by simp
qed

lemma run_pool_Nil: "run_pool net sched [] b = b"
  by (simp add: run_pool.simps)

lemma pick_single: "(case sched of [] \<Rightarrow> 0 | n # later \<Rightarrow> n mod length [t]) = 0"
  by (cases sched) simp_all

lemma run_pool_single:
  "run_pool net sched [t] b = (case task_step net t b of (started, b1) \<Rightarrow> run_pool net (tl sched) started b1)"
  by (subst run_pool.simps) (simp add: pick_single Let_def)

text \<open>A deletion that is alone in flight does what the loop of \<open>deleteFile\<close> does.\<close>

lemma removing_alone_is_retry_loop:
  "attempt \<le> 3 \<Longrightarrow>
   run_pool net sched [Removing path bucket t attempt] b
     = snd (snd (retry_loop (deleteFile_attempt net path bucket t) 3 bd md f j attempt le ds b))"
proof (induction "3 - attempt" arbitrary: attempt sched b le ds)
  case 0
  then have eq: "attempt = 3" by simp
  show ?case
    unfolding eq run_pool_single
    by (simp add: retry_loop.simps [of _ _ _ _ _ _ 3] run_pool_Nil split: prod.splits sum.splits)
next
  case (Suc n)
  then have lt: "attempt < 3" by simp
  have n: "n = 3 - (attempt + 1)" using Suc.hyps(2) by simp
  have le': "attempt + 1 \<le> 3" using lt by simp
  show ?case
    unfolding run_pool_single
    using lt Suc.hyps(1) [OF n le']
    by (simp add: retry_loop.simps [of _ _ _ _ _ _ attempt] run_pool_Nil
        split: prod.splits sum.splits)
qed

lemma removing_alone_is_deleteFile:
  "run_pool net sched [Removing path bucket t 1] b = snd (deleteFile net jitter path bucket t b)"
proof -
  have *: "snd (deleteFile net jitter path bucket t b)
      = snd (snd (retry_loop (deleteFile_attempt net path bucket t) 3 1000 10000 2 jitter 1 None [] b))"
    by (simp add: deleteFile_def with_retry_def retryWithBackoff_def split: prod.splits sum.splits)
  show ?thesis
    unfolding * by (rule removing_alone_is_retry_loop) simp
qed

lemma removing_alone_requests:
  assumes "1 \<le> attempt" "attempt \<le> 3"
  shows "\<exists>k. 1 \<le> k \<and> k \<le> 4 - attempt \<and>
       be_requests (run_pool net sched [Removing path bucket t attempt] b)
         = be_requests b @ replicate k (StorageRemove bucket path) \<and>
       be_rows (run_pool net sched [Removing path bucket t attempt] b) = be_rows b"
proof -
  have *: "run_pool net sched [Removing path bucket t attempt] b
     = snd (snd (retry_loop (deleteFile_attempt net path bucket t) 3 1000 10000 2 (\<lambda>n. 0) attempt
                   None [] b))"
    using assms(2) by (rule removing_alone_is_retry_loop)
  show ?thesis
    unfolding *
    using retry_loop_requests
      [where fn = "deleteFile_attempt net path bucket t" and obs = be_rows and attempt = attempt
          and maxRetries = 3,
        OF deleteFile_attempt_requests assms(2)]
    by simp
qed

lemma pick_pair:
  "(case sched of [] \<Rightarrow> 0 | n # later \<Rightarrow> n mod length [t1, t2]) = 0 \<or>
   (case sched of [] \<Rightarrow> 0 | n # later \<Rightarrow> n mod length [t1, t2]) = 1"
proof (cases sched)
  case Nil
  then show ?thesis by simp
next
  case (Cons n later)
  have "n mod 2 = 0 \<or> n mod 2 = 1" by presburger
  then show ?thesis using Cons by (simp add: numeral_2_eq_2)
qed

lemma shuffles_one_first: "x # ys \<in> shuffles [x] ys"
  by (rule Cons_in_shuffles_leftI) simp

lemma shuffles_one_second: "y # xs \<in> shuffles xs [y]"
  by (rule Cons_in_shuffles_rightI) simp

lemma run_pool_pair_first:
  assumes "(case sched of [] \<Rightarrow> 0 | n # later \<Rightarrow> n mod length [t1, t2]) = 0"
  shows "run_pool net sched [t1, t2] b =
     (case task_step net t1 b of (started, b1) \<Rightarrow> run_pool net (tl sched) (started @ [t2]) b1)"
  by (subst run_pool.simps) (simp add: assms Let_def)

lemma run_pool_pair_second:
  assumes "(case sched of [] \<Rightarrow> 0 | n # later \<Rightarrow> n mod length [t1, t2]) = 1"
  shows "run_pool net sched [t1, t2] b =
     (case task_step net t2 b of (started, b1) \<Rightarrow> run_pool net (tl sched) (t1 # started) b1)"
  by (subst run_pool.simps) (simp add: assms Let_def)

lemma removing_step:
  assumes "attempt \<le> 3"
  shows "\<exists>b1. be_requests b1 = be_requests b @ [StorageRemove bucket path] \<and> be_rows b1 = be_rows b \<and>
           (task_step net (Removing path bucket t attempt) b = ([], b1) \<or>
            attempt < 3 \<and>
            task_step net (Removing path bucket t attempt) b
              = ([Removing path bucket t (attempt + 1)], b1))"
proof -
  obtain r b1 where d: "deleteFile_attempt net path bucket t attempt b = (r, b1)"
    by (cases "deleteFile_attempt net path bucket t attempt b")
  have "be_requests b1 = be_requests b @ [StorageRemove bucket path]" "be_rows b1 = be_rows b"
    using deleteFile_attempt_requests [of net path bucket t attempt b] d by simp_all
  then show ?thesis
    using assms d by (cases r; cases "attempt = 3") (auto intro!: exI [of _ b1])
qed

declare task_step.simps [simp del]

lemma removing_pair_requests:
  assumes "1 \<le> a1" "a1 \<le> 3" "1 \<le> a2" "a2 \<le> 3"
  shows "\<exists>k m zs. 1 \<le> k \<and> k \<le> 4 - a1 \<and> 1 \<le> m \<and> m \<le> 4 - a2 \<and>
       zs \<in> shuffles (replicate k (StorageRemove bk1 p1)) (replicate m (StorageRemove bk2 p2)) \<and>
       be_requests (run_pool net sched [Removing p1 bk1 t1 a1, Removing p2 bk2 t2 a2] b)
         = be_requests b @ zs \<and>
       be_rows (run_pool net sched [Removing p1 bk1 t1 a1, Removing p2 bk2 t2 a2] b) = be_rows b"
  using assms
proof (induction "(3 - a1) + (3 - a2)" arbitrary: a1 a2 sched b)
  case 0
  then have eq: "a1 = 3" "a2 = 3" by simp_all
  let ?A = "Removing p1 bk1 t1 a1" and ?B = "Removing p2 bk2 t2 a2"
  let ?r1 = "StorageRemove bk1 p1" and ?r2 = "StorageRemove bk2 p2"
  from pick_pair [where sched = sched and ?t1.0 = ?A and ?t2.0 = ?B] show ?case
  proof
    assume pk: "(case sched of [] \<Rightarrow> 0 | n # later \<Rightarrow> n mod length [?A, ?B]) = 0"
    from removing_step [of a1 b bk1 p1 net t1] eq obtain b1 where
      b1: "be_requests b1 = be_requests b @ [?r1]" "be_rows b1 = be_rows b"
        "task_step net ?A b = ([], b1)" by auto
    from removing_alone_requests [of a2 net "tl sched" p2 bk2 t2 b1] "0.prems" obtain m where
      m: "1 \<le> m" "m \<le> 4 - a2"
        "be_requests (run_pool net (tl sched) [?B] b1) = be_requests b1 @ replicate m ?r2"
        "be_rows (run_pool net (tl sched) [?B] b1) = be_rows b1" by blast
    have run: "run_pool net sched [?A, ?B] b = run_pool net (tl sched) [?B] b1"
      using run_pool_pair_first [OF pk, of net b] b1(3) by simp
    have sh: "?r1 # replicate m ?r2 \<in> shuffles (replicate 1 ?r1) (replicate m ?r2)"
      by (simp add: shuffles_one_first)
    show ?thesis
      unfolding run
      using m b1(1,2) sh "0.prems"
      by (intro exI [of _ 1] exI [of _ m] exI [of _ "?r1 # replicate m ?r2"]) simp
  next
    assume pk: "(case sched of [] \<Rightarrow> 0 | n # later \<Rightarrow> n mod length [?A, ?B]) = 1"
    from removing_step [of a2 b bk2 p2 net t2] eq obtain b1 where
      b1: "be_requests b1 = be_requests b @ [?r2]" "be_rows b1 = be_rows b"
        "task_step net ?B b = ([], b1)" by auto
    from removing_alone_requests [of a1 net "tl sched" p1 bk1 t1 b1] "0.prems" obtain k where
      k: "1 \<le> k" "k \<le> 4 - a1"
        "be_requests (run_pool net (tl sched) [?A] b1) = be_requests b1 @ replicate k ?r1"
        "be_rows (run_pool net (tl sched) [?A] b1) = be_rows b1" by blast
    have run: "run_pool net sched [?A, ?B] b = run_pool net (tl sched) [?A] b1"
      using run_pool_pair_second [OF pk, of net b] b1(3) by simp
    have sh: "?r2 # replicate k ?r1 \<in> shuffles (replicate k ?r1) (replicate 1 ?r2)"
      by (simp add: shuffles_one_second)
    show ?thesis
      unfolding run
      using k b1(1,2) sh "0.prems"
      by (intro exI [of _ k] exI [of _ 1] exI [of _ "?r2 # replicate k ?r1"]) simp
  qed
next
  case (Suc n)
  let ?A = "Removing p1 bk1 t1 a1" and ?B = "Removing p2 bk2 t2 a2"
  let ?r1 = "StorageRemove bk1 p1" and ?r2 = "StorageRemove bk2 p2"
  from pick_pair [where sched = sched and ?t1.0 = ?A and ?t2.0 = ?B] show ?case
  proof
    assume pk: "(case sched of [] \<Rightarrow> 0 | n # later \<Rightarrow> n mod length [?A, ?B]) = 0"
    from removing_step [of a1 b bk1 p1 net t1] Suc.prems obtain b1 where
      b1: "be_requests b1 = be_requests b @ [?r1]" "be_rows b1 = be_rows b"
      and alt: "task_step net ?A b = ([], b1) \<or>
            a1 < 3 \<and> task_step net ?A b = ([Removing p1 bk1 t1 (a1 + 1)], b1)" by blast
    from alt show ?thesis
    proof
      assume fin: "task_step net ?A b = ([], b1)"
      from removing_alone_requests [of a2 net "tl sched" p2 bk2 t2 b1] Suc.prems obtain m where
        m: "1 \<le> m" "m \<le> 4 - a2"
          "be_requests (run_pool net (tl sched) [?B] b1) = be_requests b1 @ replicate m ?r2"
          "be_rows (run_pool net (tl sched) [?B] b1) = be_rows b1" by blast
      have run: "run_pool net sched [?A, ?B] b = run_pool net (tl sched) [?B] b1"
        using run_pool_pair_first [OF pk, of net b] fin by simp
      have sh: "?r1 # replicate m ?r2 \<in> shuffles (replicate 1 ?r1) (replicate m ?r2)"
        by (simp add: shuffles_one_first)
      show ?thesis
        unfolding run
        using m b1 sh Suc.prems
        by (intro exI [of _ 1] exI [of _ m] exI [of _ "?r1 # replicate m ?r2"]) simp
    next
      assume "a1 < 3 \<and> task_step net ?A b = ([Removing p1 bk1 t1 (a1 + 1)], b1)"
      then have lt: "a1 < 3" and go: "task_step net ?A b = ([Removing p1 bk1 t1 (a1 + 1)], b1)"
        by simp_all
      have n: "n = 3 - (a1 + 1) + (3 - a2)" using Suc.hyps(2) lt by simp
      from Suc.hyps(1) [OF n, of "tl sched" b1] lt Suc.prems obtain k m zs where
        i: "1 \<le> k" "k \<le> 4 - (a1 + 1)" "1 \<le> m" "m \<le> 4 - a2"
          "zs \<in> shuffles (replicate k ?r1) (replicate m ?r2)"
          "be_requests (run_pool net (tl sched) [Removing p1 bk1 t1 (a1 + 1), ?B] b1)
             = be_requests b1 @ zs"
          "be_rows (run_pool net (tl sched) [Removing p1 bk1 t1 (a1 + 1), ?B] b1) = be_rows b1"
        by auto
      have run: "run_pool net sched [?A, ?B] b
          = run_pool net (tl sched) [Removing p1 bk1 t1 (a1 + 1), ?B] b1"
        using run_pool_pair_first [OF pk, of net b] go by simp
      have sh: "?r1 # zs \<in> shuffles (replicate (Suc k) ?r1) (replicate m ?r2)"
        using i(5) by (simp add: Cons_in_shuffles_leftI)
      show ?thesis
        unfolding run
        using i(1-4,6,7) b1 sh lt
        by (intro exI [of _ "Suc k"] exI [of _ m] exI [of _ "?r1 # zs"]) simp
    qed
  next
    assume pk: "(case sched of [] \<Rightarrow> 0 | n # later \<Rightarrow> n mod length [?A, ?B]) = 1"
    from removing_step [of a2 b bk2 p2 net t2] Suc.prems obtain b1 where
      b1: "be_requests b1 = be_requests b @ [?r2]" "be_rows b1 = be_rows b"
      and alt: "task_step net ?B b = ([], b1) \<or>
            a2 < 3 \<and> task_step net ?B b = ([Removing p2 bk2 t2 (a2 + 1)], b1)" by blast
    from alt show ?thesis
    proof
      assume fin: "task_step net ?B b = ([], b1)"
      from removing_alone_requests [of a1 net "tl sched" p1 bk1 t1 b1] Suc.prems obtain k where
        k: "1 \<le> k" "k \<le> 4 - a1"
          "be_requests (run_pool net (tl sched) [?A] b1) = be_requests b1 @ replicate k ?r1"
          "be_rows (run_pool net (tl sched) [?A] b1) = be_rows b1" by blast
      have run: "run_pool net sched [?A, ?B] b = run_pool net (tl sched) [?A] b1"
        using run_pool_pair_second [OF pk, of net b] fin by simp
      have sh: "?r2 # replicate k ?r1 \<in> shuffles (replicate k ?r1) (replicate 1 ?r2)"
        by (simp add: shuffles_one_second)
      show ?thesis
        unfolding run
        using k b1 sh Suc.prems
        by (intro exI [of _ k] exI [of _ 1] exI [of _ "?r2 # replicate k ?r1"]) simp
    next
      assume "a2 < 3 \<and> task_step net ?B b = ([Removing p2 bk2 t2 (a2 + 1)], b1)"
      then have lt: "a2 < 3" and go: "task_step net ?B b = ([Removing p2 bk2 t2 (a2 + 1)], b1)"
        by simp_all
      have n: "n = 3 - a1 + (3 - (a2 + 1))" using Suc.hyps(2) lt by simp
      from Suc.hyps(1) [OF n, of "tl sched" b1] lt Suc.prems obtain k m zs where
        i: "1 \<le> k" "k \<le> 4 - a1" "1 \<le> m" "m \<le> 4 - (a2 + 1)"
          "zs \<in> shuffles (replicate k ?r1) (replicate m ?r2)"
          "be_requests (run_pool net (tl sched) [?A, Removing p2 bk2 t2 (a2 + 1)] b1)
             = be_requests b1 @ zs"
          "be_rows (run_pool net (tl sched) [?A, Removing p2 bk2 t2 (a2 + 1)] b1) = be_rows b1"
        by auto
      have run: "run_pool net sched [?A, ?B] b
          = run_pool net (tl sched) [?A, Removing p2 bk2 t2 (a2 + 1)] b1"
        using run_pool_pair_second [OF pk, of net b] go by simp
      have sh: "?r2 # zs \<in> shuffles (replicate k ?r1) (replicate (Suc m) ?r2)"
        using i(5) by (simp add: Cons_in_shuffles_rightI)
      show ?thesis
        unfolding run
        using i(1-4,6,7) b1 sh lt
        by (intro exI [of _ k] exI [of _ "Suc m"] exI [of _ "?r2 # zs"]) simp
    qed
  qed
qed

lemma resumeService_delete_succeeds_iff:
  "fst (resumeService_delete net ident b) = None \<longleftrightarrow>
     ident \<noteq> [] \<and> net (length (be_requests b)) (DbSelect ident) = ReplyOk \<and>
     be_rows b ident \<noteq> None \<and>
     net (Suc (length (be_requests b))) (DbDelete ident) = ReplyOk"
  by (auto simp: resumeService_delete_def resumeService_getById_def perform_def Let_def
      split: prod.splits sum.splits reply.splits option.splits if_splits)

lemma resumeService_delete_returns:
  assumes "fst (resumeService_delete net ident b) = None" "be_rows b ident = Some row"
  shows "resumeService_delete net ident b =
     (None, started_removals row,
      b\<lparr>be_requests := be_requests b @ [DbSelect ident, DbDelete ident],
        be_rows := (be_rows b)(ident := None)\<rparr>)"
proof -
  have c: "ident \<noteq> []" "net (length (be_requests b)) (DbSelect ident) = ReplyOk"
    "net (Suc (length (be_requests b))) (DbDelete ident) = ReplyOk"
    using assms(1) by (simp_all add: resumeService_delete_succeeds_iff)
  show ?thesis
    using c assms(2)
    by (simp add: resumeService_delete_def resumeService_getById_def perform_def Let_def)
qed

text \<open>
  A call of \<open>resumeService.delete\<close> as a task in flight takes the same steps as the
  call itself.
\<close>

lemma delete_task_is_resumeService_delete:
  "ident \<noteq> [] \<Longrightarrow>
   (case task_step net (DeleteReading ident) b of
      (started, b1) \<Rightarrow>
        (case started of
           [] \<Rightarrow> ([], b1)
         | t # ts \<Rightarrow> task_step net t b1))
     = snd (resumeService_delete net ident b)"
  by (simp add: resumeService_delete_def task_step.simps
      split: prod.splits sum.splits reply.splits)

lemma started_removals_settle:
  "\<exists>k m zs. 1 \<le> k \<and> k \<le> 3 \<and> 1 \<le> m \<and> m \<le> 3 \<and>
     zs \<in> shuffles (blob_removals k (row_resume_path row) ''resumes'')
                    (blob_removals m (row_image_path row) ''resume-images'') \<and>
     be_requests (run_pool net sched (started_removals row) b) = be_requests b @ zs \<and>
     be_rows (run_pool net sched (started_removals row) b) = be_rows b"
proof (cases "row_resume_path row = None \<or> row_resume_path row = Some []")
  case no_pdf: True
  then have pdf: "blob_removals k (row_resume_path row) ''resumes'' = []" for k
    by (auto simp: blob_removals_def)
  show ?thesis
  proof (cases "row_image_path row = None \<or> row_image_path row = Some []")
    case True
    then have image: "blob_removals m (row_image_path row) ''resume-images'' = []" for m
      by (auto simp: blob_removals_def)
    have s: "started_removals row = []"
      using no_pdf True by (auto simp: started_removals_def)
    show ?thesis
      unfolding s pdf image
      by (intro exI [of _ 1] exI [of _ "[]"]) (simp add: run_pool_Nil)
  next
    case False
    then obtain p where p: "row_image_path row = Some p" "p \<noteq> []" by auto
    have image: "blob_removals m (row_image_path row) ''resume-images''
        = replicate m (StorageRemove ''resume-images'' p)" for m
      using p by (simp add: blob_removals_def)
    have s: "started_removals row = [Removing p ''resume-images'' 15000 1]"
      using no_pdf p by (auto simp: started_removals_def)
    from removing_alone_requests [of 1 net sched p "''resume-images''" 15000 b] obtain m where
      m: "1 \<le> m" "m \<le> 3"
        "be_requests (run_pool net sched [Removing p ''resume-images'' 15000 1] b)
           = be_requests b @ replicate m (StorageRemove ''resume-images'' p)"
        "be_rows (run_pool net sched [Removing p ''resume-images'' 15000 1] b) = be_rows b"
      by auto
    show ?thesis
      unfolding s pdf image
      using m
      by (intro exI [of _ 1] exI [of _ m]
            exI [of _ "replicate m (StorageRemove ''resume-images'' p)"]) simp
  qed
next
  case False
  then obtain p where p: "row_resume_path row = Some p" "p \<noteq> []" by auto
  have pdf: "blob_removals k (row_resume_path row) ''resumes''
        = replicate k (StorageRemove ''resumes'' p)" for k
    using p by (simp add: blob_removals_def)
  show ?thesis
  proof (cases "row_image_path row = None \<or> row_image_path row = Some []")
    case True
    then have image: "blob_removals m (row_image_path row) ''resume-images'' = []" for m
      by (auto simp: blob_removals_def)
    have s: "started_removals row = [Removing p ''resumes'' 15000 1]"
      using p True by (auto simp: started_removals_def)
    from removing_alone_requests [of 1 net sched p "''resumes''" 15000 b] obtain k where
      k: "1 \<le> k" "k \<le> 3"
        "be_requests (run_pool net sched [Removing p ''resumes'' 15000 1] b)
           = be_requests b @ replicate k (StorageRemove ''resumes'' p)"
        "be_rows (run_pool net sched [Removing p ''resumes'' 15000 1] b) = be_rows b"
      by auto
    show ?thesis
      unfolding s pdf image
      using k
      by (intro exI [of _ k] exI [of _ 1] exI [of _ "replicate k (StorageRemove ''resumes'' p)"])
         simp
  next
    case False
    then obtain p' where p': "row_image_path row = Some p'" "p' \<noteq> []" by auto
    have image: "blob_removals m (row_image_path row) ''resume-images''
        = replicate m (StorageRemove ''resume-images'' p')" for m
      using p' by (simp add: blob_removals_def)
    have s: "started_removals row
        = [Removing p ''resumes'' 15000 1, Removing p' ''resume-images'' 15000 1]"
      using p p' by (simp add: started_removals_def)
    from removing_pair_requests [of 1 1 "''resumes''" p "''resume-images''" p' net sched 15000 15000 b]
    obtain k m zs where
      i: "1 \<le> k" "k \<le> 3" "1 \<le> m" "m \<le> 3"
        "zs \<in> shuffles (replicate k (StorageRemove ''resumes'' p))
                       (replicate m (StorageRemove ''resume-images'' p'))"
        "be_requests (run_pool net sched
            [Removing p ''resumes'' 15000 1, Removing p' ''resume-images'' 15000 1] b)
           = be_requests b @ zs"
        "be_rows (run_pool net sched
            [Removing p ''resumes'' 15000 1, Removing p' ''resume-images'' 15000 1] b) = be_rows b"
      by auto
    show ?thesis
      unfolding s pdf image
      using i
      by (intro exI [of _ k] exI [of _ m] exI [of _ zs]) simp
  qed
qed

text \<open>
  Claim C8. \<open>resumeService.delete(id)\<close> succeeds exactly when the id is given, the
  read of the record succeeds and finds it, and the deletion of the row succeeds. Hence
  two networks that differ only in how they answer blob removals give the same outcome:
  no reply to a blob removal makes the delete fail. When it succeeds, the requests sent
  by the time it returns are the read and then the row deletion, the row is gone, and
  the deletions of the PDF blob and of the preview blob are in flight, each only when
  the record names the blob. In whatever order these then run, and whatever the backend
  replies, what they send is an interleaving of one to three removals of the PDF blob
  and one to three removals of the preview blob, and the row stays deleted.
\<close>

theorem resumeService_delete_blob_cleanup_never_fails:
  assumes agree: "\<And>n rq. \<not> is_blob_removal rq \<Longrightarrow> net' n rq = net n rq"
  shows "fst (resumeService_delete net' ident b) = fst (resumeService_delete net ident b) \<and>
         (fst (resumeService_delete net ident b) = None \<longleftrightarrow>
            ident \<noteq> [] \<and> net (length (be_requests b)) (DbSelect ident) = ReplyOk \<and>
            be_rows b ident \<noteq> None \<and>
            net (Suc (length (be_requests b))) (DbDelete ident) = ReplyOk) \<and>
         (fst (resumeService_delete net ident b) = None \<longrightarrow>
            (\<exists>row k m zs. be_rows b ident = Some row \<and>
               be_requests (snd (snd (resumeService_delete net ident b)))
                 = be_requests b @ [DbSelect ident, DbDelete ident] \<and>
               be_rows (snd (snd (resumeService_delete net ident b))) ident = None \<and>
               fst (snd (resumeService_delete net ident b)) = started_removals row \<and>
               1 \<le> k \<and> k \<le> 3 \<and> 1 \<le> m \<and> m \<le> 3 \<and>
               zs \<in> shuffles (blob_removals k (row_resume_path row) ''resumes'')
                              (blob_removals m (row_image_path row) ''resume-images'') \<and>
               be_requests (run_pool net2 sched (fst (snd (resumeService_delete net ident b)))
                              (snd (snd (resumeService_delete net ident b))))
                 = be_requests b @ [DbSelect ident, DbDelete ident] @ zs \<and>
               be_rows (run_pool net2 sched (fst (snd (resumeService_delete net ident b)))
                          (snd (snd (resumeService_delete net ident b)))) ident = None))"
proof (intro conjI impI)
  have sel: "net' (length (be_requests b)) (DbSelect ident) = net (length (be_requests b)) (DbSelect ident)"
    and del: "net' (Suc (length (be_requests b))) (DbDelete ident)
               = net (Suc (length (be_requests b))) (DbDelete ident)"
    using agree by simp_all
  show "fst (resumeService_delete net' ident b) = fst (resumeService_delete net ident b)"
    using sel del
    by (auto simp: resumeService_delete_def resumeService_getById_def perform_def Let_def
        split: prod.splits sum.splits reply.splits option.splits if_splits)
next
  show "fst (resumeService_delete net ident b) = None \<longleftrightarrow>
            ident \<noteq> [] \<and> net (length (be_requests b)) (DbSelect ident) = ReplyOk \<and>
            be_rows b ident \<noteq> None \<and>
            net (Suc (length (be_requests b))) (DbDelete ident) = ReplyOk"
    by (rule resumeService_delete_succeeds_iff)
next
  assume ok: "fst (resumeService_delete net ident b) = None"
  then have "be_rows b ident \<noteq> None" by (simp add: resumeService_delete_succeeds_iff)
  then obtain row where row: "be_rows b ident = Some row" by auto
  define b2 where "b2 = b\<lparr>be_requests := be_requests b @ [DbSelect ident, DbDelete ident],
                          be_rows := (be_rows b)(ident := None)\<rparr>"
  have d: "resumeService_delete net ident b = (None, started_removals row, b2)"
    unfolding b2_def using ok row by (rule resumeService_delete_returns)
  from started_removals_settle [of row net2 sched b2] obtain k m zs where
    i: "1 \<le> k" "k \<le> 3" "1 \<le> m" "m \<le> 3"
      "zs \<in> shuffles (blob_removals k (row_resume_path row) ''resumes'')
                     (blob_removals m (row_image_path row) ''resume-images'')"
      "be_requests (run_pool net2 sched (started_removals row) b2) = be_requests b2 @ zs"
      "be_rows (run_pool net2 sched (started_removals row) b2) = be_rows b2"
    by blast
  show "\<exists>row k m zs. be_rows b ident = Some row \<and>
               be_requests (snd (snd (resumeService_delete net ident b)))
                 = be_requests b @ [DbSelect ident, DbDelete ident] \<and>
               be_rows (snd (snd (resumeService_delete net ident b))) ident = None \<and>
               fst (snd (resumeService_delete net ident b)) = started_removals row \<and>
               1 \<le> k \<and> k \<le> 3 \<and> 1 \<le> m \<and> m \<le> 3 \<and>
               zs \<in> shuffles (blob_removals k (row_resume_path row) ''resumes'')
                              (blob_removals m (row_image_path row) ''resume-images'') \<and>
               be_requests (run_pool net2 sched (fst (snd (resumeService_delete net ident b)))
                              (snd (snd (resumeService_delete net ident b))))
                 = be_requests b @ [DbSelect ident, DbDelete ident] @ zs \<and>
               be_rows (run_pool net2 sched (fst (snd (resumeService_delete net ident b)))
                          (snd (snd (resumeService_delete net ident b)))) ident = None"
    unfolding d fst_conv snd_conv
    using row i
    by (intro exI [of _ row] exI [of _ k] exI [of _ m] exI [of _ zs]) (simp add: b2_def)
qed

theorem resumeService_delete_blob_cleanup_never_fails_witness:
  "fst (resumeService_delete net_ok ''r1'' example_backend) = None \<and>
   fst (resumeService_delete net_removals_fail ''r1'' example_backend) = None \<and>
   fst (snd (resumeService_delete net_removals_fail ''r1'' example_backend))
     = [Removing ''u1/pdf/1_a_cv.pdf'' ''resumes'' 15000 1,
        Removing ''u1/image/1_b_cv.png'' ''resume-images'' 15000 1] \<and>
   be_requests (snd (snd (resumeService_delete net_removals_fail ''r1'' example_backend)))
     = [DbSelect ''r1'', DbDelete ''r1''] \<and>
   be_requests (run_pool net_removals_fail [0, 1, 1, 0, 0, 1]
       (fst (snd (resumeService_delete net_removals_fail ''r1'' example_backend)))
       (snd (snd (resumeService_delete net_removals_fail ''r1'' example_backend))))
     = [DbSelect ''r1'', DbDelete ''r1'',
        StorageRemove ''resumes'' ''u1/pdf/1_a_cv.pdf'',
        StorageRemove ''resume-images'' ''u1/image/1_b_cv.png'',
        StorageRemove ''resume-images'' ''u1/image/1_b_cv.png'',
        StorageRemove ''resumes'' ''u1/pdf/1_a_cv.pdf'',
        StorageRemove ''resumes'' ''u1/pdf/1_a_cv.pdf'',
        StorageRemove ''resume-images'' ''u1/image/1_b_cv.png''] \<and>
   be_rows (run_pool net_removals_fail [0, 1, 1, 0, 0, 1]
       (fst (snd (resumeService_delete net_removals_fail ''r1'' example_backend)))
       (snd (snd (resumeService_delete net_removals_fail ''r1'' example_backend)))) ''r1'' = None \<and>
   be_blobs (run_pool net_ok [1, 0]
       (fst (snd (resumeService_delete net_ok ''r1'' example_backend)))
       (snd (snd (resumeService_delete net_ok ''r1'' example_backend)))) = {} \<and>
   be_requests (run_pool net_ok [1, 0]
       (fst (snd (resumeService_delete net_ok ''r1'' example_backend)))
       (snd (snd (resumeService_delete net_ok ''r1'' example_backend))))
     = [DbSelect ''r1'', DbDelete ''r1'',
        StorageRemove ''resume-images'' ''u1/image/1_b_cv.png'',
        StorageRemove ''resumes'' ''u1/pdf/1_a_cv.pdf'']"
proof -
  have a: "\<And>n rq. \<not> is_blob_removal rq \<Longrightarrow> net_ok n rq = net_removals_fail n rq"
    by (simp add: net_ok_def net_removals_fail_def)
  have e: "\<not> isRetryableError (createError ''File deletion failed: storage down'' ''DELETE_FAILED'')"
    by (simp add: isRetryableError_def retryableErrors_def createError_def toLowerCase_def lower_char_def)
  show ?thesis
    using resumeService_delete_blob_cleanup_never_fails
      [where net' = net_ok and net = net_removals_fail and ident = "''r1''" and b = example_backend
         and ?net2.0 = net_removals_fail and sched = "[0, 1, 1, 0, 0, 1]", OF a]
    by (simp add: resumeService_delete_def resumeService_getById_def perform_def Let_def
        started_removals_def run_pool.simps task_step.simps
        deleteFile_attempt_def rethrow_def e example_backend_def example_row_def
        net_ok_def net_removals_fail_def blob_removals_def; blast)
qed

subsection \<open>The upload orchestrator\<close>

lemma retry_loop_success:
  assumes fn: "\<And>a s v s'. fn a s = (Inr v, s') \<Longrightarrow> P s'"
  shows "retry_loop fn maxRetries bd md f j attempt le ds s = (Inr v, ds', s') \<Longrightarrow> P s'"
proof (induction "maxRetries + 1 - attempt" arbitrary: attempt le ds s)
  case 0
  then have "\<not> attempt \<le> maxRetries" by simp
  with "0.prems" show ?case by (simp add: retry_loop.simps [of _ _ _ _ _ _ attempt])
next
  case (Suc n)
  then have le: "attempt \<le> maxRetries" by simp
  obtain r s1 where r: "fn attempt s = (r, s1)" by (cases "fn attempt s")
  show ?case
  proof (cases r)
    case (Inr w)
    with Suc.prems le r have "s' = s1" by (simp add: retry_loop.simps [of _ _ _ _ _ _ attempt])
    with fn [of attempt s w s1] r Inr show ?thesis by simp
  next
    case (Inl e)
    show ?thesis
    proof (cases "attempt = maxRetries")
      case True
      with Suc.prems le r Inl show ?thesis by (simp add: retry_loop.simps [of _ _ _ _ _ _ maxRetries])
    next
      case False
      have n: "n = maxRetries + 1 - (attempt + 1)" using Suc.hyps(2) by simp
      have "retry_loop fn maxRetries bd md f j (attempt + 1) (Some e)
              (ds @ [backoff_delay bd md f (j attempt) attempt]) s1 = (Inr v, ds', s')"
        using Suc.prems le r Inl False by (simp add: retry_loop.simps [of _ _ _ _ _ _ attempt])
      then show ?thesis by (rule Suc.hyps(1) [OF n])
    qed
  qed
qed

lemma updateFeedback_attempt_success:
  "updateFeedback_attempt net ident feedback a b = (Inr u, b1) \<Longrightarrow>
     \<exists>row. be_rows b1 ident = Some row \<and> row_feedback row = Some feedback \<and>
           row_overall_score row = member_or_undefined feedback ''overall_score'' \<and>
           row_ats_score row = member_or_undefined feedback ''ats_score''"
  by (auto simp: updateFeedback_attempt_def perform_def Let_def
      split: reply.splits option.splits if_splits)

lemma updateFeedback_success:
  assumes "resumeService_updateFeedback net jitter ident feedback b = (Inr u, b1)"
  shows "\<exists>row. be_rows b1 ident = Some row \<and> row_feedback row = Some feedback \<and>
           row_overall_score row = member_or_undefined feedback ''overall_score'' \<and>
           row_ats_score row = member_or_undefined feedback ''ats_score''"
proof -
  from assms obtain ds where
    "retry_loop (updateFeedback_attempt net ident feedback) 2 1000 10000 2 jitter 1 None [] b
       = (Inr u, ds, b1)"
    by (auto simp: resumeService_updateFeedback_def with_retry_def retryWithBackoff_def
        split: if_splits prod.splits sum.splits)
  then show ?thesis
    by (rule retry_loop_success [rotated]) (rule updateFeedback_attempt_success)
qed


lemma updateFeedback_attempt_requests:
  "be_requests (snd (updateFeedback_attempt net ident feedback a b))
     = be_requests b @ [DbUpdate ident feedback]"
  "be_blobs (snd (updateFeedback_attempt net ident feedback a b)) = be_blobs b"
  by (simp_all add: updateFeedback_attempt_def perform_def Let_def
      split: reply.splits option.splits)

lemma updateFeedback_requests:
  assumes "ident \<noteq> []" "truthy feedback"
  shows "\<exists>k. 1 \<le> k \<and> k \<le> 2 \<and>
           be_requests (snd (resumeService_updateFeedback net jitter ident feedback b))
             = be_requests b @ replicate k (DbUpdate ident feedback) \<and>
           be_blobs (snd (resumeService_updateFeedback net jitter ident feedback b)) = be_blobs b"
proof -
  have *: "snd (resumeService_updateFeedback net jitter ident feedback b)
      = snd (snd (retry_loop (updateFeedback_attempt net ident feedback) 2 1000 10000 2 jitter 1
                    None [] b))"
    using assms
    by (simp add: resumeService_updateFeedback_def with_retry_def retryWithBackoff_def
        split: prod.splits sum.splits)
  show ?thesis
    unfolding *
    using retry_loop_requests
      [where fn = "updateFeedback_attempt net ident feedback" and obs = be_blobs and attempt = 1
          and maxRetries = 2,
        OF updateFeedback_attempt_requests]
    by simp
qed

lemma tracked_fields:
  "ps_backend (track_increment env msg s) = ps_backend s"
  "ps_feedback (track_increment env msg s) = ps_feedback s"
  "ps_aborted (track_increment env msg s) = ps_aborted s"
  "ps_currentState (track_increment env msg s) = ps_currentState s"
  "ps_backend (track_complete env msg s) = ps_backend s"
  "ps_feedback (track_complete env msg s) = ps_feedback s"
  "ps_aborted (track_complete env msg s) = ps_aborted s"
  "ps_currentState (track_complete env msg s) = ps_currentState s"
  by (simp_all add: track_increment_def track_complete_def tracked_def)

lemma placeholder_feedback_shape:
  "get_member placeholder_feedback ''overall_score'' = Inr (JNum 0)"
  "each_category_has_tip placeholder_feedback"
  "truthy placeholder_feedback"
  by (simp_all add: placeholder_feedback_def each_category_has_tip_def has_tip_def
      unavailable_category_def unavailable_tip_def)

lemma analysis_failure_then_persist:
  assumes nc: "e_cancel_at env = None"
    and ai: "fst (analyzeResumeWithPerplexity (e_parse env) (e_fetch env)) = Inl aiError"
  shows "and_then (step_analyze env) (step_persist_feedback env) s1 =
     (let s3 = track_increment env ''Saving analysis results...''
                 ((track_increment env
                     ''Analyzing resume with AI (this may take up to 90 seconds)...'' s1)
                    \<lparr>ps_feedback := placeholder_feedback\<rparr>)
      in case resumeService_updateFeedback (e_net env) (e_jitter env) (e_uuid env)
                placeholder_feedback (ps_backend s1) of
           (Inl e, b) \<Rightarrow> (Some e, s3\<lparr>ps_backend := b\<rparr>)
         | (Inr done, b) \<Rightarrow>
             (let s4 = track_complete env ''Analysis complete! Redirecting...'' (s3\<lparr>ps_backend := b\<rparr>)
              in (None,
                  s4\<lparr>ps_view := (ps_view s4)\<lparr>v_lastSuccessfulUpload := Some (e_uuid env),
                                              v_navigate := Some (ToResume (e_uuid env))\<rparr>\<rparr>)))"
  using nc ai
  by (simp add: and_then_def step_analyze_def step_persist_feedback_def at_await_def Let_def
      tracked_fields)

text \<open>
  Claim C6. Take a run of \<open>handleAnalyze\<close> by a signed-in user, without cancellation,
  in which the steps before the analysis succeed and the analysis call fails on all its
  attempts. The placeholder has \<open>overall_score\<close> 0 and a tip in each of its categories.
  After the steps before the analysis, the only requests sent are one or two attempts
  to update the record with the placeholder (no row deletion, no blob removal), and the
  blobs are as they were. When that update succeeds, the run ends there: the view
  navigates to the record, whose feedback is the placeholder with both scores 0.
\<close>

theorem ai_failure_persists_placeholder_feedback:
  assumes nc: "e_cancel_at env = None"
    and uuid: "e_uuid env \<noteq> []"
    and user: "sub_user_id sub \<noteq> []"
    and before: "fst (before_analysis env sub (start_of_run env s0)) = None"
    and ai: "fst (analyzeResumeWithPerplexity (e_parse env) (e_fetch env)) = Inl aiError"
  shows "get_member placeholder_feedback ''overall_score'' = Inr (JNum 0) \<and>
         each_category_has_tip placeholder_feedback \<and>
         (\<exists>k. 1 \<le> k \<and> k \<le> 2 \<and>
            be_requests (ps_backend (snd (try_body env sub (start_of_run env s0))))
              = be_requests (ps_backend (snd (before_analysis env sub (start_of_run env s0))))
                  @ replicate k (DbUpdate (e_uuid env) placeholder_feedback)) \<and>
         be_blobs (ps_backend (snd (try_body env sub (start_of_run env s0))))
           = be_blobs (ps_backend (snd (before_analysis env sub (start_of_run env s0)))) \<and>
         (fst (try_body env sub (start_of_run env s0)) = None \<longrightarrow>
            handleAnalyze env sub s0 = snd (try_body env sub (start_of_run env s0)) \<and>
            v_navigate (ps_view (handleAnalyze env sub s0)) = Some (ToResume (e_uuid env)) \<and>
            (\<exists>row. be_rows (ps_backend (handleAnalyze env sub s0)) (e_uuid env) = Some row \<and>
                   row_feedback row = Some placeholder_feedback \<and>
                   row_overall_score row = JNum 0 \<and> row_ats_score row = JNum 0))"
proof -
  define s1 where "s1 = snd (before_analysis env sub (start_of_run env s0))"
  define upd where "upd = resumeService_updateFeedback (e_net env) (e_jitter env) (e_uuid env)
                placeholder_feedback (ps_backend s1)"
  have b: "before_analysis env sub (start_of_run env s0) = (None, s1)"
    using before by (simp add: s1_def prod_eq_iff)
  have t: "try_body env sub (start_of_run env s0)
             = and_then (step_analyze env) (step_persist_feedback env) s1"
    by (simp add: try_body_def and_then_def [of "before_analysis env sub"] b)
  note run = analysis_failure_then_persist [OF nc ai, of s1, folded upd_def]
  have backend: "ps_backend (snd (try_body env sub (start_of_run env s0))) = snd upd"
    unfolding t run by (simp add: Let_def tracked_fields split: prod.splits sum.splits)
  from updateFeedback_requests [OF uuid placeholder_feedback_shape(3), of "e_net env" "e_jitter env" "ps_backend s1"]
  obtain k where k: "1 \<le> k" "k \<le> 2"
    "be_requests (snd upd) = be_requests (ps_backend s1) @ replicate k (DbUpdate (e_uuid env) placeholder_feedback)"
    "be_blobs (snd upd) = be_blobs (ps_backend s1)"
    unfolding upd_def by blast
  have ok: "handleAnalyze env sub s0 = snd (try_body env sub (start_of_run env s0)) \<and>
            v_navigate (ps_view (handleAnalyze env sub s0)) = Some (ToResume (e_uuid env)) \<and>
            (\<exists>row. be_rows (ps_backend (handleAnalyze env sub s0)) (e_uuid env) = Some row \<and>
                   row_feedback row = Some placeholder_feedback \<and>
                   row_overall_score row = JNum 0 \<and> row_ats_score row = JNum 0)"
    if none: "fst (try_body env sub (start_of_run env s0)) = None"
  proof -
    obtain r b' where r: "upd = (r, b')" by (cases upd)
    from none have "\<exists>u. r = Inr u"
      unfolding t run r by (cases r) (simp_all add: Let_def)
    then obtain u where u: "upd = (Inr u, b')" using r by auto
    from updateFeedback_success [OF u [unfolded upd_def]]
    obtain row where row: "be_rows b' (e_uuid env) = Some row"
      "row_feedback row = Some placeholder_feedback"
      "row_overall_score row = member_or_undefined placeholder_feedback ''overall_score''"
      "row_ats_score row = member_or_undefined placeholder_feedback ''ats_score''"
      by blast
    have h: "handleAnalyze env sub s0 = snd (try_body env sub (start_of_run env s0))"
    proof -
      obtain s2 where "try_body env sub (start_of_run env s0) = (None, s2)"
        using none by (cases "try_body env sub (start_of_run env s0)") simp
      then show ?thesis using user by (simp add: handleAnalyze_def)
    qed
    have m: "member_or_undefined placeholder_feedback ''overall_score'' = JNum 0"
      "member_or_undefined placeholder_feedback ''ats_score'' = JNum 0"
      by (simp_all add: member_or_undefined_def placeholder_feedback_def)
    have nav: "v_navigate (ps_view (snd (try_body env sub (start_of_run env s0))))
                 = Some (ToResume (e_uuid env))"
      unfolding t run u by (simp add: Let_def)
    have be: "ps_backend (snd (try_body env sub (start_of_run env s0))) = b'"
      using backend u by simp
    show ?thesis
      unfolding h using nav be row m by simp
  qed
  have A: "\<exists>k. 1 \<le> k \<and> k \<le> 2 \<and>
            be_requests (ps_backend (snd (try_body env sub (start_of_run env s0))))
              = be_requests (ps_backend (snd (before_analysis env sub (start_of_run env s0))))
                  @ replicate k (DbUpdate (e_uuid env) placeholder_feedback)"
    unfolding backend using k(1-3) by (auto simp: s1_def)
  have B: "be_blobs (ps_backend (snd (try_body env sub (start_of_run env s0))))
           = be_blobs (ps_backend (snd (before_analysis env sub (start_of_run env s0))))"
    unfolding backend using k(4) by (simp add: s1_def)
  show ?thesis
    using placeholder_feedback_shape(1,2) A B ok by blast
qed


text \<open>The example run and its variants, evaluated.\<close>

lemma example_env_fields:
  "e_net example_env = net_ok"
  "e_jitter example_env = (\<lambda>n. 0)"
  "e_pct example_env = round_percent"
  "e_uuid example_env = ''id-1''"
  "e_now_pdf example_env = ''1700000000000''"
  "e_random_pdf example_env = ''abc123''"
  "e_now_image example_env = ''1700000000500''"
  "e_random_image example_env = ''def456''"
  "e_pages example_env = Some example_pages"
  "e_preview example_env = Inr example_preview"
  "e_parse example_env = parse_sample"
  "e_fetch example_env = (\<lambda>n. HttpContent (Some text_score_82))"
  "e_cancel_at example_env = None"
  "e_schedule example_env = []"
  by (simp_all add: example_env_def)

lemma env_cancel_during_create_fields:
  "e_net env_cancel_during_create = net_ok"
  "e_jitter env_cancel_during_create = (\<lambda>n. 0)"
  "e_pct env_cancel_during_create = round_percent"
  "e_uuid env_cancel_during_create = ''id-1''"
  "e_now_pdf env_cancel_during_create = ''1700000000000''"
  "e_random_pdf env_cancel_during_create = ''abc123''"
  "e_now_image env_cancel_during_create = ''1700000000500''"
  "e_random_image env_cancel_during_create = ''def456''"
  "e_pages env_cancel_during_create = Some example_pages"
  "e_preview env_cancel_during_create = Inr example_preview"
  "e_parse env_cancel_during_create = parse_sample"
  "e_fetch env_cancel_during_create = (\<lambda>n. HttpContent (Some text_score_82))"
  "e_cancel_at env_cancel_during_create = Some AwaitCreate"
  "e_schedule env_cancel_during_create = []"
  by (simp_all add: env_cancel_during_create_def example_env_def)

lemma env_cancel_during_analysis_fields:
  "e_net env_cancel_during_analysis = net_ok"
  "e_jitter env_cancel_during_analysis = (\<lambda>n. 0)"
  "e_pct env_cancel_during_analysis = round_percent"
  "e_uuid env_cancel_during_analysis = ''id-1''"
  "e_now_pdf env_cancel_during_analysis = ''1700000000000''"
  "e_random_pdf env_cancel_during_analysis = ''abc123''"
  "e_now_image env_cancel_during_analysis = ''1700000000500''"
  "e_random_image env_cancel_during_analysis = ''def456''"
  "e_pages env_cancel_during_analysis = Some example_pages"
  "e_preview env_cancel_during_analysis = Inr example_preview"
  "e_parse env_cancel_during_analysis = parse_sample"
  "e_fetch env_cancel_during_analysis = (\<lambda>n. HttpContent (Some text_score_82))"
  "e_cancel_at env_cancel_during_analysis = Some AwaitAnalyze"
  "e_schedule env_cancel_during_analysis = []"
  by (simp_all add: env_cancel_during_analysis_def example_env_def)

lemma env_image_upload_fails_fields:
  "e_net env_image_upload_fails = net_image_upload_fails"
  "e_jitter env_image_upload_fails = (\<lambda>n. 0)"
  "e_pct env_image_upload_fails = round_percent"
  "e_uuid env_image_upload_fails = ''id-1''"
  "e_now_pdf env_image_upload_fails = ''1700000000000''"
  "e_random_pdf env_image_upload_fails = ''abc123''"
  "e_now_image env_image_upload_fails = ''1700000000500''"
  "e_random_image env_image_upload_fails = ''def456''"
  "e_pages env_image_upload_fails = Some example_pages"
  "e_preview env_image_upload_fails = Inr example_preview"
  "e_parse env_image_upload_fails = parse_sample"
  "e_fetch env_image_upload_fails = (\<lambda>n. HttpContent (Some text_score_82))"
  "e_cancel_at env_image_upload_fails = None"
  "e_schedule env_image_upload_fails = []"
  by (simp_all add: env_image_upload_fails_def example_env_def)

lemma env_ai_unreachable_fields:
  "e_net env_ai_unreachable = net_ok"
  "e_jitter env_ai_unreachable = (\<lambda>n. 0)"
  "e_pct env_ai_unreachable = round_percent"
  "e_uuid env_ai_unreachable = ''id-1''"
  "e_now_pdf env_ai_unreachable = ''1700000000000''"
  "e_random_pdf env_ai_unreachable = ''abc123''"
  "e_now_image env_ai_unreachable = ''1700000000500''"
  "e_random_image env_ai_unreachable = ''def456''"
  "e_pages env_ai_unreachable = Some example_pages"
  "e_preview env_ai_unreachable = Inr example_preview"
  "e_parse env_ai_unreachable = parse_sample"
  "e_fetch env_ai_unreachable = (\<lambda>n. FetchFailed ''Failed to fetch'')"
  "e_cancel_at env_ai_unreachable = None"
  "e_schedule env_ai_unreachable = []"
  by (simp_all add: env_ai_unreachable_def example_env_def)

lemma example_submission_fields:
  "sub_user_id example_submission = ''u1''"
  "sub_companyName example_submission = ''Acme''"
  "sub_jobTitle example_submission = ''Backend Engineer''"
  "sub_jobDescription example_submission
     = ''Design, build and run the services behind the ordering platform.''"
  "sub_file example_submission = example_file"
  by (simp_all add: example_submission_def)

lemma example_facts:
  "extractTextFromPDF (Some example_pages) = Inr example_text"
  "example_text \<noteq> []"
  "length example_text = 89"
  "file_size example_file = 52000"
  "file_size example_preview = 2048"
  "generateFilePath ''u1'' (file_name example_file) ''pdf'' ''1700000000000'' ''abc123''
     = Inr example_pdf_path"
  "generateFilePath ''u1'' (file_name example_preview) ''image'' ''1700000000500'' ''def456''
     = Inr example_image_path"
  by (simp_all add: extractTextFromPDF_def example_pages_def example_text_def trim_def
      is_space_def example_file_def example_preview_def generateFilePath_def cleanFilename_def
      keep_char_def toLowerCase_def lower_char_def example_pdf_path_def example_image_path_def
      Let_def)

lemma analyze_example:
  "fst (analyzeResumeWithPerplexity parse_sample (\<lambda>n. HttpContent (Some text_score_82)))
     = Inr (JObj [(''overall_score'', JNum 82),
                  (''categories'', JObj [(''skills'', JObj [(''score'', JNum 80)])])])"
  by (simp add: analyze_unrolled analysis_attempt_def parse_and_validate_def parse_sample_def
      stripCodeFence_def trim_def is_space_def text_score_82_def text_zero_score_def dq_def
      named_error_def Let_def)

lemma placeholder_facts:
  "truthy placeholder_feedback"
  "member_or_undefined placeholder_feedback ''overall_score'' = JNum 0"
  "member_or_undefined placeholder_feedback ''ats_score'' = JNum 0"
  by (simp_all add: placeholder_feedback_def member_or_undefined_def)

lemma analyze_unreachable:
  "fst (analyzeResumeWithPerplexity parse_sample (\<lambda>n. FetchFailed ''Failed to fetch''))
     = Inl (named_error ''TypeError'' ''Failed to fetch'')"
  by (simp add: analyze_unrolled analysis_attempt_def named_error_def)


lemma sample_score_facts:
  "member_or_undefined
     (JObj [(''overall_score'', JNum 82),
            (''categories'', JObj [(''skills'', JObj [(''score'', JNum 80)])])]) ''overall_score''
     = JNum 82"
  "member_or_undefined
     (JObj [(''overall_score'', JNum 82),
            (''categories'', JObj [(''skills'', JObj [(''score'', JNum 80)])])]) ''ats_score''
     = JUndefined"
  by (simp_all add: member_or_undefined_def)

lemmas step_defs =
  handleAnalyze_def start_of_run_def try_body_def before_analysis_def and_then_def check_cancelled_def
  step_preflight_def step_extract_def step_upload_pdf_def step_preview_def preview_failed_def
  step_persist_record_def step_analyze_def step_persist_feedback_def resumeData_def
  at_await_def handleCancel_def cleanupFailedUpload_def cleanup_tasks_def run_pool_Nil
  track_update_def track_increment_def track_complete_def tracked_def progress_callback_def
  tracker_update_def tracker_increment_def tracker_complete_def createProgressTracker_def
  initial_pstate_def initial_view_def empty_transaction_def empty_backend_def
  net_ok_def round_percent_def
  uploadFile_def uploadFile_attempt_def with_retry_def retryWithBackoff_def retry_loop.simps
  perform_def thrown_def
  resumeService_create_def create_attempt_def
  resumeService_updateFeedback_def updateFeedback_attempt_def
  new_Error_def createError_def net_image_upload_fails_def
  example_submission_fields example_facts placeholder_facts sample_score_facts
  Let_def


lemma run_ai_unreachable:
  "handleAnalyze env_ai_unreachable example_submission (initial_pstate empty_backend) =
   \<lparr>ps_backend =
      \<lparr>be_rows =
         [''id-1'' \<mapsto>
          \<lparr>row_id = ''id-1'', row_user_id = ''u1'',
             row_company_name = ''Acme'', row_job_title = ''Backend Engineer'',
             row_job_description =
               ''Design, build and run the services behind the ordering platform.'',
             row_resume_path = Some example_pdf_path,
             row_image_path = Some example_image_path,
             row_feedback = Some placeholder_feedback,
             row_overall_score = JNum 0, row_ats_score = JNum 0\<rparr>],
         be_blobs =
           {(''resume-images'', example_image_path),
            (''resumes'', example_pdf_path)},
         be_requests =
           [StorageUpload ''resumes'' example_pdf_path,
            StorageUpload ''resume-images'' example_image_path,
            DbInsert
             \<lparr>row_id = ''id-1'', row_user_id = ''u1'',
                row_company_name = ''Acme'',
                row_job_title = ''Backend Engineer'',
                row_job_description =
                  ''Design, build and run the services behind the ordering platform.'',
                row_resume_path = Some example_pdf_path,
                row_image_path = Some example_image_path, row_feedback = None,
                row_overall_score = JNull, row_ats_score = JNull\<rparr>,
            DbUpdate ''id-1'' placeholder_feedback]\<rparr>,
      ps_currentState =
        \<lparr>tx_resumeId = Some ''id-1'', tx_pdfPath = Some example_pdf_path,
           tx_imagePath = Some example_image_path, tx_dbRecordCreated = True,
           tx_filesUploaded =
             [(example_pdf_path, ''resumes''),
              (example_image_path, ''resume-images'')]\<rparr>,
      ps_view =
        \<lparr>v_isProcessing = True, v_error = [], v_progress = 100,
           v_currentStep = 7,
           v_transactionState =
             \<lparr>tx_resumeId = None, tx_pdfPath = None, tx_imagePath = None,
                tx_dbRecordCreated = False, tx_filesUploaded = []\<rparr>,
           v_navigate = Some (ToResume ''id-1''),
           v_lastSuccessfulUpload = Some ''id-1''\<rparr>,
      ps_aborted = False,
      ps_tracker =
        \<lparr>tr_totalSteps = 7, tr_currentStep = 7,
           tr_onProgress = Some progress_callback\<rparr>,
      ps_resumeText = example_text, ps_pdfPath = example_pdf_path,
      ps_imagePath = Some example_image_path,
      ps_feedback = placeholder_feedback\<rparr>"
  by (simp add: step_defs env_ai_unreachable_fields analyze_unreachable
      cong: prod.case_cong_weak let_weak_cong)

lemma before_analysis_ai_unreachable:
  "fst (before_analysis env_ai_unreachable example_submission
          (start_of_run env_ai_unreachable (initial_pstate empty_backend))) = None"
  by (simp add: step_defs env_ai_unreachable_fields cong: prod.case_cong_weak let_weak_cong)

theorem ai_failure_persists_placeholder_feedback_witness:
  "v_navigate (ps_view (handleAnalyze env_ai_unreachable example_submission
       (initial_pstate empty_backend))) = Some (ToResume ''id-1'') \<and>
   (\<exists>row. be_rows (ps_backend (handleAnalyze env_ai_unreachable example_submission
               (initial_pstate empty_backend))) ''id-1'' = Some row \<and>
          row_feedback row = Some placeholder_feedback \<and>
          row_overall_score row = JNum 0 \<and> row_ats_score row = JNum 0) \<and>
   be_blobs (ps_backend (handleAnalyze env_ai_unreachable example_submission
       (initial_pstate empty_backend)))
     = {(''resume-images'', example_image_path), (''resumes'', example_pdf_path)}"
proof -
  have nc: "e_cancel_at env_ai_unreachable = None"
    and uuid: "e_uuid env_ai_unreachable \<noteq> []"
    and user: "sub_user_id example_submission \<noteq> []"
    and ai: "fst (analyzeResumeWithPerplexity (e_parse env_ai_unreachable)
                    (e_fetch env_ai_unreachable))
               = Inl (named_error ''TypeError'' ''Failed to fetch'')"
    by (simp_all add: env_ai_unreachable_fields example_submission_fields analyze_unreachable)
  have finished: "fst (try_body env_ai_unreachable example_submission
                     (start_of_run env_ai_unreachable (initial_pstate empty_backend))) = None"
    by (simp add: step_defs env_ai_unreachable_fields analyze_unreachable
        cong: prod.case_cong_weak let_weak_cong)
  from ai_failure_persists_placeholder_feedback
      [OF nc uuid user before_analysis_ai_unreachable ai] finished
  have c: "v_navigate (ps_view (handleAnalyze env_ai_unreachable example_submission
               (initial_pstate empty_backend))) = Some (ToResume (e_uuid env_ai_unreachable)) \<and>
           (\<exists>row. be_rows (ps_backend (handleAnalyze env_ai_unreachable example_submission
               (initial_pstate empty_backend))) (e_uuid env_ai_unreachable) = Some row \<and>
              row_feedback row = Some placeholder_feedback \<and>
              row_overall_score row = JNum 0 \<and> row_ats_score row = JNum 0)"
    by blast
  have blobs: "be_blobs (ps_backend (handleAnalyze env_ai_unreachable example_submission
       (initial_pstate empty_backend)))
     = {(''resume-images'', example_image_path), (''resumes'', example_pdf_path)}"
    unfolding run_ai_unreachable by simp
  from c blobs show ?thesis
    by (simp add: env_ai_unreachable_fields)
qed

lemma cleanup_of_empty_transaction:
  "cleanupFailedUpload net sched empty_transaction b = b"
  by (simp add: cleanupFailedUpload_def cleanup_tasks_def empty_transaction_def run_pool_Nil)

lemma handleCancel_with_empty_transactionState:
  "v_transactionState (ps_view s) = empty_transaction \<Longrightarrow>
     ps_backend (handleCancel env s) = ps_backend s"
  by (simp add: handleCancel_def cleanup_of_empty_transaction)

lemma run_cancel_during_create:
  "handleAnalyze env_cancel_during_create example_submission (initial_pstate empty_backend) =
   \<lparr>ps_backend =
      \<lparr>be_rows =
         [''id-1'' \<mapsto>
          \<lparr>row_id = ''id-1'', row_user_id = ''u1'',
             row_company_name = ''Acme'', row_job_title = ''Backend Engineer'',
             row_job_description =
               ''Design, build and run the services behind the ordering platform.'',
             row_resume_path = Some example_pdf_path,
             row_image_path = Some example_image_path, row_feedback = None,
             row_overall_score = JNull, row_ats_score = JNull\<rparr>],
         be_blobs =
           {(''resume-images'', example_image_path),
            (''resumes'', example_pdf_path)},
         be_requests =
           [StorageUpload ''resumes'' example_pdf_path,
            StorageUpload ''resume-images'' example_image_path,
            DbInsert
             \<lparr>row_id = ''id-1'', row_user_id = ''u1'',
                row_company_name = ''Acme'',
                row_job_title = ''Backend Engineer'',
                row_job_description =
                  ''Design, build and run the services behind the ordering platform.'',
                row_resume_path = Some example_pdf_path,
                row_image_path = Some example_image_path, row_feedback = None,
                row_overall_score = JNull, row_ats_score = JNull\<rparr>]\<rparr>,
      ps_currentState =
        \<lparr>tx_resumeId = Some ''id-1'', tx_pdfPath = Some example_pdf_path,
           tx_imagePath = Some example_image_path, tx_dbRecordCreated = True,
           tx_filesUploaded =
             [(example_pdf_path, ''resumes''),
              (example_image_path, ''resume-images'')]\<rparr>,
      ps_view =
        \<lparr>v_isProcessing = False, v_error = [], v_progress = 100,
           v_currentStep = 7,
           v_transactionState =
             \<lparr>tx_resumeId = None, tx_pdfPath = None, tx_imagePath = None,
                tx_dbRecordCreated = False, tx_filesUploaded = []\<rparr>,
           v_navigate = None, v_lastSuccessfulUpload = None\<rparr>,
      ps_aborted = True,
      ps_tracker =
        \<lparr>tr_totalSteps = 7, tr_currentStep = 7,
           tr_onProgress = Some progress_callback\<rparr>,
      ps_resumeText = example_text, ps_pdfPath = example_pdf_path,
      ps_imagePath = Some example_image_path, ps_feedback = JUndefined\<rparr>"
  by (simp add: step_defs env_cancel_during_create_fields
      cong: prod.case_cong_weak let_weak_cong)

lemma run_cancel_during_analysis:
  "handleAnalyze env_cancel_during_analysis example_submission (initial_pstate empty_backend) =
   \<lparr>ps_backend =
      \<lparr>be_rows =
         [''id-1'' \<mapsto>
          \<lparr>row_id = ''id-1'', row_user_id = ''u1'',
             row_company_name = ''Acme'', row_job_title = ''Backend Engineer'',
             row_job_description =
               ''Design, build and run the services behind the ordering platform.'',
             row_resume_path = Some example_pdf_path,
             row_image_path = Some example_image_path,
             row_feedback =
               Some
                (JObj
                  [(''overall_score'', JNum 82),
                   (''categories'',
                    JObj [(''skills'', JObj [(''score'', JNum 80)])])]),
             row_overall_score = JNum 82, row_ats_score = JUndefined\<rparr>],
         be_blobs =
           {(''resume-images'', example_image_path),
            (''resumes'', example_pdf_path)},
         be_requests =
           [StorageUpload ''resumes'' example_pdf_path,
            StorageUpload ''resume-images'' example_image_path,
            DbInsert
             \<lparr>row_id = ''id-1'', row_user_id = ''u1'',
                row_company_name = ''Acme'',
                row_job_title = ''Backend Engineer'',
                row_job_description =
                  ''Design, build and run the services behind the ordering platform.'',
                row_resume_path = Some example_pdf_path,
                row_image_path = Some example_image_path, row_feedback = None,
                row_overall_score = JNull, row_ats_score = JNull\<rparr>,
            DbUpdate ''id-1''
             (JObj
               [(''overall_score'', JNum 82),
                (''categories'',
                 JObj [(''skills'', JObj [(''score'', JNum 80)])])])]\<rparr>,
      ps_currentState =
        \<lparr>tx_resumeId = Some ''id-1'', tx_pdfPath = Some example_pdf_path,
           tx_imagePath = Some example_image_path, tx_dbRecordCreated = True,
           tx_filesUploaded =
             [(example_pdf_path, ''resumes''),
              (example_image_path, ''resume-images'')]\<rparr>,
      ps_view =
        \<lparr>v_isProcessing = False, v_error = [], v_progress = 100,
           v_currentStep = 7,
           v_transactionState =
             \<lparr>tx_resumeId = None, tx_pdfPath = None, tx_imagePath = None,
                tx_dbRecordCreated = False, tx_filesUploaded = []\<rparr>,
           v_navigate = Some (ToResume ''id-1''),
           v_lastSuccessfulUpload = Some ''id-1''\<rparr>,
      ps_aborted = True,
      ps_tracker =
        \<lparr>tr_totalSteps = 7, tr_currentStep = 7,
           tr_onProgress = Some progress_callback\<rparr>,
      ps_resumeText = example_text, ps_pdfPath = example_pdf_path,
      ps_imagePath = Some example_image_path,
      ps_feedback =
        JObj
         [(''overall_score'', JNum 82),
          (''categories'', JObj [(''skills'', JObj [(''score'', JNum 80)])])]\<rparr>"
  by (simp add: step_defs env_cancel_during_analysis_fields analyze_example
      cong: prod.case_cong_weak let_weak_cong)

text \<open>
  Claim C1. Cancelling after the PDF blob was uploaded and the record was created is to
  leave no blob and no row. \<open>handleCancel\<close> cleans up what the React state
  \<open>transactionState\<close> records, and \<open>handleAnalyze\<close> never writes its uploads
  there (it keeps them in its local \<open>currentState\<close>), so the cleanup of a
  cancellation has nothing to delete (\<open>handleCancel_with_empty_transactionState\<close>);
  and the \<open>catch\<close> block of \<open>handleAnalyze\<close> returns on \<open>Upload cancelled\<close>
  before its own cleanup. In the example run, cancelled while the analysis is running:
  the controller is aborted and the view is no longer processing, no removal and no
  row deletion is ever requested, both blobs and the row remain, and, no check of the
  abort signal following the analysis, the run even goes on to store the feedback and
  to navigate to the record. Cancelled while the record is being created, the run stops
  at the next check, and again both blobs and the row remain.
\<close>

theorem cancel_leaves_blobs_and_row:
  "ps_aborted (handleAnalyze env_cancel_during_analysis example_submission
       (initial_pstate empty_backend)) \<and>
   v_isProcessing (ps_view (handleAnalyze env_cancel_during_analysis example_submission
       (initial_pstate empty_backend))) = False \<and>
   be_blobs (ps_backend (handleAnalyze env_cancel_during_analysis example_submission
       (initial_pstate empty_backend)))
     = {(''resume-images'', example_image_path), (''resumes'', example_pdf_path)} \<and>
   be_rows (ps_backend (handleAnalyze env_cancel_during_analysis example_submission
       (initial_pstate empty_backend))) ''id-1'' \<noteq> None \<and>
   list_all (\<lambda>rq. \<not> is_blob_removal rq \<and> rq \<noteq> DbDelete ''id-1'')
     (be_requests (ps_backend (handleAnalyze env_cancel_during_analysis example_submission
       (initial_pstate empty_backend)))) \<and>
   v_navigate (ps_view (handleAnalyze env_cancel_during_analysis example_submission
       (initial_pstate empty_backend))) = Some (ToResume ''id-1'') \<and>
   ps_aborted (handleAnalyze env_cancel_during_create example_submission
       (initial_pstate empty_backend)) \<and>
   be_blobs (ps_backend (handleAnalyze env_cancel_during_create example_submission
       (initial_pstate empty_backend)))
     = {(''resume-images'', example_image_path), (''resumes'', example_pdf_path)} \<and>
   be_rows (ps_backend (handleAnalyze env_cancel_during_create example_submission
       (initial_pstate empty_backend))) ''id-1'' \<noteq> None \<and>
   list_all (\<lambda>rq. \<not> is_blob_removal rq \<and> rq \<noteq> DbDelete ''id-1'')
     (be_requests (ps_backend (handleAnalyze env_cancel_during_create example_submission
       (initial_pstate empty_backend)))) \<and>
   tx_filesUploaded (ps_currentState (handleAnalyze env_cancel_during_create example_submission
       (initial_pstate empty_backend)))
     = [(example_pdf_path, ''resumes''), (example_image_path, ''resume-images'')] \<and>
   v_transactionState (ps_view (handleAnalyze env_cancel_during_create example_submission
       (initial_pstate empty_backend))) = empty_transaction"
  unfolding run_cancel_during_create run_cancel_during_analysis
  by (simp add: empty_transaction_def)

lemma run_image_upload_fails:
  "handleAnalyze env_image_upload_fails example_submission (initial_pstate empty_backend) =
   \<lparr>ps_backend =
      \<lparr>be_rows =
         [''id-1'' \<mapsto>
          \<lparr>row_id = ''id-1'', row_user_id = ''u1'',
             row_company_name = ''Acme'', row_job_title = ''Backend Engineer'',
             row_job_description =
               ''Design, build and run the services behind the ordering platform.'',
             row_resume_path = Some example_pdf_path,
             row_image_path = Some example_image_path,
             row_feedback =
               Some
                (JObj
                  [(''overall_score'', JNum 82),
                   (''categories'',
                    JObj [(''skills'', JObj [(''score'', JNum 80)])])]),
             row_overall_score = JNum 82, row_ats_score = JUndefined\<rparr>],
         be_blobs = {(''resumes'', example_pdf_path)},
         be_requests =
           [StorageUpload ''resumes'' example_pdf_path,
            StorageUpload ''resume-images'' example_image_path,
            StorageUpload ''resume-images'' example_image_path,
            DbInsert
             \<lparr>row_id = ''id-1'', row_user_id = ''u1'',
                row_company_name = ''Acme'',
                row_job_title = ''Backend Engineer'',
                row_job_description =
                  ''Design, build and run the services behind the ordering platform.'',
                row_resume_path = Some example_pdf_path,
                row_image_path = Some example_image_path, row_feedback = None,
                row_overall_score = JNull, row_ats_score = JNull\<rparr>,
            DbUpdate ''id-1''
             (JObj
               [(''overall_score'', JNum 82),
                (''categories'',
                 JObj [(''skills'', JObj [(''score'', JNum 80)])])])]\<rparr>,
      ps_currentState =
        \<lparr>tx_resumeId = Some ''id-1'', tx_pdfPath = Some example_pdf_path,
           tx_imagePath = None, tx_dbRecordCreated = True,
           tx_filesUploaded = [(example_pdf_path, ''resumes'')]\<rparr>,
      ps_view =
        \<lparr>v_isProcessing = True, v_error = [], v_progress = 100,
           v_currentStep = 7,
           v_transactionState =
             \<lparr>tx_resumeId = None, tx_pdfPath = None, tx_imagePath = None,
                tx_dbRecordCreated = False, tx_filesUploaded = []\<rparr>,
           v_navigate = Some (ToResume ''id-1''),
           v_lastSuccessfulUpload = Some ''id-1''\<rparr>,
      ps_aborted = False,
      ps_tracker =
        \<lparr>tr_totalSteps = 7, tr_currentStep = 7,
           tr_onProgress = Some progress_callback\<rparr>,
      ps_resumeText = example_text, ps_pdfPath = example_pdf_path,
      ps_imagePath = Some example_image_path,
      ps_feedback =
        JObj
         [(''overall_score'', JNum 82),
          (''categories'', JObj [(''skills'', JObj [(''score'', JNum 80)])])]\<rparr>"
  by (simp add: step_defs env_image_upload_fails_fields analyze_example
      cong: prod.case_cong_weak let_weak_cong)

lemma preview_failure_is_swallowed:
  "fst (step_preview env sub s) = None"
  by (simp add: step_preview_def preview_failed_def Let_def split: sum.splits prod.splits)

lemma failed_conversion_leaves_imagePath_null:
  assumes "e_preview env = Inl imageError"
  shows "ps_imagePath (snd (step_preview env sub s)) = None"
  using assms
  by (simp add: step_preview_def preview_failed_def Let_def at_await_def handleCancel_def
      track_increment_def tracked_def)

text \<open>
  Claim C7. A failure of the preview step never leaves the step
  (\<open>preview_failure_is_swallowed\<close>), and when \<open>convertPdfToImage\<close> raises the
  record is created with no image path (\<open>failed_conversion_leaves_imagePath_null\<close>).
  When it is the upload of the preview image that raises, \<open>imagePath\<close> already holds
  the generated path, assigned before the upload was awaited, and the \<open>catch\<close> block
  does not reset it. In the example run with every preview upload refused: the run
  completes and navigates to the record; the \<open>imagePath\<close> of the transaction is
  \<open>null\<close>, but the variable \<open>imagePath\<close> and the \<open>image_path\<close> of the created
  record hold the generated path, under which no blob exists.
\<close>

theorem failed_preview_upload_persists_image_path:
  "v_navigate (ps_view (handleAnalyze env_image_upload_fails example_submission
       (initial_pstate empty_backend))) = Some (ToResume ''id-1'') \<and>
   tx_imagePath (ps_currentState (handleAnalyze env_image_upload_fails example_submission
       (initial_pstate empty_backend))) = None \<and>
   ps_imagePath (handleAnalyze env_image_upload_fails example_submission
       (initial_pstate empty_backend)) = Some example_image_path \<and>
   map_option row_image_path
     (be_rows (ps_backend (handleAnalyze env_image_upload_fails example_submission
        (initial_pstate empty_backend))) ''id-1'') = Some (Some example_image_path) \<and>
   (''resume-images'', example_image_path)
     \<notin> be_blobs (ps_backend (handleAnalyze env_image_upload_fails example_submission
          (initial_pstate empty_backend)))"
  unfolding run_image_upload_fails by simp

end
